(* ===== verification/Prelude.thy ===== *)
theory Prelude
  imports Complex_Main "HOL-Library.AList" "HOL-Library.Monad_Syntax"
begin

text \<open>
  Shared vocabulary of the development: the Python built-ins the backend
  (\<open>src/backend\<close>) relies on, written as executable HOL functions.
  Strings are \<open>string\<close> (lists of bytes, UTF-8 encoded); Python \<open>str\<close> methods are
  modelled on that encoding (\<open>str.strip\<close>, \<open>str.split\<close>, \<open>str.join\<close>, \<open>chr\<close>,
  \<open>int\<close>); a Python \<open>dict\<close> is an association list updated with
  \<open>AList.update\<close> (assignment keeps the first insertion position, as CPython does);
  the values \<open>json.loads\<close> produces are the datatype \<open>json\<close>; the exceptions the
  code raises or catches are the datatype \<open>py_exc\<close>.
\<close>

named_theorems str_defs "definitions of the Python string helpers"

section \<open>Python strings\<close>

text \<open>
  Iterating over a \<open>str\<close> yields its characters (code points); on the UTF-8 bytes a
  character is a lead byte (\<open>0xC0\<close> or above) followed by its continuation bytes
  (\<open>0x80\<close>--\<open>0xBF\<close>), or a single byte below \<open>0xC0\<close>.
\<close>

definition is_cont :: "char \<Rightarrow> bool" where
  "is_cont c \<longleftrightarrow> (128::nat) \<le> of_char c \<and> of_char c < (192 :: nat)"

definition is_lead :: "char \<Rightarrow> bool" where
  "is_lead c \<longleftrightarrow> (192::nat) \<le> of_char c"

function py_chars :: "string \<Rightarrow> string list" where
  "py_chars [] = []"
| "py_chars (c # cs) =
     (if is_lead c then (c # takeWhile is_cont cs) # py_chars (dropWhile is_cont cs)
      else [c] # py_chars cs)"
  by pat_completeness auto
termination
  by (relation "measure length") (auto simp: le_imp_less_Suc length_dropWhile_le)

text \<open>
  \<open>str.isspace\<close>, which is also the class \<open>\s\<close> of a \<open>str\<close> pattern: the ASCII
  bytes 9--13 and 28--32 (\<open>is_ws\<close>) and eighteen code points beyond ASCII
  (U+0085, U+00A0, U+1680, U+2000--U+200A, U+2028, U+2029, U+202F, U+205F, U+3000),
  given by their UTF-8 encodings (lemma \<open>ws_seqs_utf8\<close> checks them against \<open>py_chr\<close>).
\<close>

definition is_ws :: "char \<Rightarrow> bool" where
  "is_ws c \<longleftrightarrow> of_char c \<in> {9, 10, 11, 12, 13, 28, 29, 30, 31, 32 :: nat}"

definition ws_seqs :: "string list" where
  "ws_seqs =
     [[CHR 0xC2, CHR 0x85], [CHR 0xC2, CHR 0xA0], [CHR 0xE1, CHR 0x9A, CHR 0x80],
      [CHR 0xE2, CHR 0x80, CHR 0x80], [CHR 0xE2, CHR 0x80, CHR 0x81], [CHR 0xE2, CHR 0x80, CHR 0x82],
      [CHR 0xE2, CHR 0x80, CHR 0x83], [CHR 0xE2, CHR 0x80, CHR 0x84], [CHR 0xE2, CHR 0x80, CHR 0x85],
      [CHR 0xE2, CHR 0x80, CHR 0x86], [CHR 0xE2, CHR 0x80, CHR 0x87], [CHR 0xE2, CHR 0x80, CHR 0x88],
      [CHR 0xE2, CHR 0x80, CHR 0x89], [CHR 0xE2, CHR 0x80, CHR 0x8A], [CHR 0xE2, CHR 0x80, CHR 0xA8],
      [CHR 0xE2, CHR 0x80, CHR 0xA9], [CHR 0xE2, CHR 0x80, CHR 0xAF], [CHR 0xE2, CHR 0x81, CHR 0x9F],
      [CHR 0xE3, CHR 0x80, CHR 0x80]]"

definition is_space :: "string \<Rightarrow> bool" where
  "is_space u \<longleftrightarrow> (case u of [c] \<Rightarrow> is_ws c | _ \<Rightarrow> u \<in> set ws_seqs)"

text \<open>\<open>str.lstrip()\<close>, \<open>str.rstrip()\<close>, \<open>str.strip()\<close>: whitespace characters are
  removed from the ends.\<close>

definition lstrip :: "string \<Rightarrow> string" where
  "lstrip s = concat (dropWhile is_space (py_chars s))"

definition rstrip :: "string \<Rightarrow> string" where
  "rstrip s = concat (rev (dropWhile is_space (rev (py_chars s))))"

definition py_strip :: "string \<Rightarrow> string" where
  "py_strip s = rstrip (lstrip s)"

text \<open>A string that \<open>str.strip\<close> leaves unchanged.\<close>

definition stripped :: "string \<Rightarrow> bool" where
  "stripped s \<longleftrightarrow> s = [] \<or> \<not> is_space (hd (py_chars s)) \<and> \<not> is_space (last (py_chars s))"

declare is_cont_def [str_defs] is_lead_def [str_defs] is_ws_def [str_defs] ws_seqs_def [str_defs]
  is_space_def [str_defs] lstrip_def [str_defs] rstrip_def [str_defs] py_strip_def [str_defs]
  stripped_def [str_defs]

text \<open>\<open>s.startswith(p)\<close> and \<open>s.endswith(p)\<close>.\<close>

definition starts_with :: "string \<Rightarrow> string \<Rightarrow> bool" where
  "starts_with p s \<longleftrightarrow> take (length p) s = p"

definition ends_with :: "string \<Rightarrow> string \<Rightarrow> bool" where
  "ends_with p s \<longleftrightarrow> length p \<le> length s \<and> drop (length s - length p) s = p"

text \<open>\<open>p in s\<close> for strings: \<open>p\<close> occurs contiguously in \<open>s\<close>.\<close>

fun py_substr :: "string \<Rightarrow> string \<Rightarrow> bool" where
  "py_substr p [] = (p = [])"
| "py_substr p (c # cs) = (starts_with p (c # cs) \<or> py_substr p cs)"

text \<open>\<open>s[:n]\<close>: the first \<open>n\<close> characters, counted in code points.\<close>

definition py_prefix :: "nat \<Rightarrow> string \<Rightarrow> string" where
  "py_prefix n s = concat (take n (py_chars s))"

text \<open>\<open>sep.join(xs)\<close>.\<close>

fun py_join :: "string \<Rightarrow> string list \<Rightarrow> string" where
  "py_join sep [] = []"
| "py_join sep [x] = x"
| "py_join sep (x # y # ys) = x @ sep @ py_join sep (y # ys)"

text \<open>
  \<open>text.split('\n\n')\<close>: a left-to-right scan that cuts at every non-overlapping
  occurrence of two newlines. The result is never empty.
\<close>

function split_nn :: "string \<Rightarrow> string list" where
  "split_nn [] = [[]]"
| "split_nn (c # cs) =
     (if c = CHR ''\<newline>'' \<and> cs \<noteq> [] \<and> hd cs = CHR ''\<newline>'' then [] # split_nn (tl cs)
      else (case split_nn cs of [] \<Rightarrow> [[c]] | p # ps \<Rightarrow> (c # p) # ps))"
  by pat_completeness auto
termination
  by (relation "measure length") auto

text \<open>
  \<open>chr(n)\<close> for a code point \<open>n\<close>, as the UTF-8 bytes of the one-character
  string it returns.
\<close>

definition py_chr :: "nat \<Rightarrow> string" where
  "py_chr n =
     (if n < 128 then [char_of n]
      else if n < 2048 then [char_of (192 + n div 64), char_of (128 + n mod 64)]
      else if n < 65536 then
        [char_of (224 + n div 4096), char_of (128 + n div 64 mod 64), char_of (128 + n mod 64)]
      else [char_of (240 + n div 262144), char_of (128 + n div 4096 mod 64),
            char_of (128 + n div 64 mod 64), char_of (128 + n mod 64)])"

section \<open>Python integers as decimal strings\<close>

definition is_digit :: "char \<Rightarrow> bool" where
  "is_digit c \<longleftrightarrow> (48::nat) \<le> of_char c \<and> of_char c < (58 :: nat)"

fun digits10 :: "nat \<Rightarrow> nat list" where
  "digits10 n = (if n < 10 then [n] else digits10 (n div 10) @ [n mod 10])"

declare digits10.simps [simp del]

text \<open>\<open>str(n)\<close> for \<open>n \<ge> 0\<close>, and for any \<open>int\<close>.\<close>

definition show_nat :: "nat \<Rightarrow> string" where
  "show_nat n = map (\<lambda>d. char_of (48 + d)) (digits10 n)"

definition show_int :: "int \<Rightarrow> string" where
  "show_int i = (if i < 0 then CHR ''-'' # show_nat (nat (- i)) else show_nat (nat i))"

text \<open>The value of a string of decimal digits.\<close>

definition digits_val :: "string \<Rightarrow> nat" where
  "digits_val s = foldl (\<lambda>acc c. 10 * acc + (of_char c - 48)) 0 s"

text \<open>
  \<open>int(s)\<close> on the strings the code passes to it, which consist of ASCII digits only:
  the empty string raises \<open>ValueError\<close> (\<open>None\<close>), leading zeros are allowed.
\<close>

definition py_int_digits :: "string \<Rightarrow> int option" where
  "py_int_digits s = (if s \<noteq> [] \<and> list_all is_digit s then Some (int (digits_val s)) else None)"

section \<open>Values produced by json.loads\<close>

text \<open>
  The Python values \<open>json.loads\<close> returns. \<open>JObj\<close> holds the items of the
  resulting \<open>dict\<close> in insertion order; Python floats are modelled as rationals.
\<close>

datatype json =
    JNull
  | JBool bool
  | JInt int
  | JFloat rat
  | JStr string
  | JArr "json list"
  | JObj "(string \<times> json) list"

text \<open>\<open>k in d\<close> and \<open>d.get(k, default)\<close> on a decoded object.\<close>

definition has_key :: "(string \<times> json) list \<Rightarrow> string \<Rightarrow> bool" where
  "has_key kvs k \<longleftrightarrow> k \<in> set (map fst kvs)"

definition dict_get :: "(string \<times> json) list \<Rightarrow> string \<Rightarrow> json \<Rightarrow> json" where
  "dict_get kvs k dflt = (case map_of kvs k of Some v \<Rightarrow> v | None \<Rightarrow> dflt)"

text \<open>
  \<open>json.dumps(v)\<close> with its defaults (\<open>ensure_ascii=True\<close>, separators
  \<open>', '\<close> and \<open>': '\<close>). A string is escaped character by character: the quote,
  the backslash and the control characters get their escapes, every character outside
  ASCII becomes \<open>\uXXXX\<close> (a surrogate pair above \<open>U+FFFF\<close>).
  Floats are printed as their decimal expansion, cut after 17 fractional digits.
\<close>

definition hex_digit :: "nat \<Rightarrow> char" where
  "hex_digit d = (if d < 10 then char_of (48 + d) else char_of (87 + d))"

definition hex4 :: "nat \<Rightarrow> string" where
  "hex4 n = map hex_digit [n div 4096 mod 16, n div 256 mod 16, n div 16 mod 16, n mod 16]"

definition utf8_code :: "string \<Rightarrow> nat" where
  "utf8_code cs = (case cs of [] \<Rightarrow> 0 | c # rest \<Rightarrow>
     (let b = of_char c; acc = (\<lambda>a x. 64 * a + (of_char x - 128)) in
      if b < 128 then b
      else if b < 224 then foldl acc (b - 192) rest
      else if b < 240 then foldl acc (b - 224) rest
      else foldl acc (b - 240) rest))"

definition json_escape_code :: "nat \<Rightarrow> string" where
  "json_escape_code n =
     (if n = 34 then [CHR 0x5C, CHR 0x22]
      else if n = 92 then [CHR 0x5C, CHR 0x5C]
      else if n = 10 then [CHR 0x5C, CHR ''n'']
      else if n = 13 then [CHR 0x5C, CHR ''r'']
      else if n = 9 then [CHR 0x5C, CHR ''t'']
      else if n = 8 then [CHR 0x5C, CHR ''b'']
      else if n = 12 then [CHR 0x5C, CHR ''f'']
      else if n < 32 then CHR 0x5C # CHR ''u'' # hex4 n
      else if n < 127 then [char_of n]
      else if n < 65536 then CHR 0x5C # CHR ''u'' # hex4 n
      else CHR 0x5C # CHR ''u'' # hex4 (55296 + (n - 65536) div 1024)
           @ CHR 0x5C # CHR ''u'' # hex4 (56320 + (n - 65536) mod 1024))"

definition dumps_str :: "string \<Rightarrow> string" where
  "dumps_str s = CHR 0x22 # concat (map (json_escape_code \<circ> utf8_code) (py_chars s)) @ [CHR 0x22]"

fun frac_digits :: "nat \<Rightarrow> nat \<Rightarrow> nat \<Rightarrow> nat list" where
  "frac_digits 0 r d = []"
| "frac_digits (Suc k) r d = (if r = 0 then [] else 10 * r div d # frac_digits k (10 * r mod d) d)"

text \<open>
  \<open>repr\<close> of a float, for the floats JSON texts denote (a rational read exactly): the
  integer part, a dot and at most 17 fraction digits. It agrees with Python's shortest
  repr for numbers in \<open>[1e-4, 1e16)\<close> written with at most 17 fraction digits; Python
  switches to exponent notation outside that range (\<open>1e+20\<close>), which is not modelled.
\<close>

definition float_repr :: "rat \<Rightarrow> string" where
  "float_repr q =
     (let (n, d) = quotient_of q; a = nat \<bar>n\<bar>; fd = frac_digits 17 (a mod nat d) (nat d) in
      (if n < 0 then ''-'' else []) @ show_nat (a div nat d) @ ''.''
      @ (if fd = [] then ''0'' else map (\<lambda>x. char_of (48 + x)) fd))"

fun json_dumps :: "json \<Rightarrow> string" where
  "json_dumps JNull = ''null''"
| "json_dumps (JBool b) = (if b then ''true'' else ''false'')"
| "json_dumps (JInt i) = show_int i"
| "json_dumps (JFloat r) = float_repr r"
| "json_dumps (JStr s) = dumps_str s"
| "json_dumps (JArr js) = ''['' @ py_join '', '' (map json_dumps js) @ '']''"
| "json_dumps (JObj kvs) =
     ''{'' @ py_join '', '' (map (\<lambda>(k, v). dumps_str k @ '': '' @ json_dumps v) kvs) @ ''}''"

section \<open>Exceptions\<close>

text \<open>
  The exceptions that reach a handler of the code. \<open>UpstreamError\<close> is any
  failure of the hosted model call (transport, authentication, quota, a blocked
  response), carrying the provider's message; \<open>HTTPException\<close> carries the status
  code and the detail string.
\<close>

datatype py_exc =
    UpstreamError string
  | JSONDecodeError
  | TypeError
  | ValueError
  | AttributeError
  | ValidationError
  | UnicodeDecodeError
  | OSError
  | HTTPException nat string

text \<open>
  \<open>str(e)\<close>: the provider message is passed through, an \<open>HTTPException\<close> renders as
  \<open>"<status>: <detail>"\<close> (Starlette's \<open>__str__\<close>); the text of library exceptions is
  abstracted to the exception's name.
\<close>

fun exc_str :: "py_exc \<Rightarrow> string" where
  "exc_str (UpstreamError m) = m"
| "exc_str JSONDecodeError = ''JSONDecodeError''"
| "exc_str TypeError = ''TypeError''"
| "exc_str ValueError = ''ValueError''"
| "exc_str AttributeError = ''AttributeError''"
| "exc_str ValidationError = ''ValidationError''"
| "exc_str UnicodeDecodeError = ''UnicodeDecodeError''"
| "exc_str OSError = ''OSError''"
| "exc_str (HTTPException c d) = show_nat c @ '': '' @ d"

text \<open>
  \<open>for x in v\<close> over a decoded value: a list yields its elements, a dict its keys, a
  string its characters; numbers, booleans and \<open>None\<close> raise \<open>TypeError\<close>.
\<close>

fun py_iter :: "json \<Rightarrow> py_exc + json list" where
  "py_iter (JArr js) = Inr js"
| "py_iter (JObj kvs) = Inr (map (JStr \<circ> fst) kvs)"
| "py_iter (JStr s) = Inr (map JStr (py_chars s))"
| "py_iter _ = Inl TypeError"

text \<open>\<open>json.loads\<close> on a text: the decoded value, or \<open>None\<close> for \<open>JSONDecodeError\<close>.\<close>

type_synonym json_loads = "string \<Rightarrow> json option"

text \<open>Propagation of an exception through the statements that follow it.\<close>

definition exc_bind :: "'e + 'a \<Rightarrow> ('a \<Rightarrow> 'e + 'b) \<Rightarrow> 'e + 'b" where
  "exc_bind x f = (case x of Inl e \<Rightarrow> Inl e | Inr a \<Rightarrow> f a)"

section \<open>Enumerations\<close>

text \<open>
  \<open>E(v)\<close> for a Python \<open>Enum\<close> whose members have string values: the member whose
  value equals \<open>v\<close>, or \<open>ValueError\<close> (\<open>None\<close>).
\<close>

definition enum_of_value :: "('e \<Rightarrow> string) \<Rightarrow> 'e list \<Rightarrow> string \<Rightarrow> 'e option" where
  "enum_of_value val members s = find (\<lambda>e. val e = s) members"

section \<open>Lemmas on strings\<close>

lemma lstrip_Nil [simp]: "lstrip [] = []" and rstrip_Nil [simp]: "rstrip [] = []"
  by (simp_all add: lstrip_def rstrip_def)

lemma concat_py_chars [simp]: "concat (py_chars s) = s"
  by (induction s rule: py_chars.induct) simp_all

lemma py_chars_Nil_iff [simp]: "py_chars s = [] \<longleftrightarrow> s = []"
  by (cases s) simp_all

lemma is_ws_byte: "is_ws c \<Longrightarrow> \<not> is_lead c \<and> \<not> is_cont c"
  by (auto simp: is_ws_def is_lead_def is_cont_def)

lemma py_chars_single: "\<not> is_lead c \<Longrightarrow> py_chars (c # s) = [c] # py_chars s"
  by simp

lemma py_chars_append:
  "ys = [] \<or> \<not> is_cont (hd ys) \<Longrightarrow> py_chars (xs @ ys) = py_chars xs @ py_chars ys"
proof (induction xs rule: py_chars.induct)
  case (2 c cs)
  show ?case
  proof (cases "is_lead c")
    case lead: True
    show ?thesis
    proof (cases "\<forall>x\<in>set cs. is_cont x")
      case True
      have ys: "takeWhile is_cont ys = []" "dropWhile is_cont ys = ys"
        using "2.prems" by (cases ys; simp)+
      have app: "takeWhile is_cont (cs @ ys) = cs" "dropWhile is_cont (cs @ ys) = ys"
        using True ys by (simp_all add: takeWhile_append2 dropWhile_append2)
      have tw: "takeWhile is_cont cs = cs" "dropWhile is_cont cs = []"
        using True by (induction cs) auto
      show ?thesis using lead by (simp only: append_Cons py_chars.simps app tw if_True) simp
    next
      case False
      then obtain x where "x \<in> set cs" "\<not> is_cont x" by blast
      with lead "2.IH"(1) "2.prems" show ?thesis
        by (simp add: takeWhile_append1 dropWhile_append1)
    qed
  next
    case False
    with "2.IH"(2) "2.prems" show ?thesis by simp
  qed
qed simp

lemma py_chars_ws: "list_all is_ws w \<Longrightarrow> py_chars (w @ s) = map (\<lambda>c. [c]) w @ py_chars s"
  by (induction w) (simp_all add: is_ws_byte)

lemma is_space_ws [simp]: "is_ws c \<Longrightarrow> is_space [c]"
  by (simp add: is_space_def)

lemma py_chars_ascii: "list_all (\<lambda>c. \<not> is_lead c) a \<Longrightarrow> py_chars (a @ s) = map (\<lambda>c. [c]) a @ py_chars s"
  by (induction a) simp_all

lemma is_digit_not_lead: "is_digit c \<Longrightarrow> \<not> is_lead c \<and> \<not> is_ws c"
  by (auto simp: is_digit_def is_lead_def is_ws_def)

lemma lstrip_append_ws [simp]: "list_all is_ws w \<Longrightarrow> lstrip (w @ s) = lstrip s"
  by (induction w) (simp_all add: lstrip_def is_ws_byte)

lemma rstrip_append_ws [simp]: "list_all is_ws w \<Longrightarrow> rstrip (s @ w) = rstrip s"
proof -
  assume w: "list_all is_ws w"
  then have "w = [] \<or> \<not> is_cont (hd w)" by (cases w) (simp_all add: is_ws_byte)
  then have "py_chars (s @ w) = py_chars s @ map (\<lambda>c. [c]) w"
    using py_chars_append py_chars_ws [OF w, of "[]"] by simp
  moreover have "dropWhile is_space (rev (map (\<lambda>c. [c]) w) @ zs) = dropWhile is_space zs" for zs
    using w by (induction w rule: rev_induct) simp_all
  ultimately show ?thesis by (simp add: rstrip_def)
qed

lemma lstrip_stripped:
  assumes "stripped b" and "b \<noteq> []" and "t = [] \<or> \<not> is_cont (hd t)"
  shows "lstrip (b @ t) = b @ t"
proof -
  obtain g gs where "py_chars b = g # gs" using assms(2) by (cases "py_chars b") simp_all
  moreover have "\<not> is_space (hd (py_chars b))" using assms(1,2) by (simp add: stripped_def)
  ultimately show ?thesis using py_chars_append [OF assms(3)] concat_py_chars [of b]
    by (simp add: lstrip_def)
qed

lemma rstrip_stripped: "stripped b \<Longrightarrow> rstrip b = b"
proof (cases "b = []")
  case False
  assume "stripped b"
  then have "\<not> is_space (last (py_chars b))" using False by (simp add: stripped_def)
  then have "dropWhile is_space (rev (py_chars b)) = rev (py_chars b)"
    using False by (cases "rev (py_chars b)") simp_all
  then show ?thesis by (simp add: rstrip_def)
qed (simp add: rstrip_def)

lemma py_strip_stripped [simp]: "stripped s \<Longrightarrow> py_strip s = s"
  using lstrip_stripped [of s "[]"] rstrip_stripped [of s] by (cases "s = []") (simp_all add: py_strip_def lstrip_def rstrip_def)

lemma concat_take_prefix: "\<exists>r. concat (take n gs) @ r = concat gs"
  by (metis append_take_drop_id concat_append)

lemma py_chars_concat_drop: "py_chars (concat (drop n (py_chars s))) = drop n (py_chars s)"
proof (induction s arbitrary: n rule: py_chars.induct)
  case (2 c cs)
  show ?case
  proof (cases n)
    case (Suc m)
    then show ?thesis using "2.IH" [of m] by (cases "is_lead c") simp_all
  qed simp
qed simp

lemma while_hd_fails: "xs = [] \<or> \<not> P (hd xs) \<Longrightarrow> takeWhile P xs = [] \<and> dropWhile P xs = xs"
  by (cases xs) auto

lemma py_chars_concat_take: "py_chars (concat (take n (py_chars s))) = take n (py_chars s)"
proof (induction s arbitrary: n rule: py_chars.induct)
  case (2 c cs)
  show ?case
  proof (cases n)
    case (Suc m)
    show ?thesis
    proof (cases "is_lead c")
      case True
      let ?tw = "takeWhile is_cont cs" and ?dw = "dropWhile is_cont cs"
      let ?x = "concat (take m (py_chars ?dw))"
      obtain r where r: "?x @ r = ?dw" using concat_take_prefix [of m "py_chars ?dw"] by auto
      have x: "?x = [] \<or> \<not> is_cont (hd ?x)"
      proof (cases ?x)
        case (Cons a l)
        then have "?dw = a # l @ r" using r by simp
        then show ?thesis using Cons hd_dropWhile [of is_cont cs] by simp
      qed simp
      have all: "\<And>y. y \<in> set ?tw \<Longrightarrow> is_cont y" by (meson set_takeWhileD)
      have tx: "takeWhile is_cont ?x = []" "dropWhile is_cont ?x = ?x"
        using while_hd_fails [of ?x is_cont] x by simp_all
      have app: "takeWhile is_cont (?tw @ ?x) = ?tw" "dropWhile is_cont (?tw @ ?x) = ?x"
        using takeWhile_append2 [of ?tw is_cont ?x] dropWhile_append2 [of ?tw is_cont ?x] all tx by simp_all
      have "concat (take n (py_chars (c # cs))) = c # ?tw @ ?x" using True Suc by simp
      moreover have "py_chars (c # ?tw @ ?x) = (c # ?tw) # py_chars ?x"
        using True by (simp only: py_chars.simps app if_True)
      ultimately show ?thesis using True Suc "2.IH"(1) [OF True, of m] by simp
    next
      case False
      then show ?thesis using Suc "2.IH"(2) [OF False, of m] by simp
    qed
  qed simp
qed simp
lemma rev_dropWhile_rev: "rev (dropWhile P (rev xs)) = take (length xs - length (takeWhile P (rev xs))) xs"
proof -
  have xs: "xs = rev (dropWhile P (rev xs)) @ rev (takeWhile P (rev xs))"
    by (metis rev_append rev_rev_ident takeWhile_dropWhile_id)
  have "length xs - length (takeWhile P (rev xs)) = length (rev (dropWhile P (rev xs)))"
    by (subst (1) xs) simp
  then show ?thesis by (metis append_eq_conv_conj xs)
qed

text \<open>\<open>s[:n]\<close> keeps the first \<open>n\<close> characters, and is a prefix of \<open>s\<close>.\<close>

lemma py_chars_py_prefix: "py_chars (py_prefix n s) = take n (py_chars s)"
  by (simp add: py_prefix_def py_chars_concat_take)

lemma py_prefix_ascii: "list_all (\<lambda>c. \<not> is_lead c) s \<Longrightarrow> py_prefix n s = take n s"
  using py_chars_ascii [of s "[]"] by (simp add: py_prefix_def take_map)

lemma py_prefix_prefix: "\<exists>q. s = py_prefix n s @ q"
  using concat_take_prefix [of n "py_chars s"] by (metis concat_py_chars py_prefix_def)

lemma stripped_py_strip [simp]: "stripped (py_strip s)"
proof -
  let ?ds = "dropWhile is_space (py_chars s)"
  let ?ys = "rev (dropWhile is_space (rev ?ds))"
  have ds: "py_chars (lstrip s) = ?ds"
    using py_chars_concat_drop [of "length (takeWhile is_space (py_chars s))" s]
    by (simp add: lstrip_def dropWhile_eq_drop)
  have ys: "py_chars (py_strip s) = ?ys"
    using py_chars_concat_take [of _ "lstrip s"] by (simp add: py_strip_def rstrip_def ds rev_dropWhile_rev)
  show ?thesis
  proof (cases "?ys = []")
    case True
    then show ?thesis by (simp add: stripped_def flip: ys)
  next
    case False
    have "?ds \<noteq> []"
    proof
      assume d: "?ds = []"
      have "?ys = rev (dropWhile is_space (rev []))" by (simp only: d)
      with False show False by simp
    qed
    then have h1: "\<not> is_space (hd ?ds)" by (rule hd_dropWhile)
    have "hd ?ys = hd ?ds"
      using False by (metis append_take_drop_id hd_append2 rev_dropWhile_rev)
    moreover have "dropWhile is_space (rev ?ds) \<noteq> []" using False by auto
    then have "\<not> is_space (last ?ys)" by (simp add: last_rev hd_dropWhile)
    ultimately show ?thesis using h1 by (simp add: stripped_def ys)
  qed
qed

lemma py_strip_idem [simp]: "py_strip (py_strip s) = py_strip s"
  by simp

lemma starts_with_same_append: "starts_with (a @ p) (a @ s) \<longleftrightarrow> starts_with p s"
  by (simp add: starts_with_def)

lemma starts_with_append [simp]: "starts_with p (p @ s)"
  by (simp add: starts_with_def)

lemma ends_with_append [simp]: "ends_with p (s @ p)"
  by (simp add: ends_with_def)

lemma split_nn_nonempty [simp]: "split_nn s \<noteq> []"
  by (induction s rule: split_nn.induct) (auto split: list.split)

lemma py_join_Cons_Cons: "py_join sep ((c # p) # ps) = c # py_join sep (p # ps)"
  by (cases ps) simp_all

text \<open>Appending one more piece to a join.\<close>

lemma py_join_snoc_snoc: "py_join sep (xs @ [a, b]) = py_join sep (xs @ [a]) @ sep @ b"
  by (induction sep xs rule: py_join.induct) simp_all

lemma py_join_snoc_append: "py_join sep (xs @ [a @ t]) = py_join sep (xs @ [a]) @ t"
  by (induction sep xs rule: py_join.induct) simp_all

text \<open>Joining the pieces of a split with the separator gives the text back.\<close>

lemma py_join_split_nn: "py_join ''\<newline>\<newline>'' (split_nn s) = s"
proof (induction s rule: split_nn.induct)
  case 1
  then show ?case by simp
next
  case (2 c cs)
  show ?case
  proof (cases "c = CHR ''\<newline>'' \<and> cs \<noteq> [] \<and> hd cs = CHR ''\<newline>''")
    case True
    then obtain r where "cs = CHR ''\<newline>'' # r" by (cases cs) auto
    with True "2.IH"(1) show ?thesis
      by (cases "split_nn r") auto
  next
    case False
    with "2.IH"(2) show ?thesis
      by (cases "split_nn cs") (auto simp: py_join_Cons_Cons)
  qed
qed


lemma exc_bind_simps [simp]: "exc_bind (Inl e) f = Inl e" "exc_bind (Inr a) f = f a"
  by (simp_all add: exc_bind_def)

lemma exc_bind_Inr: "exc_bind x f = Inr b \<Longrightarrow> \<exists>a. x = Inr a \<and> f a = Inr b"
  by (cases x) simp_all

lemma map_fst_enumerate [simp]: "map fst (enumerate n xs) = [n..<n + length xs]"
  by (induction xs arbitrary: n) (simp_all add: upt_rec)

lemma map_snd_enumerate [simp]: "map snd (enumerate n xs) = xs"
  by (induction xs arbitrary: n) simp_all

section \<open>Lemmas on decimal strings\<close>

lemma digits10_unfold: "digits10 n = (if n < 10 then [n] else digits10 (n div 10) @ [n mod 10])"
  by (rule digits10.simps)

lemma digits_val_snoc [simp]: "digits_val (s @ [c]) = 10 * digits_val s + (of_char c - 48)"
  by (simp add: digits_val_def)

lemma digits_val_show_nat [simp]: "digits_val (show_nat n) = n"
proof (induction n rule: digits10.induct)
  case (1 n)
  show ?case
  proof (cases "n < 10")
    case True
    then show ?thesis by (simp add: show_nat_def digits10_unfold [of n] digits_val_def)
  next
    case False
    then have "show_nat n = show_nat (n div 10) @ [char_of (48 + n mod 10)]"
      by (simp add: show_nat_def digits10_unfold [of n])
    with False "1.IH" show ?thesis by simp
  qed
qed

lemma show_nat_inj [simp]: "show_nat m = show_nat n \<longleftrightarrow> m = n"
  by (metis digits_val_show_nat)

lemma show_nat_nonempty [simp]: "show_nat n \<noteq> []"
  unfolding show_nat_def by (subst digits10_unfold) simp

lemma digits10_lt: "d \<in> set (digits10 n) \<Longrightarrow> d < 10"
proof (induction n rule: digits10.induct)
  case (1 n)
  then show ?case by (subst (asm) digits10_unfold [of n]) (auto split: if_splits)
qed

lemma show_nat_digits [simp]: "list_all is_digit (show_nat n)"
  by (auto simp: show_nat_def list_all_iff is_digit_def dest: digits10_lt)

lemma py_int_digits_show_nat [simp]: "py_int_digits (show_nat n) = Some (int n)"
  by (simp add: py_int_digits_def)

section \<open>Lemmas on objects and enumerations\<close>

lemma has_key_map_of: "has_key kvs k \<longleftrightarrow> map_of kvs k \<noteq> None"
  by (simp add: has_key_def map_of_eq_None_iff)

lemma enum_of_value_Some: "enum_of_value val es s = Some e \<Longrightarrow> e \<in> set es \<and> val e = s"
  by (auto simp: enum_of_value_def find_Some_iff nth_mem)

lemma enum_of_value_val:
  "distinct (map val es) \<Longrightarrow> e \<in> set es \<Longrightarrow> enum_of_value val es (val e) = Some e"
  by (induction es) (auto simp: enum_of_value_def)

section \<open>Lemmas on dictionaries\<close>

lemma set_update_subset: "set (AList.update k v al) \<subseteq> insert (k, v) (set al)"
  by (induction al) auto

lemma distinct_keys_update [simp]:
  "distinct (map fst al) \<Longrightarrow> distinct (map fst (AList.update k v al))"
  by (rule AList.distinct_update)

text \<open>Evaluation of \<open>char_of\<close> on numerals, for closed instances.\<close>

lemmas char_eval = char_of_def bit_0

lemma ws_seqs_utf8:
  "ws_seqs = map py_chr ([0x85, 0xA0, 0x1680] @ [0x2000..<0x200B] @ [0x2028, 0x2029, 0x202F, 0x205F, 0x3000])"
  by (simp add: ws_seqs_def py_chr_def upt_rec char_eval)

end
