(* ===== verification/Clean.thy ===== *)
theory Clean
  imports Prelude
begin

text \<open>
  Normalisation of a model reply before it is decoded: \<open>_clean_json_response\<close>
  (\<open>src/backend/services.py\<close>, lines 25--30), three regular-expression substitutions
  and a strip:
  \<^item> \<open>re.sub(r'^```json\s*', '', t)\<close>: a leading \<open>```json\<close> and the whitespace after it;
  \<^item> \<open>re.sub(r'^```\s*', '', t)\<close>: then a leading \<open>```\<close> and the whitespace after it;
  \<^item> \<open>re.sub(r'\s*```$', '', t)\<close>: a trailing \<open>```\<close> and the whitespace before it,
    where \<open>$\<close> also matches before a final newline, which then stays;
  \<^item> \<open>t.strip()\<close>.
  The anchored patterns match at most once, and the leftmost match of the third is
  the one that takes the whole run of whitespace before the final fence.
\<close>

definition strip_fence_prefix :: "string \<Rightarrow> string \<Rightarrow> string" where
  "strip_fence_prefix p t = (if starts_with p t then lstrip (drop (length p) t) else t)"

definition strip_fence_suffix :: "string \<Rightarrow> string" where
  "strip_fence_suffix t =
     (if ends_with ''```'' t then rstrip (take (length t - 3) t)
      else if ends_with ''```\<newline>'' t then rstrip (take (length t - 4) t) @ ''\<newline>''
      else t)"

definition clean_json_response :: "string \<Rightarrow> string" where
  "clean_json_response t =
     py_strip (strip_fence_suffix (strip_fence_prefix ''```'' (strip_fence_prefix ''```json'' t)))"

section \<open>Lemmas\<close>

lemmas clean_eval = clean_json_response_def strip_fence_prefix_def strip_fence_suffix_def
  starts_with_def ends_with_def str_defs

lemma starts_with_prefixD:
  assumes "starts_with (p @ q) t"
  shows "starts_with p t"
proof -
  have "take (length p + length q) t = p @ q" using assms by (simp add: starts_with_def)
  then have "take (length p) (take (length p + length q) t) = p" by simp
  then show ?thesis by (simp add: starts_with_def min_def)
qed

lemma not_fence_append_ws:
  assumes "\<not> starts_with ''```'' b" and "b \<noteq> []" and "list_all is_ws w" and "w \<noteq> []"
  shows "\<not> starts_with ''```'' (b @ w @ t)"
proof -
  obtain c w' where w: "w = c # w'" and c: "is_ws c" using assms(3,4) by (cases w) auto
  have c': "c \<noteq> CHR 0x60" using c by (auto simp: is_ws_def)
  obtain x r where b: "b = x # r" using assms(2) by (cases b) auto
  show ?thesis
  proof (cases r)
    case Nil
    with b w c' show ?thesis by (simp add: starts_with_def)
  next
    case (Cons y r')
    show ?thesis
    proof (cases r')
      case Nil
      with b w c' \<open>r = y # r'\<close> show ?thesis by (simp add: starts_with_def)
    next
      case (Cons z r'')
      with b \<open>r = y # r'\<close> assms(1) show ?thesis by (simp add: starts_with_def)
    qed
  qed
qed

lemma ws_fence_head: "list_all is_ws w \<Longrightarrow> \<not> is_cont (hd (w @ ''```''))"
  by (cases w) (simp_all add: is_ws_byte is_cont_def [of "CHR 0x60"])

lemma strip_fence_suffix_body:
  assumes "stripped b" and "list_all is_ws w"
  shows "strip_fence_suffix (b @ w @ ''```'') = b"
proof -
  have "ends_with ''```'' (b @ w @ ''```'')" using ends_with_append [of "''```''" "b @ w"] by simp
  moreover have "rstrip b = b" using assms(1) by (rule rstrip_stripped)
  ultimately show ?thesis using assms(2) by (simp add: strip_fence_suffix_def)
qed

lemma clean_fenced_body:
  assumes "list_all is_ws w1" and "list_all is_ws w2" and "w2 \<noteq> []"
    and "stripped b" and "\<not> starts_with ''```'' b"
  shows "strip_fence_suffix (strip_fence_prefix ''```'' (lstrip (w1 @ b @ w2 @ ''```''))) = b"
proof (cases b)
  case Nil
  have "lstrip ''```'' = ''```''" by (simp add: str_defs)
  then have "lstrip (w1 @ b @ w2 @ ''```'') = ''```''" using assms(1,2) Nil by simp
  then show ?thesis
    by (simp add: strip_fence_prefix_def strip_fence_suffix_def starts_with_def ends_with_def Nil)
next
  case (Cons c r)
  then have "lstrip (w1 @ b @ w2 @ ''```'') = b @ w2 @ ''```''"
    using assms(1) lstrip_stripped [OF assms(4)] ws_fence_head [OF assms(2)] by simp
  moreover have "\<not> starts_with ''```'' (b @ w2 @ ''```'')"
    using not_fence_append_ws assms(2,3,5) Cons by blast
  ultimately show ?thesis using strip_fence_suffix_body assms(2,4)
    by (simp add: strip_fence_prefix_def)
qed

lemma lstrip_fence_body:
  assumes "list_all is_ws w1" and "list_all is_ws w2" and "stripped b"
  shows "strip_fence_suffix (lstrip (w1 @ b @ w2 @ ''```'')) = b"
proof (cases b)
  case Nil
  have "lstrip ''```'' = ''```''" by (simp add: str_defs)
  then have "lstrip (w1 @ b @ w2 @ ''```'') = [] @ [] @ ''```''" using assms(1,2) Nil by simp
  then show ?thesis using strip_fence_suffix_body [of "[]" "[]"] Nil by (simp add: stripped_def)
next
  case (Cons c r)
  then have "lstrip (w1 @ b @ w2 @ ''```'') = b @ w2 @ ''```''"
    using assms(1) lstrip_stripped [OF assms(3)] ws_fence_head [OF assms(2)] by simp
  then show ?thesis using strip_fence_suffix_body assms(2,3) by simp
qed

subsection \<open>Properties\<close>

text \<open>
  C6. A reply wrapped in a markdown code fence, annotated \<open>json\<close> or not, with
  whitespace (typically a newline) after the opening and before the closing fence,
  comes out of \<open>_clean_json_response\<close> as exactly the wrapped text, provided that
  text is already stripped and does not itself begin with a fence.
\<close>

theorem clean_fenced:
  assumes "t \<in> {''json'', ''''}" and "list_all is_ws w1" and "w1 \<noteq> []"
    and "list_all is_ws w2" and "w2 \<noteq> []" and "stripped b" and "\<not> starts_with ''```'' b"
  shows "clean_json_response (''```'' @ t @ w1 @ b @ w2 @ ''```'') = b"
proof -
  obtain c w1' where w1: "w1 = c # w1'" and "is_ws c" using assms(2,3) by (cases w1) auto
  then have c: "c \<noteq> CHR ''j''" by (auto simp: is_ws_def)
  from assms(1) consider "t = ''json''" | "t = ''''" by blast
  then show ?thesis
  proof cases
    case 1
    then have "''```'' @ t @ w1 @ b @ w2 @ ''```'' = ''```json'' @ (w1 @ b @ w2 @ ''```'')" by simp
    then have "strip_fence_prefix ''```json'' (''```'' @ t @ w1 @ b @ w2 @ ''```'')
                 = lstrip (w1 @ b @ w2 @ ''```'')"
      by (simp only: strip_fence_prefix_def starts_with_append) simp
    with clean_fenced_body assms(2,4-7) show ?thesis by (simp add: clean_json_response_def)
  next
    case 2
    then have "\<not> starts_with ''```json'' (''```'' @ t @ w1 @ b @ w2 @ ''```'')"
      using w1 c by (simp add: starts_with_def)
    moreover have "strip_fence_prefix ''```'' (''```'' @ t @ w1 @ b @ w2 @ ''```'')
                     = lstrip (w1 @ b @ w2 @ ''```'')"
      using 2 by (simp only: strip_fence_prefix_def starts_with_append) simp
    ultimately show ?thesis using lstrip_fence_body assms(2,4,6)
      by (simp add: clean_json_response_def strip_fence_prefix_def)
  qed
qed

theorem clean_fenced_witness:
  "stripped ''[1]'' \<and> \<not> starts_with ''```'' ''[1]''
   \<and> clean_json_response (''```json\<newline>[1]\<newline>```'') = ''[1]''"
proof -
  have h: "stripped ''[1]''" "\<not> starts_with ''```'' ''[1]''"
    by (simp_all add: str_defs starts_with_def)
  have "clean_json_response (''```'' @ ''json'' @ ''\<newline>'' @ ''[1]'' @ ''\<newline>'' @ ''```'') = ''[1]''"
    by (rule clean_fenced) (simp_all add: is_ws_def h)
  with h show ?thesis by simp
qed

text \<open>
  A reply that neither starts nor ends with a fence (every JSON text, for
  instance) is only stripped of surrounding whitespace.
\<close>

theorem clean_unfenced:
  assumes "\<not> starts_with ''```'' t" and "\<not> ends_with ''```'' t"
    and "\<not> ends_with ''```\<newline>'' t"
  shows "clean_json_response t = py_strip t"
proof -
  have "\<not> starts_with ''```json'' t"
    using assms(1) starts_with_prefixD [of "''```''" "''json''" t] by auto
  with assms show ?thesis
    by (simp add: clean_json_response_def strip_fence_prefix_def strip_fence_suffix_def)
qed

theorem clean_unfenced_witness:
  "\<not> starts_with ''```'' '' {}\<newline>'' \<and> clean_json_response '' {}\<newline>'' = ''{}''"
proof -
  have h: "\<not> starts_with ''```'' '' {}\<newline>''" by (simp add: starts_with_def)
  have "clean_json_response '' {}\<newline>'' = py_strip '' {}\<newline>''"
    by (rule clean_unfenced) (simp_all add: h ends_with_def)
  also have "py_strip '' {}\<newline>'' = ''{}''" by (simp add: str_defs)
  finally show ?thesis using h by simp
qed

end
