(* ===== verification/Models.thy ===== *)
theory Models
  imports Prelude
begin

text \<open>
  The data model of \<open>src/backend/models.py\<close>: the three string enumerations as
  datatypes with their values, the pydantic models as records, and pydantic's
  validation of keyword arguments built from decoded JSON (\<open>Model(**d)\<close>) as
  option-valued constructors. Field coercion follows pydantic v2 in lax mode on the
  values JSON can produce: a \<open>str\<close> field takes a string only; a \<open>float\<close> field an
  int, a float, a bool or a numeric string (\<open>parse_float_str\<close>); a \<open>bool\<close> field a bool, the numbers 0 and 1, or one of the
  usual words; an enumeration field a member's value; an \<open>Optional\<close> field also
  \<open>null\<close> or a missing key. Extra keys are ignored, a missing required key fails.
\<close>

section \<open>Enumerations (models.py, lines 9--26)\<close>

datatype claim_status = APPROVED | REJECTED | NEEDS_MORE_INFO | PENDING_REVIEW

primrec claim_status_value :: "claim_status \<Rightarrow> string" where
  "claim_status_value APPROVED = ''approved''"
| "claim_status_value REJECTED = ''rejected''"
| "claim_status_value NEEDS_MORE_INFO = ''needs_more_info''"
| "claim_status_value PENDING_REVIEW = ''pending_review''"

definition claim_statuses :: "claim_status list" where
  "claim_statuses = [APPROVED, REJECTED, NEEDS_MORE_INFO, PENDING_REVIEW]"

datatype validation_issue_type =
    MISSING_DOCUMENT | EXCLUSION_CLAUSE | COVERAGE_LIMIT | EXPIRED_POLICY
  | INCOMPLETE_INFO | CONFLICTING_INFO

primrec validation_issue_type_value :: "validation_issue_type \<Rightarrow> string" where
  "validation_issue_type_value MISSING_DOCUMENT = ''missing_document''"
| "validation_issue_type_value EXCLUSION_CLAUSE = ''exclusion_clause''"
| "validation_issue_type_value COVERAGE_LIMIT = ''coverage_limit''"
| "validation_issue_type_value EXPIRED_POLICY = ''expired_policy''"
| "validation_issue_type_value INCOMPLETE_INFO = ''incomplete_info''"
| "validation_issue_type_value CONFLICTING_INFO = ''conflicting_info''"

definition validation_issue_types :: "validation_issue_type list" where
  "validation_issue_types = [MISSING_DOCUMENT, EXCLUSION_CLAUSE, COVERAGE_LIMIT, EXPIRED_POLICY,
     INCOMPLETE_INFO, CONFLICTING_INFO]"

datatype action_priority = HIGH | MEDIUM | LOW

primrec action_priority_value :: "action_priority \<Rightarrow> string" where
  "action_priority_value HIGH = ''high''"
| "action_priority_value MEDIUM = ''medium''"
| "action_priority_value LOW = ''low''"

definition action_priorities :: "action_priority list" where
  "action_priorities = [HIGH, MEDIUM, LOW]"

text \<open>The \<open>Literal["met", "unmet"]\<close> of \<open>VerificationChecklistItem.status\<close>.\<close>

datatype checklist_status = Met | Unmet

primrec checklist_status_value :: "checklist_status \<Rightarrow> string" where
  "checklist_status_value Met = ''met''"
| "checklist_status_value Unmet = ''unmet''"

definition checklist_statuses :: "checklist_status list" where
  "checklist_statuses = [Met, Unmet]"

text \<open>
  \<open>ClaimStatus(v)\<close> on a decoded JSON value: the member with value \<open>v\<close>, else
  \<open>ValueError\<close> (also for a value that is not a string, \<open>null\<close> included).
\<close>

fun ClaimStatus :: "json \<Rightarrow> py_exc + claim_status" where
  "ClaimStatus (JStr s) =
     (case enum_of_value claim_status_value claim_statuses s of
        Some c \<Rightarrow> Inr c | None \<Rightarrow> Inl ValueError)"
| "ClaimStatus _ = Inl ValueError"

section \<open>Models (models.py, lines 32--107)\<close>

record content_section =
  sec_id :: string
  sec_text :: string

record policy_file =
  policy_id :: string
  policy_name :: string
  policy_type :: string
  policy_size :: nat
  uploadDate :: string
  structuredContent :: "content_section list"

record processed_report =
  reportId :: string
  reportName :: string
  reportType :: string
  reportSize :: nat
  reportContent :: "content_section list"
  customerId :: string
  policy :: policy_file
  mappings :: "(string \<times> string) list"

record validation_issue =
  issueType :: validation_issue_type
  severity :: string
  issue_status :: string
  checklistItem :: string
  description :: string
  affectedSections :: "string list"
  recommendation :: string

text \<open>\<open>VerificationChecklistItem\<close>; its fields are renamed where they would clash with
  those of \<open>ValidationIssue\<close>.\<close>

record verification_checklist_item =
  checklist_name :: string
  checklist_status :: checklist_status
  details :: string
  checklist_sections :: "string list"

record claim_validation_result =
  claimId :: string
  status :: claim_status
  isValid :: bool
  confidence :: rat
  estimatedAmount :: "rat option"
  maxCoverageAmount :: "rat option"
  issues :: "validation_issue list"
  summary :: string
  timestamp :: string

record action_item =
  action_id :: string
  title :: string
  action_description :: string
  priority :: action_priority
  dueDate :: "string option"
  assignee :: "string option"
  relatedSections :: "string list"
  estimatedTime :: string

record action_plan =
  planId :: string
  plan_claimId :: string
  plan_status :: claim_status
  actions :: "action_item list"
  totalEstimatedTime :: string
  criticalPath :: "string list"
  nextSteps :: string
  plan_timestamp :: string

section \<open>Field validation\<close>

definition py_lower :: "string \<Rightarrow> string" where
  "py_lower s = map (\<lambda>c. if (65::nat) \<le> of_char c \<and> of_char c \<le> (90::nat)
                         then char_of (of_char c + (32::nat)) else c) s"

fun val_str :: "json \<Rightarrow> string option" where
  "val_str (JStr s) = Some s"
| "val_str _ = None"

text \<open>
  pydantic's lax \<open>float\<close> from a string: surrounding whitespace, an optional sign, a
  decimal mantissa with at least one digit and an optional exponent. The spellings
  \<open>inf\<close> and \<open>nan\<close>, which pydantic also accepts, have no rational value and are
  rejected here.
\<close>

definition parse_exponent :: "string \<Rightarrow> int option" where
  "parse_exponent s =
     (let (neg, ds) = (case s of CHR ''-'' # r \<Rightarrow> (True, r) | CHR ''+'' # r \<Rightarrow> (False, r)
                                | _ \<Rightarrow> (False, s))
      in if ds \<noteq> [] \<and> list_all is_digit ds
         then Some (if neg then - int (digits_val ds) else int (digits_val ds)) else None)"

definition parse_float_str :: "string \<Rightarrow> rat option" where
  "parse_float_str s0 =
     (let s = py_strip s0;
          (neg, r) = (case s of CHR ''-'' # r \<Rightarrow> (True, r) | CHR ''+'' # r \<Rightarrow> (False, r)
                               | _ \<Rightarrow> (False, s));
          a = takeWhile is_digit r; r1 = dropWhile is_digit r;
          (b, r2) = (case r1 of CHR ''.'' # t \<Rightarrow> (takeWhile is_digit t, dropWhile is_digit t)
                               | _ \<Rightarrow> ([], r1));
          ex = (case r2 of [] \<Rightarrow> Some 0
                         | c # t \<Rightarrow> if c = CHR ''e'' \<or> c = CHR ''E'' then parse_exponent t else None)
      in if a @ b = [] then None
         else map_option (\<lambda>e. (if neg then -1 else 1) * of_nat (digits_val (a @ b))
                                * power_int 10 (e - int (length b))) ex)"

fun val_float :: "json \<Rightarrow> rat option" where
  "val_float (JInt i) = Some (of_int i)"
| "val_float (JFloat r) = Some r"
| "val_float (JBool b) = Some (if b then 1 else 0)"
| "val_float (JStr s) = parse_float_str s"
| "val_float _ = None"

fun val_bool :: "json \<Rightarrow> bool option" where
  "val_bool (JBool b) = Some b"
| "val_bool (JInt i) = (if i = 0 then Some False else if i = 1 then Some True else None)"
| "val_bool (JFloat r) = (if r = 0 then Some False else if r = 1 then Some True else None)"
| "val_bool (JStr s) =
     (if py_lower s \<in> set [''1'', ''on'', ''t'', ''true'', ''y'', ''yes''] then Some True
      else if py_lower s \<in> set [''0'', ''off'', ''f'', ''false'', ''n'', ''no''] then Some False
      else None)"
| "val_bool _ = None"

fun val_str_list :: "json \<Rightarrow> string list option" where
  "val_str_list (JArr js) = those (map val_str js)"
| "val_str_list _ = None"

fun val_enum :: "('e \<Rightarrow> string) \<Rightarrow> 'e list \<Rightarrow> json \<Rightarrow> 'e option" where
  "val_enum v es (JStr s) = enum_of_value v es s"
| "val_enum v es _ = None"

text \<open>A required field, and an optional one (missing or \<open>null\<close> is \<open>None\<close>).\<close>

definition req :: "(json \<Rightarrow> 'a option) \<Rightarrow> (string \<times> json) list \<Rightarrow> string \<Rightarrow> 'a option" where
  "req f kvs k = (case map_of kvs k of Some j \<Rightarrow> f j | None \<Rightarrow> None)"

definition opt :: "(json \<Rightarrow> 'a option) \<Rightarrow> json option \<Rightarrow> 'a option option" where
  "opt f j = (case j of None \<Rightarrow> Some None | Some JNull \<Rightarrow> Some None
                | Some v \<Rightarrow> map_option Some (f v))"

text \<open>\<open>ContentSection(**d)\<close>, \<open>ValidationIssue(**d)\<close>, \<open>ActionItem(**d)\<close>.\<close>

definition mk_content_section :: "(string \<times> json) list \<Rightarrow> content_section option" where
  "mk_content_section d = do {
     i \<leftarrow> req val_str d ''id'';
     t \<leftarrow> req val_str d ''text'';
     Some \<lparr>sec_id = i, sec_text = t\<rparr>
   }"

definition mk_validation_issue :: "(string \<times> json) list \<Rightarrow> validation_issue option" where
  "mk_validation_issue d = do {
     it \<leftarrow> req (val_enum validation_issue_type_value validation_issue_types) d ''issueType'';
     sv \<leftarrow> req val_str d ''severity'';
     st \<leftarrow> req val_str d ''status'';
     ci \<leftarrow> req val_str d ''checklistItem'';
     de \<leftarrow> req val_str d ''description'';
     af \<leftarrow> req val_str_list d ''affectedSections'';
     re \<leftarrow> req val_str d ''recommendation'';
     Some \<lparr>issueType = it, severity = sv, issue_status = st, checklistItem = ci,
           description = de, affectedSections = af, recommendation = re\<rparr>
   }"

text \<open>\<open>VerificationChecklistItem(**d)\<close>.\<close>

definition mk_verification_checklist_item ::
  "(string \<times> json) list \<Rightarrow> verification_checklist_item option" where
  "mk_verification_checklist_item d = do {
     ci \<leftarrow> req val_str d ''checklistItem'';
     st \<leftarrow> req (val_enum checklist_status_value checklist_statuses) d ''status'';
     de \<leftarrow> req val_str d ''details'';
     af \<leftarrow> req val_str_list d ''affectedSections'';
     Some \<lparr>checklist_name = ci, checklist_status = st, details = de, checklist_sections = af\<rparr>
   }"

definition mk_action_item :: "(string \<times> json) list \<Rightarrow> action_item option" where
  "mk_action_item d = do {
     i \<leftarrow> req val_str d ''id'';
     ti \<leftarrow> req val_str d ''title'';
     de \<leftarrow> req val_str d ''description'';
     pr \<leftarrow> req (val_enum action_priority_value action_priorities) d ''priority'';
     du \<leftarrow> opt val_str (map_of d ''dueDate'');
     asg \<leftarrow> opt val_str (map_of d ''assignee'');
     rs \<leftarrow> req val_str_list d ''relatedSections'';
     et \<leftarrow> req val_str d ''estimatedTime'';
     Some \<lparr>action_id = i, title = ti, action_description = de, priority = pr, dueDate = du,
           assignee = asg, relatedSections = rs, estimatedTime = et\<rparr>
   }"

text \<open>A \<open>ContentSection\<close> as the JSON object a well-behaved model returns for it.\<close>

definition section_json :: "content_section \<Rightarrow> json" where
  "section_json s = JObj [(''id'', JStr (sec_id s)), (''text'', JStr (sec_text s))]"

text \<open>A \<open>VerificationChecklistItem\<close> as the dict \<open>item.model_dump()\<close> gives.\<close>

definition checklist_item_fields :: "verification_checklist_item \<Rightarrow> (string \<times> json) list" where
  "checklist_item_fields c =
     [(''checklistItem'', JStr (checklist_name c)),
      (''status'', JStr (checklist_status_value (checklist_status c))),
      (''details'', JStr (details c)),
      (''affectedSections'', JArr (map JStr (checklist_sections c)))]"

section \<open>Lemmas\<close>

lemma claim_status_value_distinct: "distinct (map claim_status_value claim_statuses)"
  by (simp add: claim_statuses_def)

lemma action_priority_value_distinct: "distinct (map action_priority_value action_priorities)"
  by (simp add: action_priorities_def)

lemma claim_status_in_members [simp]: "c \<in> set claim_statuses"
  by (cases c) (simp_all add: claim_statuses_def)

lemma action_priority_in_members [simp]: "p \<in> set action_priorities"
  by (cases p) (simp_all add: action_priorities_def)

lemma validation_issue_type_in_members [simp]: "t \<in> set validation_issue_types"
  by (cases t) (simp_all add: validation_issue_types_def)

lemma mk_content_section_section_json [simp]:
  "mk_content_section [(''id'', JStr i), (''text'', JStr t)] = Some \<lparr>sec_id = i, sec_text = t\<rparr>"
  by (simp add: mk_content_section_def req_def)

lemma those_map_val_str [simp]: "those (map (val_str \<circ> JStr) xs) = Some xs"
  by (induction xs) simp_all

text \<open>Building a checklist item from its own dump gives it back.\<close>

lemma mk_verification_checklist_item_fields:
  "mk_verification_checklist_item (checklist_item_fields c) = Some c"
  by (cases "checklist_status c")
     (simp_all add: mk_verification_checklist_item_def checklist_item_fields_def req_def
        checklist_statuses_def enum_of_value_def)

lemma val_str_Some [simp]: "val_str j = Some s \<longleftrightarrow> j = JStr s"
  by (cases j) auto

end
