(* ===== verification/Gateway.thy ===== *)
theory Gateway
  imports Models
begin

text \<open>
  The Model Gateway and the Prompt Template Library. Every service of
  \<open>src/backend/services.py\<close> calls \<open>model.generate_content(prompt)\<close>
  (\<open>src/backend/config.py\<close>, line 33) and reads \<open>response.text\<close>. The hosted model
  is an oracle: its reply to the \<open>n\<close>-th call of a request with a given prompt is
  \<open>oracle n prompt\<close>, either text (\<open>Reply\<close>) or a failure of the call (\<open>Upstream\<close>,
  with the provider's message), so every behaviour of the model is covered.
  The state the gateway threads is the request's call log: the prompts sent, in order.

  A prompt is the template the code fills in (\<open>src/backend/prompts.py\<close> and the
  f-strings of \<open>services.py\<close>) with the context it embeds; the natural-language
  instruction text around it is fixed per template and not modelled.
\<close>

section \<open>Images (the part of PIL the code uses)\<close>

datatype image_mode =
    Mode_1 | Mode_L | Mode_P | Mode_RGB | Mode_RGBA | Mode_CMYK | Mode_YCbCr | Mode_LAB
  | Mode_HSV | Mode_I | Mode_F | Mode_LA | Mode_PA | Mode_RGBX | Mode_RGBa | Mode_La

record image =
  img_mode :: image_mode
  img_pixels :: string

section \<open>Prompts\<close>

datatype prompt =
    Structure_report_prompt string
  | Structure_policy_prompt string
  | Customer_id_prompt string
  | Mapping_prompt "content_section list" "content_section list"
  | Chat_prompt string string
  | Validation_prompt "content_section list" "content_section list" "(string \<times> string) list"
  | Plan_prompt "content_section list" "content_section list" "claim_validation_result option"
  | Image_triage_prompt image
  | Compare_prompt string string
  | Payout_prompt string

section \<open>Replies and the call log\<close>

datatype reply = Reply string | Upstream string

type_synonym model_oracle = "nat \<Rightarrow> prompt \<Rightarrow> reply"

record gw_state =
  calls :: "prompt list"

text \<open>
  One call: the prompt is appended to the log and the oracle's reply for this position
  is returned. \<open>response.text\<close> of a failed call raises, which is the
  \<open>Upstream\<close> reply.
\<close>

definition generate :: "model_oracle \<Rightarrow> prompt \<Rightarrow> gw_state \<Rightarrow> reply \<times> gw_state" where
  "generate g p st = (g (length (calls st)) p, st\<lparr>calls := calls st @ [p]\<rparr>)"

text \<open>The exception a failed call raises when the service does not catch it.\<close>

fun reply_text :: "reply \<Rightarrow> py_exc + string" where
  "reply_text (Reply t) = Inr t"
| "reply_text (Upstream m) = Inl (UpstreamError m)"

text \<open>
  The clock as the request reads it: \<open>int(datetime.now().timestamp())\<close> and
  \<open>datetime.now().isoformat()\<close>. The reads of one service call are taken at one instant.
\<close>

record clock =
  now_secs :: int
  now_iso :: string

section \<open>Lemmas\<close>

lemma generate_calls [simp]: "calls (snd (generate g p st)) = calls st @ [p]"
  by (simp add: generate_def)

lemma generate_reply [simp]: "fst (generate g p st) = g (length (calls st)) p"
  by (simp add: generate_def)

end
