(* ===== verification/Sections.thy ===== *)
theory Sections
  imports Clean Gateway
begin

text \<open>
  Content structuring: \<open>structure_content_with_ai(text, file_type)\<close>
  (\<open>src/backend/services.py\<close>, lines 32--100). The model is asked for a JSON array
  of \<open>{id, text}\<close> objects. The reply is cleaned and decoded; every element that is an
  object with both keys is validated as a \<open>ContentSection\<close>, every other element is
  repaired with a synthetic id built from the element's position (\<open>report_sec_\<close>
  and \<open>chr(65 + idx)\<close>, or \<open>policy_sec_\<close> and \<open>idx + 1\<close>). A reply that does not
  decode falls back to the first ten non-blank paragraphs of the input text. Any other
  exception inside the \<open>try\<close> (a failed call, a decoded value that cannot be iterated,
  a section that fails validation) becomes \<open>HTTPException(500)\<close>.
\<close>

definition section_prefix :: "string \<Rightarrow> string" where
  "section_prefix file_type = (if file_type = ''report'' then ''report_sec_'' else ''policy_sec_'')"

definition section_label :: "string \<Rightarrow> nat \<Rightarrow> string" where
  "section_label file_type idx =
     (if file_type = ''report'' then py_chr (65 + idx) else show_nat (idx + 1))"

definition synthetic_id :: "string \<Rightarrow> nat \<Rightarrow> string" where
  "synthetic_id file_type idx = section_prefix file_type @ section_label file_type idx"

text \<open>One iteration of the loop over the decoded elements (lines 75--83).\<close>

definition section_of_element :: "string \<Rightarrow> nat \<Rightarrow> json \<Rightarrow> py_exc + content_section" where
  "section_of_element file_type idx d =
     (case d of
        JObj kvs \<Rightarrow>
          if has_key kvs ''id'' \<and> has_key kvs ''text''
          then (case mk_content_section kvs of Some s \<Rightarrow> Inr s | None \<Rightarrow> Inl ValidationError)
          else Inr \<lparr>sec_id = synthetic_id file_type idx, sec_text = json_dumps d\<rparr>
      | JStr t \<Rightarrow> Inr \<lparr>sec_id = synthetic_id file_type idx, sec_text = t\<rparr>
      | _ \<Rightarrow> Inr \<lparr>sec_id = synthetic_id file_type idx, sec_text = json_dumps d\<rparr>)"

fun sections_of_elements :: "string \<Rightarrow> nat \<Rightarrow> json list \<Rightarrow> py_exc + content_section list" where
  "sections_of_elements file_type idx [] = Inr []"
| "sections_of_elements file_type idx (d # ds) =
     exc_bind (section_of_element file_type idx d) (\<lambda>s.
     exc_bind (sections_of_elements file_type (Suc idx) ds) (\<lambda>ss. Inr (s # ss)))"

text \<open>The \<open>JSONDecodeError\<close> handler (lines 87--97).\<close>

definition paragraph_fallback :: "string \<Rightarrow> string \<Rightarrow> content_section list" where
  "paragraph_fallback file_type text =
     (let paragraphs = filter (\<lambda>p. p \<noteq> []) (map py_strip (split_nn text))
      in map (\<lambda>(i, p). \<lparr>sec_id = synthetic_id file_type i, sec_text = p\<rparr>)
             (enumerate 0 (take 10 paragraphs)))"

text \<open>\<open>f"L\<dots>i x\<dots> l\<dots> AI: {str(e)}"\<close>, the Vietnamese prefix transliterated to ASCII.\<close>

definition ai_error :: "py_exc \<Rightarrow> py_exc" where
  "ai_error e = HTTPException 500 (''Loi xu ly AI: '' @ exc_str e)"

text \<open>The \<open>try\<close> block and its handlers (lines 68--100), given the call's reply.\<close>

definition coerce_sections ::
  "json_loads \<Rightarrow> string \<Rightarrow> string \<Rightarrow> reply \<Rightarrow> py_exc + content_section list" where
  "coerce_sections loads file_type text r =
     (case reply_text r of
        Inl e \<Rightarrow> Inl (ai_error e)
      | Inr raw \<Rightarrow>
          (case loads (clean_json_response raw) of
             None \<Rightarrow> Inr (paragraph_fallback file_type text)
           | Some v \<Rightarrow> map_sum ai_error id
                         (exc_bind (py_iter v) (sections_of_elements file_type 0))))"

definition structure_prompt :: "string \<Rightarrow> string \<Rightarrow> prompt" where
  "structure_prompt file_type text =
     (if file_type = ''report'' then Structure_report_prompt text else Structure_policy_prompt text)"

definition structure_content_with_ai ::
  "model_oracle \<Rightarrow> json_loads \<Rightarrow> string \<Rightarrow> string \<Rightarrow> gw_state
     \<Rightarrow> (py_exc + content_section list) \<times> gw_state" where
  "structure_content_with_ai g loads text file_type st =
     (let (r, st') = generate g (structure_prompt file_type text) st
      in (coerce_sections loads file_type text r, st'))"

section \<open>Lemmas\<close>

lemma structure_content_with_ai_fst:
  "fst (structure_content_with_ai g loads text ft st)
     = coerce_sections loads ft text (g (length (calls st)) (structure_prompt ft text))"
  by (simp add: structure_content_with_ai_def generate_def)

text \<open>
  The report labels leave the letters after the 26th element: \<open>chr(65 + 26)\<close> is
  \<open>[\<close>.
\<close>

lemma report_label_after_Z: "synthetic_id ''report'' 26 = ''report_sec_[''"
  by (simp add: synthetic_id_def section_prefix_def section_label_def py_chr_def char_eval)

lemmas sections_eval = structure_content_with_ai_fst coerce_sections_def structure_prompt_def
  section_of_element_def synthetic_id_def section_prefix_def section_label_def py_chr_def
  has_key_def mk_content_section_def req_def ai_error_def clean_eval char_eval

lemma structure_content_with_ai_calls [simp]:
  "calls (snd (structure_content_with_ai g loads text ft st)) = calls st @ [structure_prompt ft text]"
  by (simp add: structure_content_with_ai_def generate_def)

lemma section_of_element_section_json [simp]:
  "section_of_element ft i (section_json s) = Inr s"
  by (simp add: section_of_element_def section_json_def has_key_def)

lemma sections_of_elements_section_json:
  "sections_of_elements ft i (map section_json ss) = Inr ss"
  by (induction ss arbitrary: i) simp_all

lemma sections_of_elements_nth:
  "sections_of_elements ft i ds = Inr ss \<Longrightarrow>
     length ss = length ds \<and> (\<forall>j < length ds. section_of_element ft (i + j) (ds ! j) = Inr (ss ! j))"
proof (induction ds arbitrary: i ss)
  case Nil
  then show ?case by simp
next
  case (Cons d ds)
  from Cons.prems obtain s ss' where s: "section_of_element ft i d = Inr s"
    and ss': "sections_of_elements ft (Suc i) ds = Inr ss'" and ss: "ss = s # ss'"
    by (auto dest!: exc_bind_Inr)
  from Cons.IH [OF ss'] have "length ss' = length ds"
    and IH: "\<forall>j < length ds. section_of_element ft (Suc i + j) (ds ! j) = Inr (ss' ! j)" by auto
  moreover have "section_of_element ft (i + j) ((d # ds) ! j) = Inr (ss ! j)"
    if "j < Suc (length ds)" for j
    using that s IH ss by (cases j) auto
  ultimately show ?case using ss by simp
qed

text \<open>An element that is not an object carrying both keys is repaired at its position.\<close>

lemma section_of_element_repair:
  assumes "\<not> (\<exists>kvs. d = JObj kvs \<and> has_key kvs ''id'' \<and> has_key kvs ''text'')"
  shows "section_of_element ft i d
           = Inr \<lparr>sec_id = synthetic_id ft i,
                  sec_text = (case d of JStr t \<Rightarrow> t | _ \<Rightarrow> json_dumps d)\<rparr>"
  using assms by (cases d) (auto simp: section_of_element_def)

lemma length_paragraph_fallback: "length (paragraph_fallback ft text) \<le> 10"
  by (simp add: paragraph_fallback_def)

lemma map_sec_fields:
  "map sec_id (map (\<lambda>(i, p). \<lparr>sec_id = f i, sec_text = p\<rparr>) xs) = map f (map fst xs)"
  "map sec_text (map (\<lambda>(i, p). \<lparr>sec_id = f i, sec_text = p\<rparr>) xs) = map snd xs"
  by (induction xs) auto

lemma map_sec_id_paragraph_fallback:
  "map sec_id (paragraph_fallback ft text)
     = map (synthetic_id ft) [0..<length (paragraph_fallback ft text)]"
  unfolding paragraph_fallback_def Let_def map_sec_fields by simp

lemma map_sec_text_paragraph_fallback:
  "map sec_text (paragraph_fallback ft text)
     = take 10 (filter (\<lambda>p. p \<noteq> []) (map py_strip (split_nn text)))"
  unfolding paragraph_fallback_def Let_def map_sec_fields by simp

lemma synthetic_id_inj:
  assumes "i < 63" and "j < 63" and "synthetic_id ft i = synthetic_id ft j"
  shows "i = j"
proof (cases "ft = ''report''")
  case True
  then have "char_of (65 + i) = (char_of (65 + j) :: char)"
    using assms by (simp add: synthetic_id_def section_label_def py_chr_def)
  then have "of_char (char_of (65 + i) :: char) = (of_char (char_of (65 + j) :: char) :: nat)"
    by simp
  then show ?thesis using assms(1,2) by (simp add: of_char_of)
next
  case False
  then show ?thesis using assms by (simp add: synthetic_id_def section_label_def)
qed

lemma distinct_synthetic_ids: "n \<le> 63 \<Longrightarrow> distinct (map (synthetic_id ft) [0..<n])"
  by (auto simp: distinct_map inj_on_def intro: synthetic_id_inj)

lemma section_of_element_Inl: "section_of_element ft i d = Inl e \<Longrightarrow> e = ValidationError"
  by (auto simp: section_of_element_def split: json.splits if_splits option.splits)

lemma sections_of_elements_Inl: "sections_of_elements ft i ds = Inl e \<Longrightarrow> e = ValidationError"
proof (induction ds arbitrary: i)
  case (Cons d ds)
  then show ?case
    by (cases "section_of_element ft i d"; cases "sections_of_elements ft (Suc i) ds")
       (auto dest: section_of_element_Inl)
qed simp

subsection \<open>Properties\<close>

text \<open>
  C1. When the model returns a JSON array of well-formed \<open>{id, text}\<close> objects (possibly
  inside a code fence), the structured content is exactly those sections, ids and texts
  verbatim and in order.
\<close>

theorem structure_content_verbatim:
  assumes "g (length (calls st)) (structure_prompt ft text) = Reply raw"
    and "loads (clean_json_response raw) = Some (JArr (map section_json secs))"
  shows "fst (structure_content_with_ai g loads text ft st) = Inr secs"
  using assms
  by (simp add: structure_content_with_ai_fst coerce_sections_def sections_of_elements_section_json)

theorem structure_content_verbatim_witness:
  "(\<lambda>s. if s = ''[1]'' then Some (JArr [section_json \<lparr>sec_id = ''report_sec_A'', sec_text = ''Crash''\<rparr>])
        else None) (clean_json_response ''```json\<newline>[1]\<newline>```'')
     = Some (JArr (map section_json [\<lparr>sec_id = ''report_sec_A'', sec_text = ''Crash''\<rparr>]))
   \<and> fst (structure_content_with_ai (\<lambda>_ _. Reply ''```json\<newline>[1]\<newline>```'')
          (\<lambda>s. if s = ''[1]'' then Some (JArr [section_json \<lparr>sec_id = ''report_sec_A'', sec_text = ''Crash''\<rparr>])
                else None)
          ''Crash'' ''report'' \<lparr>calls = []\<rparr>)
       = Inr [\<lparr>sec_id = ''report_sec_A'', sec_text = ''Crash''\<rparr>]"
proof -
  define L :: json_loads where "L = (\<lambda>s. if s = ''[1]''
    then Some (JArr [section_json \<lparr>sec_id = ''report_sec_A'', sec_text = ''Crash''\<rparr>]) else None)"
  define R where "R = ''```json\<newline>[1]\<newline>```''"
  define S where "S = [\<lparr>sec_id = ''report_sec_A'', sec_text = ''Crash''\<rparr>]"
  have h: "L (clean_json_response R) = Some (JArr (map section_json S))"
    by (simp add: L_def R_def S_def clean_eval)
  have "fst (structure_content_with_ai (\<lambda>_ _. Reply R) L ''Crash'' ''report'' \<lparr>calls = []\<rparr>) = Inr S"
    by (rule structure_content_verbatim [of "\<lambda>_ _. Reply R" "\<lparr>calls = []\<rparr>" "''report''" "''Crash''" R L S])
       (simp_all add: h)
  with h show ?thesis by (simp add: L_def R_def S_def)
qed

text \<open>
  C2. When the reply does not decode as JSON, the result is the first ten non-blank
  paragraphs of the input text (split at blank lines, stripped), in order, with the
  synthetic ids \<open>prefix + label(0)\<close>, \<open>prefix + label(1)\<close>, \<dots>, which are pairwise
  distinct.
\<close>

theorem structure_content_fallback:
  assumes "g (length (calls st)) (structure_prompt ft text) = Reply raw"
    and "loads (clean_json_response raw) = None"
  shows "\<exists>ss. fst (structure_content_with_ai g loads text ft st) = Inr ss
           \<and> map sec_text ss = take 10 (filter (\<lambda>p. p \<noteq> []) (map py_strip (split_nn text)))
           \<and> map sec_id ss = map (synthetic_id ft) [0..<length ss]
           \<and> distinct (map sec_id ss)"
proof -
  let ?ss = "paragraph_fallback ft text"
  have "distinct (map sec_id ?ss)"
    using map_sec_id_paragraph_fallback [of ft "text"] distinct_synthetic_ids [of "length ?ss" ft]
      length_paragraph_fallback [of ft "text"] by simp
  moreover have "fst (structure_content_with_ai g loads text ft st) = Inr ?ss"
    using assms by (simp add: structure_content_with_ai_fst coerce_sections_def)
  ultimately show ?thesis
    using map_sec_text_paragraph_fallback map_sec_id_paragraph_fallback by blast
qed

theorem structure_content_fallback_witness:
  "(\<lambda>_. None) (clean_json_response ''oops'') = (None :: json option)
   \<and> (\<exists>ss. fst (structure_content_with_ai (\<lambda>_ _. Reply ''oops'') (\<lambda>_. None)
                  ''Car hit a pole.\<newline>\<newline>  \<newline>\<newline>Driver hurt.'' ''policy'' \<lparr>calls = []\<rparr>) = Inr ss
        \<and> map sec_text ss = take 10 (filter (\<lambda>p. p \<noteq> [])
             (map py_strip (split_nn ''Car hit a pole.\<newline>\<newline>  \<newline>\<newline>Driver hurt.'')))
        \<and> map sec_id ss = map (synthetic_id ''policy'') [0..<length ss]
        \<and> distinct (map sec_id ss))"
  using structure_content_fallback [of "\<lambda>_ _. Reply ''oops''" "\<lparr>calls = []\<rparr>" "''policy''"
      "''Car hit a pole.\<newline>\<newline>  \<newline>\<newline>Driver hurt.''" "''oops''" "\<lambda>_. None"]
  by simp

text \<open>
  C3. On a decoded array the result has one section per element, in order: an element
  that is an object with both keys is validated as it stands; any other element gets
  the synthetic id of its position in the array and, as text, the string itself or the
  element serialised by \<open>json.dumps\<close>.
\<close>

theorem structure_content_repair:
  assumes "g (length (calls st)) (structure_prompt ft text) = Reply raw"
    and "loads (clean_json_response raw) = Some (JArr ds)"
    and "fst (structure_content_with_ai g loads text ft st) = Inr ss"
  shows "length ss = length ds \<and>
         (\<forall>i < length ds.
            (\<forall>kvs. ds ! i = JObj kvs \<and> has_key kvs ''id'' \<and> has_key kvs ''text''
                     \<longrightarrow> mk_content_section kvs = Some (ss ! i)) \<and>
            ((\<nexists>kvs. ds ! i = JObj kvs \<and> has_key kvs ''id'' \<and> has_key kvs ''text'')
                     \<longrightarrow> sec_id (ss ! i) = synthetic_id ft i
                       \<and> sec_text (ss ! i) = (case ds ! i of JStr t \<Rightarrow> t | _ \<Rightarrow> json_dumps (ds ! i))))"
proof -
  have "sections_of_elements ft 0 ds = Inr ss"
    using assms by (auto simp: structure_content_with_ai_fst coerce_sections_def map_sum_def
        split: sum.splits)
  from sections_of_elements_nth [OF this]
  have len: "length ss = length ds"
    and el: "\<And>i. i < length ds \<Longrightarrow> section_of_element ft i (ds ! i) = Inr (ss ! i)" by auto
  have "mk_content_section kvs = Some (ss ! i)"
    if "i < length ds" "ds ! i = JObj kvs" "has_key kvs ''id''" "has_key kvs ''text''" for i kvs
    using el [OF that(1)] that(2-4)
    by (auto simp: section_of_element_def split: option.splits)
  moreover have "sec_id (ss ! i) = synthetic_id ft i
                   \<and> sec_text (ss ! i) = (case ds ! i of JStr t \<Rightarrow> t | _ \<Rightarrow> json_dumps (ds ! i))"
    if "i < length ds" "\<nexists>kvs. ds ! i = JObj kvs \<and> has_key kvs ''id'' \<and> has_key kvs ''text''" for i
  proof -
    have "ss ! i = \<lparr>sec_id = synthetic_id ft i,
                     sec_text = (case ds ! i of JStr t \<Rightarrow> t | _ \<Rightarrow> json_dumps (ds ! i))\<rparr>"
      using el [OF that(1)] section_of_element_repair [OF that(2), of ft i] by simp
    then show ?thesis by simp
  qed
  ultimately show ?thesis using len by blast
qed

theorem structure_content_repair_witness:
  "length [\<lparr>sec_id = ''report_sec_A'', sec_text = ''Crash''\<rparr>, \<lparr>sec_id = ''r1'', sec_text = ''t''\<rparr>,
           \<lparr>sec_id = ''report_sec_C'', sec_text = ''5''\<rparr>]
     = length [JStr ''Crash'', JObj [(''id'', JStr ''r1''), (''text'', JStr ''t'')], JInt 5]
   \<and> sec_id ([\<lparr>sec_id = ''report_sec_A'', sec_text = ''Crash''\<rparr>, \<lparr>sec_id = ''r1'', sec_text = ''t''\<rparr>,
           \<lparr>sec_id = ''report_sec_C'', sec_text = ''5''\<rparr>] ! 2) = synthetic_id ''report'' 2"
proof -
  define D where "D = [JStr ''Crash'', JObj [(''id'', JStr ''r1''), (''text'', JStr ''t'')], JInt 5]"
  define S where "S = [\<lparr>sec_id = ''report_sec_A'', sec_text = ''Crash''\<rparr>, \<lparr>sec_id = ''r1'', sec_text = ''t''\<rparr>,
           \<lparr>sec_id = ''report_sec_C'', sec_text = ''5''\<rparr>]"
  define L :: json_loads where "L = (\<lambda>s. if s = ''[]'' then Some (JArr D) else None)"
  have h1: "L (clean_json_response ''[]'') = Some (JArr D)" by (simp add: L_def clean_eval)
  have h2: "fst (structure_content_with_ai (\<lambda>_ _. Reply ''[]'') L ''x'' ''report'' \<lparr>calls = []\<rparr>) = Inr S"
    using h1 by (simp add: sections_eval D_def S_def show_int_def show_nat_def digits10.simps)
  have "length S = length D \<and> (\<forall>i < length D.
            (\<forall>kvs. D ! i = JObj kvs \<and> has_key kvs ''id'' \<and> has_key kvs ''text''
                     \<longrightarrow> mk_content_section kvs = Some (S ! i)) \<and>
            ((\<nexists>kvs. D ! i = JObj kvs \<and> has_key kvs ''id'' \<and> has_key kvs ''text'')
                     \<longrightarrow> sec_id (S ! i) = synthetic_id ''report'' i
                       \<and> sec_text (S ! i) = (case D ! i of JStr t \<Rightarrow> t | _ \<Rightarrow> json_dumps (D ! i))))"
    by (rule structure_content_repair [of "\<lambda>_ _. Reply ''[]''" "\<lparr>calls = []\<rparr>" "''report''" "''x''"
          "''[]''" L D S]) (simp_all add: h1 h2)
  then have "length S = length D" and "sec_id (S ! 2) = synthetic_id ''report'' 2"
    by (auto simp: D_def)
  then show ?thesis by (simp add: S_def D_def)
qed

text \<open>
  C4. A failed model call is surfaced as \<open>HTTPException(500)\<close> carrying the provider's
  message; there is no fallback for it.
\<close>

theorem structure_content_upstream:
  assumes "g (length (calls st)) (structure_prompt ft text) = Upstream m"
  shows "fst (structure_content_with_ai g loads text ft st)
           = Inl (HTTPException 500 (''Loi xu ly AI: '' @ m))"
  using assms by (simp add: structure_content_with_ai_fst coerce_sections_def ai_error_def)

theorem structure_content_upstream_witness:
  "fst (structure_content_with_ai (\<lambda>_ _. Upstream ''429 quota exceeded'') (\<lambda>_. None) ''x'' ''report''
          \<lparr>calls = []\<rparr>)
     = Inl (HTTPException 500 (''Loi xu ly AI: '' @ ''429 quota exceeded''))"
  by (rule structure_content_upstream) simp

text \<open>
  C5. An element that carries both keys but fails validation (an \<open>id\<close> or \<open>text\<close>
  that is not a string) is not repaired: the whole request fails with
  \<open>HTTPException(500)\<close>, and the paragraph fallback is not used.
\<close>

theorem structure_content_invalid_section:
  assumes "g (length (calls st)) (structure_prompt ft text) = Reply raw"
    and "loads (clean_json_response raw) = Some (JArr ds)"
    and "i < length ds" and "ds ! i = JObj kvs" and "has_key kvs ''id''" and "has_key kvs ''text''"
    and "mk_content_section kvs = None"
  shows "fst (structure_content_with_ai g loads text ft st)
           = Inl (HTTPException 500 ''Loi xu ly AI: ValidationError'')"
proof -
  have bad: "section_of_element ft (0 + i) (ds ! i) = Inl ValidationError"
    using assms(4-7) by (simp add: section_of_element_def)
  have "sections_of_elements ft 0 ds = Inl ValidationError"
  proof (cases "sections_of_elements ft 0 ds")
    case (Inl e)
    then show ?thesis using sections_of_elements_Inl by blast
  next
    case (Inr ss)
    from sections_of_elements_nth [OF this] assms(3) bad show ?thesis by auto
  qed
  then show ?thesis
    using assms(1,2) by (simp add: structure_content_with_ai_fst coerce_sections_def ai_error_def)
qed

theorem structure_content_invalid_section_witness:
  "mk_content_section [(''id'', JInt 7), (''text'', JStr ''t'')] = None
   \<and> fst (structure_content_with_ai (\<lambda>_ _. Reply ''[]'')
          (\<lambda>_. Some (JArr [JObj [(''id'', JInt 7), (''text'', JStr ''t'')]])) ''x'' ''report'' \<lparr>calls = []\<rparr>)
     = Inl (HTTPException 500 ''Loi xu ly AI: ValidationError'')"
proof -
  have h: "mk_content_section [(''id'', JInt 7), (''text'', JStr ''t'')] = None"
    by (simp add: mk_content_section_def req_def)
  have "fst (structure_content_with_ai (\<lambda>_ _. Reply ''[]'')
          (\<lambda>_. Some (JArr [JObj [(''id'', JInt 7), (''text'', JStr ''t'')]])) ''x'' ''report'' \<lparr>calls = []\<rparr>)
     = Inl (HTTPException 500 ''Loi xu ly AI: ValidationError'')"
    by (rule structure_content_invalid_section [of "\<lambda>_ _. Reply ''[]''" "\<lparr>calls = []\<rparr>" "''report''"
          "''x''" "''[]''" "\<lambda>_. Some (JArr [JObj [(''id'', JInt 7), (''text'', JStr ''t'')]])"
          "[JObj [(''id'', JInt 7), (''text'', JStr ''t'')]]" 0
          "[(''id'', JInt 7), (''text'', JStr ''t'')]"])
       (simp_all only: h has_key_def, simp_all)
  with h show ?thesis by simp
qed

end
