(* ===== verification/Mappings.thy ===== *)
theory Mappings
  imports Clean Gateway
begin

text \<open>
  Section mapping: \<open>create_mappings_with_ai(report_content, policy_content)\<close>
  (\<open>src/backend/services.py\<close>, lines 152--200). The model is asked for a JSON object
  from report-section ids to policy-section ids. The decoded dict is filtered by the
  comprehension of lines 188--191, which keeps an item when its key is a report id and
  its value a policy id; the membership test \<open>v in valid_policy_ids\<close> raises
  \<open>TypeError\<close> on an unhashable value (a list or a dict), and only for an item whose
  key passed the first test. Every exception (a failed call, \<open>JSONDecodeError\<close>, a
  decoded value without \<open>.items()\<close>, the \<open>TypeError\<close>) is caught and answered by the
  positional pairing of lines 197--200.
\<close>

text \<open>\<open>v in valid_policy_ids\<close>: \<open>Some v\<close> when the test holds.\<close>

fun policy_member :: "string list \<Rightarrow> json \<Rightarrow> py_exc + string option" where
  "policy_member P (JStr s) = Inr (if s \<in> set P then Some s else None)"
| "policy_member P (JArr _) = Inl TypeError"
| "policy_member P (JObj _) = Inl TypeError"
| "policy_member P _ = Inr None"

text \<open>The dict comprehension, building the new dict with item assignment.\<close>

fun filter_mapping_items ::
  "string list \<Rightarrow> string list \<Rightarrow> (string \<times> json) list \<Rightarrow> (string \<times> string) list
     \<Rightarrow> py_exc + (string \<times> string) list" where
  "filter_mapping_items R P [] acc = Inr acc"
| "filter_mapping_items R P ((k, v) # kvs) acc =
     (if k \<in> set R
      then exc_bind (policy_member P v) (\<lambda>hit.
             filter_mapping_items R P kvs
               (case hit of Some s \<Rightarrow> AList.update k s acc | None \<Rightarrow> acc))
      else filter_mapping_items R P kvs acc)"

text \<open>The handler: \<open>mappings[report_sec.id] = policy_content[i].id\<close> along both lists.\<close>

definition positional_mappings ::
  "content_section list \<Rightarrow> content_section list \<Rightarrow> (string \<times> string) list" where
  "positional_mappings report_content policy_content =
     foldl (\<lambda>m (r, p). AList.update (sec_id r) (sec_id p) m) [] (zip report_content policy_content)"

definition coerce_mappings ::
  "json_loads \<Rightarrow> content_section list \<Rightarrow> content_section list \<Rightarrow> reply \<Rightarrow> (string \<times> string) list"
where
  "coerce_mappings loads report_content policy_content r =
     (let fallback = positional_mappings report_content policy_content in
      case reply_text r of
        Inl _ \<Rightarrow> fallback
      | Inr raw \<Rightarrow>
          (case loads (clean_json_response raw) of
             Some (JObj kvs) \<Rightarrow>
               (case filter_mapping_items (map sec_id report_content) (map sec_id policy_content) kvs []
                of Inr m \<Rightarrow> m | Inl _ \<Rightarrow> fallback)
           | _ \<Rightarrow> fallback))"

definition create_mappings_with_ai ::
  "model_oracle \<Rightarrow> json_loads \<Rightarrow> content_section list \<Rightarrow> content_section list \<Rightarrow> gw_state
     \<Rightarrow> (string \<times> string) list \<times> gw_state" where
  "create_mappings_with_ai g loads report_content policy_content st =
     (let (r, st') = generate g (Mapping_prompt report_content policy_content) st
      in (coerce_mappings loads report_content policy_content r, st'))"

text \<open>
  What the filter promises (the contract of spec 4.4): a report id is mapped to the
  policy id the model gave it, if that value is a policy id; nothing else is mapped.
\<close>

definition kept_mapping ::
  "string list \<Rightarrow> string list \<Rightarrow> (string \<times> json) list \<Rightarrow> string \<Rightarrow> string option" where
  "kept_mapping R P kvs k =
     (if k \<in> set R
      then (case map_of kvs k of Some (JStr v) \<Rightarrow> if v \<in> set P then Some v else None | _ \<Rightarrow> None)
      else None)"

section \<open>Lemmas\<close>

lemma create_mappings_with_ai_fst:
  "fst (create_mappings_with_ai g loads report pol st)
     = coerce_mappings loads report pol (g (length (calls st)) (Mapping_prompt report pol))"
  by (simp add: create_mappings_with_ai_def generate_def)

lemma create_mappings_with_ai_calls [simp]:
  "calls (snd (create_mappings_with_ai g loads report pol st))
     = calls st @ [Mapping_prompt report pol]"
  by (simp add: create_mappings_with_ai_def generate_def)

lemma policy_member_Some: "policy_member P v = Inr (Some s) \<Longrightarrow> s \<in> set P \<and> v = JStr s"
  by (cases v) (auto split: if_splits)

lemma filter_mapping_items_inv:
  assumes "filter_mapping_items R P kvs acc = Inr m"
    and "set acc \<subseteq> set R \<times> set P" and "distinct (map fst acc)"
  shows "set m \<subseteq> set R \<times> set P \<and> distinct (map fst m)"
  using assms
proof (induction R P kvs acc rule: filter_mapping_items.induct)
  case (2 R P k v kvs acc)
  show ?case
  proof (cases "k \<in> set R")
    case True
    then obtain hit where hit: "policy_member P v = Inr hit"
      and rest: "filter_mapping_items R P kvs
                   (case hit of Some s \<Rightarrow> AList.update k s acc | None \<Rightarrow> acc) = Inr m"
      using "2.prems"(1) by (auto dest!: exc_bind_Inr)
    have "set (case hit of Some s \<Rightarrow> AList.update k s acc | None \<Rightarrow> acc) \<subseteq> set R \<times> set P
          \<and> distinct (map fst (case hit of Some s \<Rightarrow> AList.update k s acc | None \<Rightarrow> acc))"
      using "2.prems"(2,3) True policy_member_Some [of P v] hit set_update_subset [of k _ acc]
      by (cases hit) auto
    then show ?thesis using "2.IH"(1) [OF True rest] by blast
  next
    case False
    then show ?thesis using "2.IH"(2) "2.prems" by simp
  qed
qed simp

lemma positional_mappings_inv:
  "set (positional_mappings report pol) \<subseteq> set (map sec_id report) \<times> set (map sec_id pol)
   \<and> distinct (map fst (positional_mappings report pol))"
proof -
  have "set (foldl (\<lambda>m (r, p). AList.update (sec_id r) (sec_id p) m) m0 ps)
          \<subseteq> set (map sec_id report) \<times> set (map sec_id pol)
        \<and> distinct (map fst (foldl (\<lambda>m (r, p). AList.update (sec_id r) (sec_id p) m) m0 ps))"
    if "set ps \<subseteq> set (zip report pol)"
      and "set m0 \<subseteq> set (map sec_id report) \<times> set (map sec_id pol)"
      and "distinct (map fst m0)" for ps m0
    using that
  proof (induction ps arbitrary: m0)
    case (Cons rp ps)
    obtain r p where rp: "rp = (r, p)" by fastforce
    with Cons.prems(1) have "r \<in> set report" "p \<in> set pol"
      by (auto dest: set_zip_leftD set_zip_rightD)
    then have "set (AList.update (sec_id r) (sec_id p) m0)
                 \<subseteq> set (map sec_id report) \<times> set (map sec_id pol)"
      using Cons.prems(2) set_update_subset [of "sec_id r" "sec_id p" m0] by auto
    with Cons.IH [of "AList.update (sec_id r) (sec_id p) m0"] Cons.prems rp show ?case by simp
  qed simp
  then show ?thesis by (simp add: positional_mappings_def)
qed

lemma coerce_mappings_inv:
  "set (coerce_mappings loads report pol r) \<subseteq> set (map sec_id report) \<times> set (map sec_id pol)
   \<and> distinct (map fst (coerce_mappings loads report pol r))"
proof -
  have filt: "set m \<subseteq> set (map sec_id report) \<times> set (map sec_id pol) \<and> distinct (map fst m)"
    if "filter_mapping_items (map sec_id report) (map sec_id pol) kvs [] = Inr m" for kvs m
    using filter_mapping_items_inv [OF that] by simp
  have "coerce_mappings loads report pol r = positional_mappings report pol
        \<or> (\<exists>kvs m. filter_mapping_items (map sec_id report) (map sec_id pol) kvs [] = Inr m
                  \<and> coerce_mappings loads report pol r = m)"
    by (auto simp: coerce_mappings_def Let_def split: sum.splits option.splits json.splits)
  then show ?thesis using filt positional_mappings_inv [of report pol] by auto
qed

lemma filter_mapping_items_map_of:
  assumes "filter_mapping_items R P kvs acc = Inr m" and "distinct (map fst kvs)"
  shows "map_of m k = (case kept_mapping R P kvs k of Some v \<Rightarrow> Some v | None \<Rightarrow> map_of acc k)"
  using assms
proof (induction R P kvs acc arbitrary: m rule: filter_mapping_items.induct)
  case (1 R P acc)
  then show ?case by (simp add: kept_mapping_def)
next
  case (2 R P k' v kvs acc)
  have fresh: "map_of kvs k' = None" using "2.prems"(2) by (simp add: map_of_eq_None_iff)
  have dist: "distinct (map fst kvs)" using "2.prems"(2) by simp
  show ?case
  proof (cases "k' \<in> set R")
    case True
    then obtain hit where hit: "policy_member P v = Inr hit"
      and rest: "filter_mapping_items R P kvs
                   (case hit of Some s \<Rightarrow> AList.update k' s acc | None \<Rightarrow> acc) = Inr m"
      using "2.prems"(1) by (auto dest!: exc_bind_Inr)
    have IH: "map_of m k = (case kept_mapping R P kvs k of Some v \<Rightarrow> Some v
               | None \<Rightarrow> map_of (case hit of Some s \<Rightarrow> AList.update k' s acc | None \<Rightarrow> acc) k)"
      using "2.IH"(1) [OF True rest dist] .
    have hit_iff: "hit = (case v of JStr s \<Rightarrow> if s \<in> set P then Some s else None | _ \<Rightarrow> None)"
      using hit by (cases v) (auto split: if_splits)
    show ?thesis
    proof (cases "k = k'")
      case True
      with fresh IH hit_iff \<open>k' \<in> set R\<close> show ?thesis
        by (cases v) (auto simp: kept_mapping_def AList.update_conv' split: option.splits)
    next
      case False
      with IH show ?thesis
        by (cases hit) (auto simp: kept_mapping_def AList.update_conv' split: option.splits)
    qed
  next
    case False
    then have "filter_mapping_items R P kvs acc = Inr m" using "2.prems"(1) by simp
    from "2.IH"(2) [OF False this dist] False show ?thesis
      by (auto simp: kept_mapping_def split: option.splits)
  qed
qed

lemma filter_mapping_items_Inr:
  assumes "\<forall>(k, v) \<in> set kvs. k \<in> set R \<longrightarrow> (\<forall>xs. v \<noteq> JArr xs) \<and> (\<forall>ys. v \<noteq> JObj ys)"
  shows "\<exists>m. filter_mapping_items R P kvs acc = Inr m"
  using assms
proof (induction R P kvs acc rule: filter_mapping_items.induct)
  case (2 R P k v kvs acc)
  have rest: "\<forall>(k, v) \<in> set kvs. k \<in> set R \<longrightarrow> (\<forall>xs. v \<noteq> JArr xs) \<and> (\<forall>ys. v \<noteq> JObj ys)"
    using "2.prems" by simp
  show ?case
  proof (cases "k \<in> set R")
    case True
    then obtain hit where hit: "policy_member P v = Inr hit" using "2.prems" by (cases v) auto
    obtain m where "filter_mapping_items R P kvs
                      (case hit of Some s \<Rightarrow> AList.update k s acc | None \<Rightarrow> acc) = Inr m"
      using "2.IH"(1) [OF True rest, of hit] by blast
    then show ?thesis using True hit by simp
  next
    case False
    then show ?thesis using "2.IH"(2) rest by simp
  qed
qed simp

lemma filter_mapping_items_Inl:
  assumes "(k, v) \<in> set kvs" and "k \<in> set R" and "(\<exists>xs. v = JArr xs) \<or> (\<exists>ys. v = JObj ys)"
  shows "filter_mapping_items R P kvs acc = Inl TypeError"
  using assms
proof (induction R P kvs acc rule: filter_mapping_items.induct)
  case (2 R P k' v' kvs acc)
  show ?case
  proof (cases "(k', v') = (k, v)")
    case True
    with "2.prems"(2,3) show ?thesis by auto
  next
    case False
    with "2.prems"(1) have "(k, v) \<in> set kvs" by auto
    with "2.IH" "2.prems"(2,3) show ?thesis by (cases v') (auto simp: exc_bind_def)
  qed
qed simp

lemma update_fresh: "k \<notin> set (map fst al) \<Longrightarrow> AList.update k v al = al @ [(k, v)]"
  by (induction al) auto

lemma positional_mappings_zip:
  assumes "distinct (map sec_id report)"
  shows "positional_mappings report pol = zip (map sec_id report) (map sec_id pol)"
proof -
  have "foldl (\<lambda>m (r, p). AList.update (sec_id r) (sec_id p) m) m0 ps
          = m0 @ map (\<lambda>(r, p). (sec_id r, sec_id p)) ps"
    if "distinct (map (sec_id \<circ> fst) ps)" and "set (map (sec_id \<circ> fst) ps) \<inter> set (map fst m0) = {}"
    for ps :: "(content_section \<times> content_section) list" and m0
    using that
  proof (induction ps arbitrary: m0)
    case (Cons rp ps)
    obtain r p where rp: "rp = (r, p)" by fastforce
    have "AList.update (sec_id r) (sec_id p) m0 = m0 @ [(sec_id r, sec_id p)]"
      using Cons.prems(2) rp by (intro update_fresh) auto
    with Cons.IH [of "m0 @ [(sec_id r, sec_id p)]"] Cons.prems rp show ?case by auto
  qed simp
  moreover have "map sec_id (map fst (zip report pol)) = map sec_id (take (length pol) report)"
    by (simp only: map_fst_zip_take) (simp add: min_def)
  then have "map (sec_id \<circ> fst) (zip report pol) = take (length pol) (map sec_id report)"
    by (simp add: take_map)
  then have "distinct (map (sec_id \<circ> fst) (zip report pol))"
    using assms by (simp add: distinct_take)
  ultimately show ?thesis by (simp add: positional_mappings_def zip_map_map)
qed

lemmas mappings_eval = create_mappings_with_ai_fst coerce_mappings_def positional_mappings_def
  kept_mapping_def clean_eval

subsection \<open>Properties\<close>

text \<open>
  C8. Whatever the model answers, every pair of the returned mapping goes from a
  report-section id of the request to a policy-section id of the request.
\<close>

theorem create_mappings_subset:
  "set (fst (create_mappings_with_ai g loads report pol st))
     \<subseteq> set (map sec_id report) \<times> set (map sec_id pol)"
  using coerce_mappings_inv by (simp add: create_mappings_with_ai_fst)

theorem create_mappings_subset_witness:
  "set (fst (create_mappings_with_ai (\<lambda>_ _. Upstream ''timeout'') (\<lambda>_. None)
              [\<lparr>sec_id = ''report_sec_A'', sec_text = ''a''\<rparr>] [\<lparr>sec_id = ''policy_sec_1'', sec_text = ''p''\<rparr>]
              \<lparr>calls = []\<rparr>))
     \<subseteq> {''report_sec_A''} \<times> {''policy_sec_1''}"
  using create_mappings_subset [of "\<lambda>_ _. Upstream ''timeout''" "\<lambda>_. None"
      "[\<lparr>sec_id = ''report_sec_A'', sec_text = ''a''\<rparr>]" "[\<lparr>sec_id = ''policy_sec_1'', sec_text = ''p''\<rparr>]"
      "\<lparr>calls = []\<rparr>"]
  by simp

text \<open>
  The returned mapping is a dict: its keys are pairwise distinct, on every path
  (filtered model answer or positional fallback).
\<close>

theorem create_mappings_distinct:
  "distinct (map fst (fst (create_mappings_with_ai g loads report pol st)))"
  using coerce_mappings_inv by (simp add: create_mappings_with_ai_fst)

theorem create_mappings_distinct_witness:
  "distinct (map fst (fst (create_mappings_with_ai (\<lambda>_ _. Reply ''{}'') (\<lambda>_. Some (JObj []))
              [\<lparr>sec_id = ''report_sec_A'', sec_text = ''a''\<rparr>] [] \<lparr>calls = []\<rparr>)))"
  by (rule create_mappings_distinct)

text \<open>
  C10. When the model answers with a JSON object (a dict, so its keys are distinct) in
  which no report id is paired with a list or an object, the result, read as a map,
  is the contract of the filter: a report id is mapped to the value the model gave it
  exactly when that value is a policy id of the request, and nothing else is mapped.
\<close>

theorem create_mappings_filter:
  assumes "g (length (calls st)) (Mapping_prompt report pol) = Reply raw"
    and "loads (clean_json_response raw) = Some (JObj kvs)"
    and "distinct (map fst kvs)"
    and "\<forall>(k, v) \<in> set kvs. k \<in> set (map sec_id report) \<longrightarrow> (\<forall>xs. v \<noteq> JArr xs) \<and> (\<forall>ys. v \<noteq> JObj ys)"
  shows "map_of (fst (create_mappings_with_ai g loads report pol st))
           = kept_mapping (map sec_id report) (map sec_id pol) kvs"
proof
  fix k
  obtain m where m: "filter_mapping_items (map sec_id report) (map sec_id pol) kvs [] = Inr m"
    using filter_mapping_items_Inr [OF assms(4)] by blast
  then have "fst (create_mappings_with_ai g loads report pol st) = m"
    using assms(1,2) by (simp add: create_mappings_with_ai_fst coerce_mappings_def)
  with filter_mapping_items_map_of [OF m assms(3), of k] show "map_of (fst (create_mappings_with_ai g loads report pol st)) k
           = kept_mapping (map sec_id report) (map sec_id pol) kvs k"
    by (simp split: option.splits)
qed

theorem create_mappings_filter_witness:
  "map_of (fst (create_mappings_with_ai (\<lambda>_ _. Reply ''{}'')
       (\<lambda>_. Some (JObj [(''report_sec_A'', JStr ''policy_sec_1''), (''report_sec_B'', JStr ''policy_sec_9''),
                        (''x'', JArr [])]))
       [\<lparr>sec_id = ''report_sec_A'', sec_text = ''a''\<rparr>, \<lparr>sec_id = ''report_sec_B'', sec_text = ''b''\<rparr>]
       [\<lparr>sec_id = ''policy_sec_1'', sec_text = ''p''\<rparr>] \<lparr>calls = []\<rparr>))
     = kept_mapping [''report_sec_A'', ''report_sec_B''] [''policy_sec_1'']
         [(''report_sec_A'', JStr ''policy_sec_1''), (''report_sec_B'', JStr ''policy_sec_9''), (''x'', JArr [])]"
  using create_mappings_filter [of "\<lambda>_ _. Reply ''{}''" "\<lparr>calls = []\<rparr>"
      "[\<lparr>sec_id = ''report_sec_A'', sec_text = ''a''\<rparr>, \<lparr>sec_id = ''report_sec_B'', sec_text = ''b''\<rparr>]"
      "[\<lparr>sec_id = ''policy_sec_1'', sec_text = ''p''\<rparr>]" "''{}''"
      "\<lambda>_. Some (JObj [(''report_sec_A'', JStr ''policy_sec_1''), (''report_sec_B'', JStr ''policy_sec_9''),
                        (''x'', JArr [])])"
      "[(''report_sec_A'', JStr ''policy_sec_1''), (''report_sec_B'', JStr ''policy_sec_9''), (''x'', JArr [])]"]
  by simp

text \<open>
  C11. When the call fails, or the reply does not decode to a JSON object, the mapping
  pairs the report sections with the policy sections by position, up to the shorter
  list (for distinct report ids, exactly the zip of the two id lists).
\<close>

theorem create_mappings_fallback:
  assumes "\<nexists>raw kvs. g (length (calls st)) (Mapping_prompt report pol) = Reply raw
                       \<and> loads (clean_json_response raw) = Some (JObj kvs)"
    and "distinct (map sec_id report)"
  shows "fst (create_mappings_with_ai g loads report pol st) = zip (map sec_id report) (map sec_id pol)"
proof -
  have "fst (create_mappings_with_ai g loads report pol st) = positional_mappings report pol"
  proof (cases "g (length (calls st)) (Mapping_prompt report pol)")
    case (Reply raw)
    with assms(1) have "\<forall>kvs. loads (clean_json_response raw) \<noteq> Some (JObj kvs)" by auto
    with Reply show ?thesis
      by (auto simp: create_mappings_with_ai_fst coerce_mappings_def Let_def
          split: option.splits json.splits)
  next
    case (Upstream m)
    then show ?thesis by (simp add: create_mappings_with_ai_fst coerce_mappings_def)
  qed
  with positional_mappings_zip [OF assms(2)] show ?thesis by simp
qed

theorem create_mappings_fallback_witness:
  "distinct [''report_sec_A'', ''report_sec_B'']
   \<and> fst (create_mappings_with_ai (\<lambda>_ _. Upstream ''503'') (\<lambda>_. None)
       [\<lparr>sec_id = ''report_sec_A'', sec_text = ''a''\<rparr>, \<lparr>sec_id = ''report_sec_B'', sec_text = ''b''\<rparr>]
       [\<lparr>sec_id = ''policy_sec_1'', sec_text = ''p''\<rparr>] \<lparr>calls = []\<rparr>)
     = [(''report_sec_A'', ''policy_sec_1'')]"
  using create_mappings_fallback [of "\<lambda>_ _. Upstream ''503''" "\<lparr>calls = []\<rparr>"
      "[\<lparr>sec_id = ''report_sec_A'', sec_text = ''a''\<rparr>, \<lparr>sec_id = ''report_sec_B'', sec_text = ''b''\<rparr>]"
      "[\<lparr>sec_id = ''policy_sec_1'', sec_text = ''p''\<rparr>]" "\<lambda>_. None"]
  by simp

text \<open>
  C12. One entry that pairs a report id with a list or an object makes the membership
  test raise \<open>TypeError\<close>; the handler then discards every mapping the model gave and
  returns the positional pairing instead (the spec says such entries are dropped).
\<close>

theorem create_mappings_unhashable:
  assumes "g (length (calls st)) (Mapping_prompt report pol) = Reply raw"
    and "loads (clean_json_response raw) = Some (JObj kvs)"
    and "(k, v) \<in> set kvs" and "k \<in> set (map sec_id report)"
    and "(\<exists>xs. v = JArr xs) \<or> (\<exists>ys. v = JObj ys)"
  shows "fst (create_mappings_with_ai g loads report pol st) = positional_mappings report pol"
  using assms filter_mapping_items_Inl [OF assms(3-5)]
  by (simp add: create_mappings_with_ai_fst coerce_mappings_def)

theorem create_mappings_unhashable_witness:
  "fst (create_mappings_with_ai (\<lambda>_ _. Reply ''{}'')
       (\<lambda>_. Some (JObj [(''report_sec_A'', JStr ''policy_sec_1''), (''report_sec_B'', JArr [])]))
       [\<lparr>sec_id = ''report_sec_A'', sec_text = ''a''\<rparr>, \<lparr>sec_id = ''report_sec_B'', sec_text = ''b''\<rparr>]
       [\<lparr>sec_id = ''policy_sec_1'', sec_text = ''p''\<rparr>, \<lparr>sec_id = ''policy_sec_2'', sec_text = ''q''\<rparr>]
       \<lparr>calls = []\<rparr>)
     = positional_mappings
       [\<lparr>sec_id = ''report_sec_A'', sec_text = ''a''\<rparr>, \<lparr>sec_id = ''report_sec_B'', sec_text = ''b''\<rparr>]
       [\<lparr>sec_id = ''policy_sec_1'', sec_text = ''p''\<rparr>, \<lparr>sec_id = ''policy_sec_2'', sec_text = ''q''\<rparr>]"
  by (rule create_mappings_unhashable [where raw = "''{}''" and k = "''report_sec_B''" and v = "JArr []"
        and kvs = "[(''report_sec_A'', JStr ''policy_sec_1''), (''report_sec_B'', JArr [])]"]) simp_all

end
