(* ===== verification/Validation.thy ===== *)
theory Validation
  imports Clean Gateway
begin

text \<open>
  Claim validation: \<open>validate_claim_with_ai(report_content, policy_content, mappings,
  customer_id)\<close> (\<open>src/backend/services.py\<close>, lines 246--356). The decoded reply must
  be a dict (\<open>result.get\<close>). Each entry of \<open>result["issues"]\<close> is fixed up in place
  (a missing \<open>status\<close> becomes \<open>"pending"\<close>, a missing \<open>checklistItem\<close> the first 50
  characters of \<open>description\<close>) and validated as a \<open>ValidationIssue\<close>; an entry that
  fails validation is skipped (inner \<open>try\<close>). The result is then built with
  \<open>ClaimStatus(...)\<close> and the pydantic fields. Every exception outside the inner
  \<open>try\<close> (the call, decoding, \<open>.get\<close> on a non-dict, the fix-up statements on an
  entry that is not a dict, an unknown status, an invalid field) ends in the fixed
  fallback result of lines 334--356.
\<close>

section \<open>Python operations on the decoded entries\<close>

text \<open>\<open>k in d\<close> on a decoded value: key, substring or element membership.\<close>

fun py_contains :: "json \<Rightarrow> string \<Rightarrow> py_exc + bool" where
  "py_contains (JObj kvs) k = Inr (has_key kvs k)"
| "py_contains (JStr s) k = Inr (py_substr k s)"
| "py_contains (JArr xs) k = Inr (JStr k \<in> set xs)"
| "py_contains _ k = Inl TypeError"

text \<open>\<open>d[k] = v\<close>: only a dict supports item assignment with a string key.\<close>

fun py_setitem :: "json \<Rightarrow> string \<Rightarrow> json \<Rightarrow> py_exc + json" where
  "py_setitem (JObj kvs) k v = Inr (JObj (AList.update k v kvs))"
| "py_setitem _ k v = Inl TypeError"

text \<open>\<open>d.get(k, default)\<close>: only a dict has \<open>.get\<close>.\<close>

fun py_get :: "json \<Rightarrow> string \<Rightarrow> json \<Rightarrow> py_exc + json" where
  "py_get (JObj kvs) k dflt = Inr (dict_get kvs k dflt)"
| "py_get _ k dflt = Inl AttributeError"

text \<open>
  \<open>v[:50]\<close>: strings and lists are sliced, anything else raises. A string keeps its
  first 50 characters.
\<close>

fun py_slice50 :: "json \<Rightarrow> py_exc + json" where
  "py_slice50 (JStr s) = Inr (JStr (py_prefix 50 s))"
| "py_slice50 (JArr xs) = Inr (JArr (take 50 xs))"
| "py_slice50 _ = Inl TypeError"

section \<open>The issue loop (lines 309--320)\<close>

text \<open>
  One entry: \<open>Inl\<close> is an exception that leaves the loop (and the outer \<open>try\<close>),
  \<open>Inr None\<close> an entry skipped by the inner handler, \<open>Inr (Some i)\<close> a validated issue.
  \<open>ValidationIssue(**d)\<close> on a value that is not a mapping raises \<open>TypeError\<close> inside
  the inner \<open>try\<close>, so it is skipped too.
\<close>

definition issue_step :: "json \<Rightarrow> py_exc + validation_issue option" where
  "issue_step issue_data =
     exc_bind (py_contains issue_data ''status'') (\<lambda>has_status.
     exc_bind (if has_status then Inr issue_data
               else py_setitem issue_data ''status'' (JStr ''pending'')) (\<lambda>d1.
     exc_bind (py_contains d1 ''checklistItem'') (\<lambda>has_item.
     exc_bind (if has_item then Inr d1
               else exc_bind (py_get d1 ''description''
                      (JStr (''M'' @ py_chr 0x1EE5 @ ''c ki'' @ py_chr 0x1EC3 @ ''m tra''))) (\<lambda>desc.
                    exc_bind (py_slice50 desc) (\<lambda>item.
                    py_setitem d1 ''checklistItem'' item))) (\<lambda>d2.
     Inr (case d2 of JObj kvs \<Rightarrow> mk_validation_issue kvs | _ \<Rightarrow> None)))))"

fun validate_issues :: "json list \<Rightarrow> py_exc + validation_issue list" where
  "validate_issues [] = Inr []"
| "validate_issues (d # ds) =
     exc_bind (issue_step d) (\<lambda>i.
     exc_bind (validate_issues ds) (\<lambda>is.
     Inr (case i of Some vi \<Rightarrow> vi # is | None \<Rightarrow> is)))"

section \<open>The result (lines 322--332) and the fallback (lines 334--356)\<close>

definition claim_id :: "string \<Rightarrow> int \<Rightarrow> string" where
  "claim_id customer_id secs = ''claim-'' @ customer_id @ ''-'' @ show_int secs"

definition validation_of_result ::
  "string \<Rightarrow> clock \<Rightarrow> (string \<times> json) list \<Rightarrow> py_exc + claim_validation_result" where
  "validation_of_result customer_id clk result =
     exc_bind (py_iter (dict_get result ''issues'' (JArr []))) (\<lambda>entries.
     exc_bind (validate_issues entries) (\<lambda>validated_issues.
     exc_bind (ClaimStatus (dict_get result ''status'' (JStr ''pending_review''))) (\<lambda>st.
     (case (val_bool (dict_get result ''isValid'' (JBool False)),
            val_float (dict_get result ''confidence'' (JFloat (1/2))),
            opt val_float (map_of result ''estimatedAmount''),
            opt val_float (map_of result ''maxCoverageAmount''),
            val_str (dict_get result ''summary'' (JStr ''Dang xu ly danh gia''))) of
        (Some iv, Some cf, Some ea, Some mc, Some sm) \<Rightarrow>
          Inr \<lparr>claimId = claim_id customer_id (now_secs clk), status = st, isValid = iv,
               confidence = cf, estimatedAmount = ea, maxCoverageAmount = mc,
               issues = validated_issues, summary = sm, timestamp = now_iso clk\<rparr>
      | _ \<Rightarrow> Inl ValidationError))))"

definition validation_fallback :: "string \<Rightarrow> clock \<Rightarrow> py_exc \<Rightarrow> claim_validation_result" where
  "validation_fallback customer_id clk e =
     \<lparr>claimId = claim_id customer_id (now_secs clk), status = PENDING_REVIEW, isValid = False,
      confidence = 0, estimatedAmount = None, maxCoverageAmount = None,
      issues = [\<lparr>issueType = INCOMPLETE_INFO, severity = ''critical'', issue_status = ''fail'',
                 checklistItem = ''Loi he thong'', description = ''Loi xu ly validation: '' @ exc_str e,
                 affectedSections = [], recommendation = ''Vui long thu lai hoac lien he support''\<rparr>],
      summary = ''Khong the hoan thanh validation do loi he thong'', timestamp = now_iso clk\<rparr>"

definition coerce_validation ::
  "json_loads \<Rightarrow> string \<Rightarrow> clock \<Rightarrow> reply \<Rightarrow> claim_validation_result" where
  "coerce_validation loads customer_id clk r =
     (case exc_bind (reply_text r) (\<lambda>raw.
             case loads (clean_json_response raw) of
               None \<Rightarrow> Inl JSONDecodeError
             | Some (JObj result) \<Rightarrow> validation_of_result customer_id clk result
             | Some _ \<Rightarrow> Inl AttributeError) of
        Inr v \<Rightarrow> v
      | Inl e \<Rightarrow> validation_fallback customer_id clk e)"

definition validate_claim_with_ai ::
  "model_oracle \<Rightarrow> json_loads \<Rightarrow> clock \<Rightarrow> content_section list \<Rightarrow> content_section list
     \<Rightarrow> (string \<times> string) list \<Rightarrow> string \<Rightarrow> gw_state \<Rightarrow> claim_validation_result \<times> gw_state" where
  "validate_claim_with_ai g loads clk report_content policy_content maps customer_id st =
     (let (r, st') = generate g (Validation_prompt report_content policy_content maps) st
      in (coerce_validation loads customer_id clk r, st'))"

section \<open>Lemmas\<close>

lemma validate_claim_with_ai_fst:
  "fst (validate_claim_with_ai g loads clk rep pol maps c st)
     = coerce_validation loads c clk (g (length (calls st)) (Validation_prompt rep pol maps))"
  by (simp add: validate_claim_with_ai_def generate_def)

lemma validate_claim_with_ai_calls [simp]:
  "calls (snd (validate_claim_with_ai g loads clk rep pol maps c st))
     = calls st @ [Validation_prompt rep pol maps]"
  by (simp add: validate_claim_with_ai_def generate_def)

lemma validation_of_result_claimId:
  "validation_of_result c clk result = Inr v \<Longrightarrow> claimId v = claim_id c (now_secs clk)"
  by (auto simp: validation_of_result_def exc_bind_def split: sum.splits option.splits)

lemma validation_of_result_status:
  "validation_of_result c clk result = Inr v
     \<Longrightarrow> dict_get result ''status'' (JStr ''pending_review'') = JStr (claim_status_value (status v))"
proof -
  assume ok: "validation_of_result c clk result = Inr v"
  then obtain st where st: "ClaimStatus (dict_get result ''status'' (JStr ''pending_review'')) = Inr st"
    and "status v = st"
    by (auto simp: validation_of_result_def exc_bind_def split: sum.splits option.splits)
  then show ?thesis
    by (cases "dict_get result ''status'' (JStr ''pending_review'')")
       (auto split: option.splits dest: enum_of_value_Some)
qed

lemma coerce_validation_cases:
  "(\<exists>e. coerce_validation loads c clk r = validation_fallback c clk e)
   \<or> (\<exists>raw result. r = Reply raw \<and> loads (clean_json_response raw) = Some (JObj result)
        \<and> validation_of_result c clk result = Inr (coerce_validation loads c clk r))"
  by (cases r) (auto simp: coerce_validation_def split: sum.splits option.splits json.splits)

lemma validation_fallback_fields [simp]:
  "claimId (validation_fallback c clk e) = claim_id c (now_secs clk)"
  "status (validation_fallback c clk e) = PENDING_REVIEW"
  "isValid (validation_fallback c clk e) = False"
  "confidence (validation_fallback c clk e) = 0"
  "map issueType (issues (validation_fallback c clk e)) = [INCOMPLETE_INFO]"
  by (simp_all add: validation_fallback_def)

lemma coerce_validation_not_dict:
  "(\<forall>raw. r = Reply raw \<longrightarrow> (\<forall>kvs. loads (clean_json_response raw) \<noteq> Some (JObj kvs)))
     \<Longrightarrow> \<exists>e. coerce_validation loads c clk r = validation_fallback c clk e"
  by (cases r) (auto simp: coerce_validation_def split: option.splits json.splits)

lemma coerce_validation_dict:
  "r = Reply raw \<Longrightarrow> loads (clean_json_response raw) = Some (JObj kvs)
     \<Longrightarrow> coerce_validation loads c clk r
         = (case validation_of_result c clk kvs of Inr v \<Rightarrow> v | Inl e \<Rightarrow> validation_fallback c clk e)"
  by (simp add: coerce_validation_def)

lemma validate_issues_Inl:
  "x \<in> set xs \<Longrightarrow> issue_step x = Inl e \<Longrightarrow> \<exists>e'. validate_issues xs = Inl e'"
  by (induction xs) (auto simp: exc_bind_def split: sum.splits option.splits)

lemma validate_issues_Inr:
  "validate_issues xs = Inr vs \<Longrightarrow> vs = List.map_filter (\<lambda>x. projr (issue_step x)) xs"
  by (induction xs arbitrary: vs) (auto simp: exc_bind_def split: sum.splits option.splits)

lemma validation_of_result_issues:
  "dict_get kvs ''issues'' (JArr []) = JArr xs \<Longrightarrow> validation_of_result c clk kvs = Inr v
     \<Longrightarrow> validate_issues xs = Inr (issues v)"
  by (auto simp: validation_of_result_def exc_bind_def split: sum.splits option.splits)

lemma mk_validation_issue_fields:
  "mk_validation_issue kvs = Some vi
     \<Longrightarrow> map_of kvs ''status'' = Some (JStr (issue_status vi))
       \<and> map_of kvs ''checklistItem'' = Some (JStr (checklistItem vi))"
  by (auto simp: mk_validation_issue_def req_def bind_eq_Some_conv split: option.splits)

lemmas validation_eval = validate_claim_with_ai_fst coerce_validation_def validation_of_result_def
  issue_step_def claim_id_def show_int_def show_nat_def dict_get_def has_key_def
  mk_validation_issue_def req_def opt_def enum_of_value_def validation_issue_types_def
  claim_statuses_def clean_eval

lemma validation_of_result_issues_Inl:
  "dict_get kvs ''issues'' (JArr []) = JArr xs \<Longrightarrow> x \<in> set xs \<Longrightarrow> issue_step x = Inl e
     \<Longrightarrow> \<exists>e'. validation_of_result c clk kvs = Inl e'"
  using validate_issues_Inl [of x xs e] by (auto simp: validation_of_result_def)

lemma validation_of_result_confidence:
  "validation_of_result c clk kvs = Inr v
     \<Longrightarrow> val_float (dict_get kvs ''confidence'' (JFloat (1/2))) = Some (confidence v)"
  by (auto simp: validation_of_result_def exc_bind_def split: sum.splits option.splits)

lemma issue_step_fixup:
  assumes "\<not> has_key d ''status''" "\<not> has_key d ''checklistItem''"
    "map_of d ''description'' = Some (JStr de)"
  shows "issue_step (JObj d) = Inr (mk_validation_issue
           (AList.update ''checklistItem'' (JStr (py_prefix 50 de)) (AList.update ''status'' (JStr ''pending'') d)))"
  using assms by (simp add: issue_step_def dict_get_def has_key_map_of update_conv')

subsection \<open>Properties\<close>

text \<open>
  C13. When the model call fails, or the cleaned reply does not decode to a JSON object,
  the service returns the fixed fallback: status \<open>pending_review\<close>, not valid,
  confidence 0, and a single \<open>incomplete_info\<close> issue.
\<close>

theorem validate_claim_fallback:
  assumes "\<forall>raw. g (length (calls st)) (Validation_prompt rep pol maps) = Reply raw
             \<longrightarrow> (\<forall>kvs. loads (clean_json_response raw) \<noteq> Some (JObj kvs))"
  shows "status (fst (validate_claim_with_ai g loads clk rep pol maps c st)) = PENDING_REVIEW
    \<and> \<not> isValid (fst (validate_claim_with_ai g loads clk rep pol maps c st))
    \<and> confidence (fst (validate_claim_with_ai g loads clk rep pol maps c st)) = 0
    \<and> map issueType (issues (fst (validate_claim_with_ai g loads clk rep pol maps c st)))
        = [INCOMPLETE_INFO]"
proof -
  obtain e where "coerce_validation loads c clk (g (length (calls st)) (Validation_prompt rep pol maps))
      = validation_fallback c clk e"
    using coerce_validation_not_dict [OF assms] by blast
  then show ?thesis by (simp add: validate_claim_with_ai_fst)
qed

theorem validate_claim_fallback_witness:
  "status (fst (validate_claim_with_ai (\<lambda>_ _. Upstream ''quota exceeded'') (\<lambda>_. None)
       \<lparr>now_secs = 1700000000, now_iso = ''2023-11-14T22:13:20''\<rparr> [] [] [] ''KH001''
       \<lparr>calls = []\<rparr>)) = PENDING_REVIEW
   \<and> \<not> isValid (fst (validate_claim_with_ai (\<lambda>_ _. Upstream ''quota exceeded'') (\<lambda>_. None)
       \<lparr>now_secs = 1700000000, now_iso = ''2023-11-14T22:13:20''\<rparr> [] [] [] ''KH001''
       \<lparr>calls = []\<rparr>))"
  using validate_claim_fallback [of "\<lambda>_ _. Upstream ''quota exceeded''" "\<lparr>calls = []\<rparr>" "[]" "[]" "[]"
      "\<lambda>_. None" "\<lparr>now_secs = 1700000000, now_iso = ''2023-11-14T22:13:20''\<rparr>" "''KH001''"]
  by simp

text \<open>
  C14. The status of the result is either \<open>pending_review\<close> or the status string the
  model put in the decoded object, verbatim (the \<open>ClaimStatus\<close> value lookup); no
  other status is ever produced.
\<close>

theorem validate_claim_status:
  "status (fst (validate_claim_with_ai g loads clk rep pol maps c st)) = PENDING_REVIEW
   \<or> (\<exists>raw kvs. g (length (calls st)) (Validation_prompt rep pol maps) = Reply raw
        \<and> loads (clean_json_response raw) = Some (JObj kvs)
        \<and> dict_get kvs ''status'' (JStr ''pending_review'')
            = JStr (claim_status_value (status (fst (validate_claim_with_ai g loads clk rep pol maps c st)))))"
  using coerce_validation_cases [of loads c clk "g (length (calls st)) (Validation_prompt rep pol maps)"]
  by (auto simp: validate_claim_with_ai_fst dest: validation_of_result_status)

text \<open>
  C15. An issue object without \<open>status\<close> and without \<open>checklistItem\<close> whose
  \<open>description\<close> is a string is completed in place: if it then validates, its status
  is \<open>"pending"\<close> and its checklist item the first 50 characters (code points, not
  bytes) of the description, a prefix of it.
\<close>

theorem issue_step_defaults:
  assumes "\<not> has_key d ''status''" "\<not> has_key d ''checklistItem''"
    and "map_of d ''description'' = Some (JStr de)"
    and "issue_step (JObj d) = Inr (Some vi)"
  shows "issue_status vi = ''pending'' \<and> py_chars (checklistItem vi) = take 50 (py_chars de)
    \<and> (\<exists>q. de = checklistItem vi @ q)"
proof -
  have "mk_validation_issue (AList.update ''checklistItem'' (JStr (py_prefix 50 de))
          (AList.update ''status'' (JStr ''pending'') d)) = Some vi"
    using assms(4) by (simp add: issue_step_fixup [OF assms(1-3)])
  from mk_validation_issue_fields [OF this]
  have "issue_status vi = ''pending''" and "checklistItem vi = py_prefix 50 de"
    by (simp_all add: update_conv')
  then show ?thesis by (simp add: py_chars_py_prefix py_prefix_prefix)
qed

theorem issue_step_defaults_witness:
  "issue_step (JObj [(''issueType'', JStr ''missing_document''), (''severity'', JStr ''warning''),
       (''description'', JStr (''Thi'' @ py_chr 0x1EBF @ ''u gi'' @ py_chr 0x1EA5 @ ''y ra vi'' @ py_chr 0x1EC7
         @ ''n v'' @ py_chr 0x00E0 @ '' h'' @ py_chr 0x00F3 @ ''a '' @ py_chr 0x0111
         @ py_chr 0x01A1 @ ''n vi'' @ py_chr 0x1EC7 @ ''n ph'' @ py_chr 0x00ED @ '' c''
         @ py_chr 0x1EE7 @ ''a b'' @ py_chr 0x1EC7 @ ''nh nh'' @ py_chr 0x00E2 @ ''n trong h''
         @ py_chr 0x1ED3 @ '' s'' @ py_chr 0x01A1)),
       (''affectedSections'', JArr []), (''recommendation'', JStr ''Request it'')])
     = Inr (Some \<lparr>issueType = MISSING_DOCUMENT, severity = ''warning'', issue_status = ''pending'',
         checklistItem = ''Thi'' @ py_chr 0x1EBF @ ''u gi'' @ py_chr 0x1EA5 @ ''y ra vi'' @ py_chr 0x1EC7
         @ ''n v'' @ py_chr 0x00E0 @ '' h'' @ py_chr 0x00F3 @ ''a '' @ py_chr 0x0111
         @ py_chr 0x01A1 @ ''n vi'' @ py_chr 0x1EC7 @ ''n ph'' @ py_chr 0x00ED @ '' c''
         @ py_chr 0x1EE7 @ ''a b'' @ py_chr 0x1EC7 @ ''nh nh'',
         description = ''Thi'' @ py_chr 0x1EBF @ ''u gi'' @ py_chr 0x1EA5 @ ''y ra vi'' @ py_chr 0x1EC7
         @ ''n v'' @ py_chr 0x00E0 @ '' h'' @ py_chr 0x00F3 @ ''a '' @ py_chr 0x0111
         @ py_chr 0x01A1 @ ''n vi'' @ py_chr 0x1EC7 @ ''n ph'' @ py_chr 0x00ED @ '' c''
         @ py_chr 0x1EE7 @ ''a b'' @ py_chr 0x1EC7 @ ''nh nh'' @ py_chr 0x00E2 @ ''n trong h''
         @ py_chr 0x1ED3 @ '' s'' @ py_chr 0x01A1,
         affectedSections = [], recommendation = ''Request it''\<rparr>)
   \<and> py_chars (''Thi'' @ py_chr 0x1EBF @ ''u gi'' @ py_chr 0x1EA5 @ ''y ra vi'' @ py_chr 0x1EC7
         @ ''n v'' @ py_chr 0x00E0 @ '' h'' @ py_chr 0x00F3 @ ''a '' @ py_chr 0x0111
         @ py_chr 0x01A1 @ ''n vi'' @ py_chr 0x1EC7 @ ''n ph'' @ py_chr 0x00ED @ '' c''
         @ py_chr 0x1EE7 @ ''a b'' @ py_chr 0x1EC7 @ ''nh nh'')
     = take 50 (py_chars (''Thi'' @ py_chr 0x1EBF @ ''u gi'' @ py_chr 0x1EA5 @ ''y ra vi'' @ py_chr 0x1EC7
         @ ''n v'' @ py_chr 0x00E0 @ '' h'' @ py_chr 0x00F3 @ ''a '' @ py_chr 0x0111
         @ py_chr 0x01A1 @ ''n vi'' @ py_chr 0x1EC7 @ ''n ph'' @ py_chr 0x00ED @ '' c''
         @ py_chr 0x1EE7 @ ''a b'' @ py_chr 0x1EC7 @ ''nh nh'' @ py_chr 0x00E2 @ ''n trong h''
         @ py_chr 0x1ED3 @ '' s'' @ py_chr 0x01A1))"
proof -
  let ?d = "[(''issueType'', JStr ''missing_document''), (''severity'', JStr ''warning''),
       (''description'', JStr (''Thi'' @ py_chr 0x1EBF @ ''u gi'' @ py_chr 0x1EA5 @ ''y ra vi'' @ py_chr 0x1EC7
         @ ''n v'' @ py_chr 0x00E0 @ '' h'' @ py_chr 0x00F3 @ ''a '' @ py_chr 0x0111
         @ py_chr 0x01A1 @ ''n vi'' @ py_chr 0x1EC7 @ ''n ph'' @ py_chr 0x00ED @ '' c''
         @ py_chr 0x1EE7 @ ''a b'' @ py_chr 0x1EC7 @ ''nh nh'' @ py_chr 0x00E2 @ ''n trong h''
         @ py_chr 0x1ED3 @ '' s'' @ py_chr 0x01A1)),
       (''affectedSections'', JArr []), (''recommendation'', JStr ''Request it'')]"
  have pfx: "py_prefix 50 (''Thi'' @ py_chr 0x1EBF @ ''u gi'' @ py_chr 0x1EA5 @ ''y ra vi'' @ py_chr 0x1EC7
         @ ''n v'' @ py_chr 0x00E0 @ '' h'' @ py_chr 0x00F3 @ ''a '' @ py_chr 0x0111
         @ py_chr 0x01A1 @ ''n vi'' @ py_chr 0x1EC7 @ ''n ph'' @ py_chr 0x00ED @ '' c''
         @ py_chr 0x1EE7 @ ''a b'' @ py_chr 0x1EC7 @ ''nh nh'' @ py_chr 0x00E2 @ ''n trong h''
         @ py_chr 0x1ED3 @ '' s'' @ py_chr 0x01A1) = ''Thi'' @ py_chr 0x1EBF @ ''u gi'' @ py_chr 0x1EA5 @ ''y ra vi'' @ py_chr 0x1EC7
         @ ''n v'' @ py_chr 0x00E0 @ '' h'' @ py_chr 0x00F3 @ ''a '' @ py_chr 0x0111
         @ py_chr 0x01A1 @ ''n vi'' @ py_chr 0x1EC7 @ ''n ph'' @ py_chr 0x00ED @ '' c''
         @ py_chr 0x1EE7 @ ''a b'' @ py_chr 0x1EC7 @ ''nh nh''"
    by (simp add: py_prefix_def py_chr_def char_eval is_lead_def is_cont_def)
  have step: "issue_step (JObj ?d)
     = Inr (Some \<lparr>issueType = MISSING_DOCUMENT, severity = ''warning'', issue_status = ''pending'',
         checklistItem = ''Thi'' @ py_chr 0x1EBF @ ''u gi'' @ py_chr 0x1EA5 @ ''y ra vi'' @ py_chr 0x1EC7
         @ ''n v'' @ py_chr 0x00E0 @ '' h'' @ py_chr 0x00F3 @ ''a '' @ py_chr 0x0111
         @ py_chr 0x01A1 @ ''n vi'' @ py_chr 0x1EC7 @ ''n ph'' @ py_chr 0x00ED @ '' c''
         @ py_chr 0x1EE7 @ ''a b'' @ py_chr 0x1EC7 @ ''nh nh'',
         description = ''Thi'' @ py_chr 0x1EBF @ ''u gi'' @ py_chr 0x1EA5 @ ''y ra vi'' @ py_chr 0x1EC7
         @ ''n v'' @ py_chr 0x00E0 @ '' h'' @ py_chr 0x00F3 @ ''a '' @ py_chr 0x0111
         @ py_chr 0x01A1 @ ''n vi'' @ py_chr 0x1EC7 @ ''n ph'' @ py_chr 0x00ED @ '' c''
         @ py_chr 0x1EE7 @ ''a b'' @ py_chr 0x1EC7 @ ''nh nh'' @ py_chr 0x00E2 @ ''n trong h''
         @ py_chr 0x1ED3 @ '' s'' @ py_chr 0x01A1,
         affectedSections = [], recommendation = ''Request it''\<rparr>)"
    using pfx by (simp add: validation_eval)
  have h: "\<not> has_key ?d ''status''" "\<not> has_key ?d ''checklistItem''"
    "map_of ?d ''description'' = Some (JStr (''Thi'' @ py_chr 0x1EBF @ ''u gi'' @ py_chr 0x1EA5 @ ''y ra vi'' @ py_chr 0x1EC7
         @ ''n v'' @ py_chr 0x00E0 @ '' h'' @ py_chr 0x00F3 @ ''a '' @ py_chr 0x0111
         @ py_chr 0x01A1 @ ''n vi'' @ py_chr 0x1EC7 @ ''n ph'' @ py_chr 0x00ED @ '' c''
         @ py_chr 0x1EE7 @ ''a b'' @ py_chr 0x1EC7 @ ''nh nh'' @ py_chr 0x00E2 @ ''n trong h''
         @ py_chr 0x1ED3 @ '' s'' @ py_chr 0x01A1))"
    by (simp_all add: has_key_def)
  have "py_chars (''Thi'' @ py_chr 0x1EBF @ ''u gi'' @ py_chr 0x1EA5 @ ''y ra vi'' @ py_chr 0x1EC7
         @ ''n v'' @ py_chr 0x00E0 @ '' h'' @ py_chr 0x00F3 @ ''a '' @ py_chr 0x0111
         @ py_chr 0x01A1 @ ''n vi'' @ py_chr 0x1EC7 @ ''n ph'' @ py_chr 0x00ED @ '' c''
         @ py_chr 0x1EE7 @ ''a b'' @ py_chr 0x1EC7 @ ''nh nh'')
     = take 50 (py_chars (''Thi'' @ py_chr 0x1EBF @ ''u gi'' @ py_chr 0x1EA5 @ ''y ra vi'' @ py_chr 0x1EC7
         @ ''n v'' @ py_chr 0x00E0 @ '' h'' @ py_chr 0x00F3 @ ''a '' @ py_chr 0x0111
         @ py_chr 0x01A1 @ ''n vi'' @ py_chr 0x1EC7 @ ''n ph'' @ py_chr 0x00ED @ '' c''
         @ py_chr 0x1EE7 @ ''a b'' @ py_chr 0x1EC7 @ ''nh nh'' @ py_chr 0x00E2 @ ''n trong h''
         @ py_chr 0x1ED3 @ '' s'' @ py_chr 0x01A1))"
    using conjunct1 [OF conjunct2 [OF issue_step_defaults [OF h step]]]
    by (simp only: validation_issue.select_convs)
  with step show ?thesis by (rule conjI)
qed

text \<open>
  C16. One entry of \<open>issues\<close> whose fix-up raises (an entry that is not an object, or an
  object without \<open>checklistItem\<close> whose \<open>description\<close> cannot be sliced) is outside
  the inner \<open>try\<close>: the whole validation is discarded and the fallback returned, even
  when every other field of the reply is valid.
\<close>

theorem validate_claim_bad_issue:
  assumes "g (length (calls st)) (Validation_prompt rep pol maps) = Reply raw"
    and "loads (clean_json_response raw) = Some (JObj kvs)"
    and "dict_get kvs ''issues'' (JArr []) = JArr xs" and "x \<in> set xs" and "issue_step x = Inl e"
  shows "\<exists>e'. fst (validate_claim_with_ai g loads clk rep pol maps c st) = validation_fallback c clk e'"
proof -
  obtain e' where "validation_of_result c clk kvs = Inl e'"
    using validation_of_result_issues_Inl [OF assms(3-5)] by blast
  then show ?thesis
    using assms(1,2) by (auto simp: validate_claim_with_ai_fst coerce_validation_dict)
qed

theorem validate_claim_bad_issue_witness:
  "fst (validate_claim_with_ai (\<lambda>_ _. Reply ''{}'')
       (\<lambda>_. Some (JObj [(''status'', JStr ''approved''), (''isValid'', JBool True),
          (''issues'', JArr [JObj [(''status'', JStr ''pass''), (''description'', JInt 7)]])]))
       \<lparr>now_secs = 1700000000, now_iso = ''2023-11-14T22:13:20''\<rparr> [] [] [] ''KH001''
       \<lparr>calls = []\<rparr>)
   = validation_fallback ''KH001'' \<lparr>now_secs = 1700000000, now_iso = ''2023-11-14T22:13:20''\<rparr> TypeError"
proof -
  have "\<exists>e'. fst (validate_claim_with_ai (\<lambda>_ _. Reply ''{}'')
       (\<lambda>_. Some (JObj [(''status'', JStr ''approved''), (''isValid'', JBool True),
          (''issues'', JArr [JObj [(''status'', JStr ''pass''), (''description'', JInt 7)]])]))
       \<lparr>now_secs = 1700000000, now_iso = ''2023-11-14T22:13:20''\<rparr> [] [] [] ''KH001''
       \<lparr>calls = []\<rparr>)
     = validation_fallback ''KH001'' \<lparr>now_secs = 1700000000, now_iso = ''2023-11-14T22:13:20''\<rparr> e'"
    by (rule validate_claim_bad_issue [where raw = "''{}''" and e = TypeError
        and x = "JObj [(''status'', JStr ''pass''), (''description'', JInt 7)]"
        and xs = "[JObj [(''status'', JStr ''pass''), (''description'', JInt 7)]]"
        and kvs = "[(''status'', JStr ''approved''), (''isValid'', JBool True),
          (''issues'', JArr [JObj [(''status'', JStr ''pass''), (''description'', JInt 7)]])]"])
       (simp_all add: validation_eval)
  then show ?thesis by (simp add: validation_eval)
qed

text \<open>
  C17. When the reply decodes to an object and the result validates, its issues are the
  entries of \<open>issues\<close> that validate after the fix-up, in their order; entries that
  fail \<open>ValidationIssue(**d)\<close> are skipped.
\<close>

theorem validate_claim_issues:
  assumes "g (length (calls st)) (Validation_prompt rep pol maps) = Reply raw"
    and "loads (clean_json_response raw) = Some (JObj kvs)"
    and "dict_get kvs ''issues'' (JArr []) = JArr xs"
    and "validation_of_result c clk kvs = Inr v"
  shows "issues (fst (validate_claim_with_ai g loads clk rep pol maps c st))
           = List.map_filter (\<lambda>x. projr (issue_step x)) xs"
  using assms validate_issues_Inr [OF validation_of_result_issues [OF assms(3,4)]]
  by (simp add: validate_claim_with_ai_fst coerce_validation_dict)

theorem validate_claim_issues_witness:
  "map checklistItem (issues (fst (validate_claim_with_ai (\<lambda>_ _. Reply ''{}'')
       (\<lambda>_. Some (JObj [(''status'', JStr ''needs_more_info''), (''confidence'', JFloat (7/10)),
          (''issues'', JArr [JObj [(''issueType'', JStr ''missing_document''),
             (''severity'', JStr ''warning''), (''description'', JStr ''No discharge paper''),
             (''affectedSections'', JArr [JStr ''report_sec_A'']),
             (''recommendation'', JStr ''Ask for it'')],
            JObj [(''severity'', JStr ''info'')]]),
          (''summary'', JStr ''1/2'')]))
       \<lparr>now_secs = 1700000000, now_iso = ''2023-11-14T22:13:20''\<rparr> [] [] [] ''KH001''
       \<lparr>calls = []\<rparr>))) = [''No discharge paper'']"
proof -
  define kvs where "kvs = [(''status'', JStr ''needs_more_info''), (''confidence'', JFloat (7/10)),
          (''issues'', JArr [JObj [(''issueType'', JStr ''missing_document''),
             (''severity'', JStr ''warning''), (''description'', JStr ''No discharge paper''),
             (''affectedSections'', JArr [JStr ''report_sec_A'']),
             (''recommendation'', JStr ''Ask for it'')],
            JObj [(''severity'', JStr ''info'')]]),
          (''summary'', JStr ''1/2'')]"
  define clk where "clk = \<lparr>now_secs = 1700000000, now_iso = ''2023-11-14T22:13:20''\<rparr>"
  obtain v where v: "validation_of_result ''KH001'' clk kvs = Inr v"
    by (simp add: kvs_def clk_def validation_eval py_prefix_ascii is_lead_def)
  show ?thesis
    using validate_claim_issues [of "\<lambda>_ _. Reply ''{}''" "\<lparr>calls = []\<rparr>" "[]" "[]" "[]" "''{}''"
        "\<lambda>_. Some (JObj kvs)" kvs _ "''KH001''" clk v, OF _ _ _ v]
    by (simp_all add: kvs_def clk_def validation_eval py_prefix_ascii is_lead_def)
qed

text \<open>
  C18. The confidence of a validated result is the model's value, coerced to a float and
  nothing else: no range check, so a reply with confidence 5 yields confidence 5.
\<close>

theorem validate_claim_confidence:
  assumes "g (length (calls st)) (Validation_prompt rep pol maps) = Reply raw"
    and "loads (clean_json_response raw) = Some (JObj kvs)"
    and "validation_of_result c clk kvs = Inr v"
  shows "val_float (dict_get kvs ''confidence'' (JFloat (1/2)))
           = Some (confidence (fst (validate_claim_with_ai g loads clk rep pol maps c st)))"
  using assms validation_of_result_confidence [OF assms(3)]
  by (simp add: validate_claim_with_ai_fst coerce_validation_dict)

theorem validate_claim_confidence_witness:
  "confidence (fst (validate_claim_with_ai (\<lambda>_ _. Reply ''{}'')
       (\<lambda>_. Some (JObj [(''status'', JStr ''approved''), (''confidence'', JInt 5)]))
       \<lparr>now_secs = 1700000000, now_iso = ''2023-11-14T22:13:20''\<rparr> [] [] [] ''KH001''
       \<lparr>calls = []\<rparr>)) = 5"
proof -
  define kvs where "kvs = [(''status'', JStr ''approved''), (''confidence'', JInt 5)]"
  define clk where "clk = \<lparr>now_secs = 1700000000, now_iso = ''2023-11-14T22:13:20''\<rparr>"
  obtain v where v: "validation_of_result ''KH001'' clk kvs = Inr v"
    by (simp add: kvs_def clk_def validation_eval py_prefix_ascii is_lead_def)
  show ?thesis
    using validate_claim_confidence [of "\<lambda>_ _. Reply ''{}''" "\<lparr>calls = []\<rparr>" "[]" "[]" "[]" "''{}''"
        "\<lambda>_. Some (JObj kvs)" kvs "''KH001''" clk v, OF _ _ v]
    by (simp_all add: kvs_def clk_def validation_eval)
qed

text \<open>
  C19. On every path, the fallback included, the claim id is
  \<open>claim-<customer_id>-<int(now.timestamp())>\<close>: it depends only on the customer id
  and the second of the call, so two validations of one customer within a second share it.
\<close>

theorem validate_claim_id:
  "claimId (fst (validate_claim_with_ai g loads clk rep pol maps c st)) = claim_id c (now_secs clk)"
  using coerce_validation_cases [of loads c clk "g (length (calls st)) (Validation_prompt rep pol maps)"]
  by (auto simp: validate_claim_with_ai_fst dest: validation_of_result_claimId)

end
