(* ===== verification/Action_Plan.thy ===== *)
theory Action_Plan
  imports Validation
begin

text \<open>
  Action planning: \<open>suggest_action_plan_with_ai(report_content, policy_content,
  validation_result, customer_id)\<close> (\<open>src/backend/services.py\<close>, lines 358--460). The
  decoded reply must be a dict; every element of \<open>result["actions"]\<close> is validated as
  an \<open>ActionItem\<close> by a list comprehension, so one element that does not validate raises
  out of the whole construction. The claim id is the prior validation's \<open>claimId\<close>
  when one is supplied (a pydantic model is always truthy), otherwise a fresh
  \<open>claim-<customer_id>-<seconds>\<close>. Every exception ends in the fixed fallback plan of
  lines 436--460, with one high-priority review action on the first two report sections.
\<close>

section \<open>Operations\<close>

definition plan_id :: "int \<Rightarrow> string" where
  "plan_id secs = ''plan-'' @ show_int secs"

text \<open>\<open>validation_result.claimId if validation_result else f"claim-..."\<close> (lines 423 and 438).\<close>

definition plan_claim_id :: "claim_validation_result option \<Rightarrow> string \<Rightarrow> clock \<Rightarrow> string" where
  "plan_claim_id validation_result customer_id clk =
     (case validation_result of Some v \<Rightarrow> claimId v | None \<Rightarrow> claim_id customer_id (now_secs clk))"

text \<open>\<open>[ActionItem(**action) for action in ...]\<close> (line 422): \<open>**\<close> on a value that is
  not a mapping raises \<open>TypeError\<close>, a mapping that fails validation \<open>ValidationError\<close>.\<close>

fun action_items :: "json list \<Rightarrow> py_exc + action_item list" where
  "action_items [] = Inr []"
| "action_items (JObj kvs # acts) =
     (case mk_action_item kvs of
        None \<Rightarrow> Inl ValidationError
      | Some a \<Rightarrow> exc_bind (action_items acts) (\<lambda>as. Inr (a # as)))"
| "action_items (_ # acts) = Inl TypeError"

definition plan_of_result ::
  "claim_validation_result option \<Rightarrow> string \<Rightarrow> clock \<Rightarrow> (string \<times> json) list \<Rightarrow> py_exc + action_plan" where
  "plan_of_result validation_result customer_id clk result =
     exc_bind (py_iter (dict_get result ''actions'' (JArr []))) (\<lambda>entries.
     exc_bind (action_items entries) (\<lambda>acts.
     exc_bind (ClaimStatus (dict_get result ''status'' (JStr ''pending_review''))) (\<lambda>st.
     (case (val_str (dict_get result ''totalEstimatedTime'' (JStr ''Unknown'')),
            val_str_list (dict_get result ''criticalPath'' (JArr [])),
            val_str (dict_get result ''nextSteps'' (JStr ''Dang xu ly''))) of
        (Some tt, Some cp, Some ns) \<Rightarrow>
          Inr \<lparr>planId = plan_id (now_secs clk),
               plan_claimId = plan_claim_id validation_result customer_id clk,
               plan_status = st, actions = acts, totalEstimatedTime = tt, criticalPath = cp,
               nextSteps = ns, plan_timestamp = now_iso clk\<rparr>
      | _ \<Rightarrow> Inl ValidationError))))"

definition plan_fallback ::
  "content_section list \<Rightarrow> claim_validation_result option \<Rightarrow> string \<Rightarrow> clock \<Rightarrow> action_plan" where
  "plan_fallback report_content validation_result customer_id clk =
     \<lparr>planId = plan_id (now_secs clk),
      plan_claimId = plan_claim_id validation_result customer_id clk,
      plan_status = PENDING_REVIEW,
      actions = [\<lparr>action_id = ''action_1'', title = ''Review documents'',
                  action_description = ''Kiem tra tat ca tai lieu dinh kem'', priority = HIGH,
                  dueDate = None, assignee = Some ''Claims Team'',
                  relatedSections = map sec_id (take 2 report_content), estimatedTime = ''1 hour''\<rparr>],
      totalEstimatedTime = ''1 hour'', criticalPath = [''action_1''],
      nextSteps = ''Bat dau review tai lieu'', plan_timestamp = now_iso clk\<rparr>"

definition coerce_plan ::
  "json_loads \<Rightarrow> content_section list \<Rightarrow> claim_validation_result option \<Rightarrow> string \<Rightarrow> clock
     \<Rightarrow> reply \<Rightarrow> action_plan" where
  "coerce_plan loads report_content validation_result customer_id clk r =
     (case exc_bind (reply_text r) (\<lambda>raw.
             case loads (clean_json_response raw) of
               None \<Rightarrow> Inl JSONDecodeError
             | Some (JObj result) \<Rightarrow> plan_of_result validation_result customer_id clk result
             | Some _ \<Rightarrow> Inl AttributeError) of
        Inr p \<Rightarrow> p
      | Inl e \<Rightarrow> plan_fallback report_content validation_result customer_id clk)"

definition suggest_action_plan_with_ai ::
  "model_oracle \<Rightarrow> json_loads \<Rightarrow> clock \<Rightarrow> content_section list \<Rightarrow> content_section list
     \<Rightarrow> claim_validation_result option \<Rightarrow> string \<Rightarrow> gw_state \<Rightarrow> action_plan \<times> gw_state" where
  "suggest_action_plan_with_ai g loads clk report_content policy_content validation_result customer_id st =
     (let (r, st') = generate g (Plan_prompt report_content policy_content validation_result) st
      in (coerce_plan loads report_content validation_result customer_id clk r, st'))"

text \<open>An \<open>ActionItem\<close> as the JSON object a well-behaved model returns for it.\<close>

definition action_item_json :: "action_item \<Rightarrow> json" where
  "action_item_json a = JObj
     [(''id'', JStr (action_id a)), (''title'', JStr (title a)),
      (''description'', JStr (action_description a)),
      (''priority'', JStr (action_priority_value (priority a))),
      (''dueDate'', case dueDate a of Some d \<Rightarrow> JStr d | None \<Rightarrow> JNull),
      (''assignee'', case assignee a of Some s \<Rightarrow> JStr s | None \<Rightarrow> JNull),
      (''relatedSections'', JArr (map JStr (relatedSections a))),
      (''estimatedTime'', JStr (estimatedTime a))]"

section \<open>Lemmas\<close>

lemma suggest_action_plan_with_ai_fst:
  "fst (suggest_action_plan_with_ai g loads clk rep pol vr c st)
     = coerce_plan loads rep vr c clk (g (length (calls st)) (Plan_prompt rep pol vr))"
  by (simp add: suggest_action_plan_with_ai_def generate_def)

lemma suggest_action_plan_with_ai_calls [simp]:
  "calls (snd (suggest_action_plan_with_ai g loads clk rep pol vr c st))
     = calls st @ [Plan_prompt rep pol vr]"
  by (simp add: suggest_action_plan_with_ai_def generate_def)

lemma coerce_plan_cases:
  "coerce_plan loads rep vr c clk r = plan_fallback rep vr c clk
   \<or> (\<exists>raw result. r = Reply raw \<and> loads (clean_json_response raw) = Some (JObj result)
        \<and> plan_of_result vr c clk result = Inr (coerce_plan loads rep vr c clk r))"
  by (cases r) (auto simp: coerce_plan_def split: sum.splits option.splits json.splits)

lemma coerce_plan_not_dict:
  "(\<forall>raw. r = Reply raw \<longrightarrow> (\<forall>kvs. loads (clean_json_response raw) \<noteq> Some (JObj kvs)))
     \<Longrightarrow> coerce_plan loads rep vr c clk r = plan_fallback rep vr c clk"
  by (cases r) (auto simp: coerce_plan_def split: option.splits json.splits)

lemma coerce_plan_dict:
  "r = Reply raw \<Longrightarrow> loads (clean_json_response raw) = Some (JObj kvs)
     \<Longrightarrow> coerce_plan loads rep vr c clk r
         = (case plan_of_result vr c clk kvs of Inr p \<Rightarrow> p | Inl e \<Rightarrow> plan_fallback rep vr c clk)"
  by (simp add: coerce_plan_def)

lemma plan_of_result_Inr:
  "plan_of_result vr c clk kvs = Inr p \<Longrightarrow>
     plan_claimId p = plan_claim_id vr c clk
     \<and> val_str_list (dict_get kvs ''criticalPath'' (JArr [])) = Some (criticalPath p)"
  by (auto simp: plan_of_result_def exc_bind_def split: sum.splits option.splits)

lemma enum_of_value_action_priority [simp]:
  "enum_of_value action_priority_value action_priorities (action_priority_value p) = Some p"
  by (cases p) (simp_all add: action_priorities_def enum_of_value_def)

lemma mk_action_item_json:
  assumes "action_item_json a = JObj kvs"
  shows "mk_action_item kvs = Some a"
proof -
  have kvs: "kvs = (case action_item_json a of JObj k \<Rightarrow> k | _ \<Rightarrow> [])"
    using assms by simp
  show ?thesis unfolding kvs
    by (cases a) (simp add: action_item_json_def mk_action_item_def req_def opt_def split: option.split)
qed

lemma action_items_json: "action_items (map action_item_json as) = Inr as"
proof (induction as)
  case (Cons a as)
  obtain kvs where kvs: "action_item_json a = JObj kvs" by (simp add: action_item_json_def)
  then show ?case using Cons mk_action_item_json [OF kvs] by simp
qed simp

lemma action_items_Inl:
  "x \<in> set xs \<Longrightarrow> (\<forall>kvs. x = JObj kvs \<longrightarrow> mk_action_item kvs = None)
     \<Longrightarrow> \<exists>e. action_items xs = Inl e"
proof (induction xs rule: action_items.induct)
  case (2 kvs acts)
  then show ?case by (auto split: option.splits)
qed auto

lemmas plan_eval = suggest_action_plan_with_ai_fst coerce_plan_def plan_of_result_def plan_claim_id_def
  plan_fallback_def plan_id_def dict_get_def claim_statuses_def enum_of_value_def clean_eval

subsection \<open>Properties\<close>

text \<open>
  C20. On every path the plan's claim id is the \<open>claimId\<close> of the validation result
  when one is supplied, and \<open>claim-<customer_id>-<seconds>\<close> otherwise, so a plan built
  after a validation refers to it.
\<close>

theorem suggest_plan_claim_id:
  "plan_claimId (fst (suggest_action_plan_with_ai g loads clk rep pol vr c st))
     = (case vr of Some v \<Rightarrow> claimId v | None \<Rightarrow> claim_id c (now_secs clk))"
  using coerce_plan_cases [of loads rep vr c clk "g (length (calls st)) (Plan_prompt rep pol vr)"]
  by (auto simp: suggest_action_plan_with_ai_fst plan_fallback_def plan_claim_id_def
      dest: plan_of_result_Inr)

text \<open>
  C21. When the call fails or the reply does not decode to a JSON object, the plan is the
  fallback: status \<open>pending_review\<close>, one high-priority action \<open>action_1\<close> on the
  ids of the first two report sections, critical path \<open>[action_1]\<close>.
\<close>

theorem suggest_plan_fallback:
  assumes "\<forall>raw. g (length (calls st)) (Plan_prompt rep pol vr) = Reply raw
             \<longrightarrow> (\<forall>kvs. loads (clean_json_response raw) \<noteq> Some (JObj kvs))"
  shows "plan_status (fst (suggest_action_plan_with_ai g loads clk rep pol vr c st)) = PENDING_REVIEW
    \<and> map (\<lambda>a. (action_id a, priority a, relatedSections a))
          (actions (fst (suggest_action_plan_with_ai g loads clk rep pol vr c st)))
        = [(''action_1'', HIGH, map sec_id (take 2 rep))]
    \<and> criticalPath (fst (suggest_action_plan_with_ai g loads clk rep pol vr c st)) = [''action_1'']"
  using coerce_plan_not_dict [OF assms] by (simp add: suggest_action_plan_with_ai_fst plan_fallback_def)

theorem suggest_plan_fallback_witness:
  "map (\<lambda>a. (action_id a, priority a, relatedSections a))
     (actions (fst (suggest_action_plan_with_ai (\<lambda>_ _. Reply ''no plan today'') (\<lambda>_. None)
        \<lparr>now_secs = 1700000000, now_iso = ''2023-11-14T22:13:20''\<rparr>
        [\<lparr>sec_id = ''report_sec_A'', sec_text = ''a''\<rparr>, \<lparr>sec_id = ''report_sec_B'', sec_text = ''b''\<rparr>,
         \<lparr>sec_id = ''report_sec_C'', sec_text = ''c''\<rparr>] [] None ''KH001'' \<lparr>calls = []\<rparr>)))
   = [(''action_1'', HIGH, [''report_sec_A'', ''report_sec_B''])]"
  using suggest_plan_fallback [of "\<lambda>_ _. Reply ''no plan today''" "\<lparr>calls = []\<rparr>"
      "[\<lparr>sec_id = ''report_sec_A'', sec_text = ''a''\<rparr>, \<lparr>sec_id = ''report_sec_B'', sec_text = ''b''\<rparr>,
        \<lparr>sec_id = ''report_sec_C'', sec_text = ''c''\<rparr>]" "[]" None "\<lambda>_. None"
      "\<lparr>now_secs = 1700000000, now_iso = ''2023-11-14T22:13:20''\<rparr>" "''KH001''"]
  by simp

text \<open>
  C22. A decoded object whose \<open>actions\<close> are well-formed action objects and whose other
  fields validate yields exactly that plan: the actions verbatim and in order, the
  model's status, times, critical path and next steps, with the generated plan id.
\<close>

theorem suggest_plan_success:
  assumes "g (length (calls st)) (Plan_prompt rep pol vr) = Reply raw"
    and "loads (clean_json_response raw) = Some (JObj kvs)"
    and "dict_get kvs ''actions'' (JArr []) = JArr (map action_item_json acts)"
    and "ClaimStatus (dict_get kvs ''status'' (JStr ''pending_review'')) = Inr s"
    and "val_str (dict_get kvs ''totalEstimatedTime'' (JStr ''Unknown'')) = Some tt"
    and "val_str_list (dict_get kvs ''criticalPath'' (JArr [])) = Some cp"
    and "val_str (dict_get kvs ''nextSteps'' (JStr ''Dang xu ly'')) = Some ns"
  shows "fst (suggest_action_plan_with_ai g loads clk rep pol vr c st)
    = \<lparr>planId = plan_id (now_secs clk), plan_claimId = plan_claim_id vr c clk, plan_status = s,
       actions = acts, totalEstimatedTime = tt, criticalPath = cp, nextSteps = ns,
       plan_timestamp = now_iso clk\<rparr>"
  using assms by (simp add: suggest_action_plan_with_ai_fst coerce_plan_dict plan_of_result_def
      action_items_json del: val_str_Some)

theorem suggest_plan_success_witness:
  "actions (fst (suggest_action_plan_with_ai (\<lambda>_ _. Reply ''{}'')
       (\<lambda>_. Some (JObj [(''status'', JStr ''needs_more_info''),
          (''actions'', JArr [action_item_json \<lparr>action_id = ''action_1'', title = ''Call the hospital'',
             action_description = ''Ask for the discharge paper'', priority = MEDIUM, dueDate = None,
             assignee = Some ''Claims Team'', relatedSections = [''report_sec_A''],
             estimatedTime = ''2 hours''\<rparr>]),
          (''criticalPath'', JArr [JStr ''action_1''])]))
       \<lparr>now_secs = 1700000000, now_iso = ''2023-11-14T22:13:20''\<rparr> [] [] None ''KH001'' \<lparr>calls = []\<rparr>))
   = [\<lparr>action_id = ''action_1'', title = ''Call the hospital'',
       action_description = ''Ask for the discharge paper'', priority = MEDIUM, dueDate = None,
       assignee = Some ''Claims Team'', relatedSections = [''report_sec_A''], estimatedTime = ''2 hours''\<rparr>]"
proof -
  define a where "a = \<lparr>action_id = ''action_1'', title = ''Call the hospital'',
       action_description = ''Ask for the discharge paper'', priority = MEDIUM, dueDate = None,
       assignee = Some ''Claims Team'', relatedSections = [''report_sec_A''], estimatedTime = ''2 hours''\<rparr>"
  define kvs where "kvs = [(''status'', JStr ''needs_more_info''), (''actions'', JArr [action_item_json a]),
          (''criticalPath'', JArr [JStr ''action_1''])]"
  define clk where "clk = \<lparr>now_secs = 1700000000, now_iso = ''2023-11-14T22:13:20''\<rparr>"
  have "fst (suggest_action_plan_with_ai (\<lambda>_ _. Reply ''{}'') (\<lambda>_. Some (JObj kvs)) clk [] [] None
          ''KH001'' \<lparr>calls = []\<rparr>)
    = \<lparr>planId = plan_id (now_secs clk), plan_claimId = plan_claim_id None ''KH001'' clk,
       plan_status = NEEDS_MORE_INFO, actions = [a], totalEstimatedTime = ''Unknown'',
       criticalPath = [''action_1''], nextSteps = ''Dang xu ly'', plan_timestamp = now_iso clk\<rparr>"
    by (rule suggest_plan_success [where raw = "''{}''" and kvs = kvs and acts = "[a]"
          and s = NEEDS_MORE_INFO and tt = "''Unknown''" and cp = "[''action_1'']"
          and ns = "''Dang xu ly''"])
       (simp_all add: kvs_def dict_get_def claim_statuses_def enum_of_value_def clean_eval)
  then show ?thesis by (simp add: a_def kvs_def clk_def)
qed

text \<open>
  C23. One element of \<open>actions\<close> that is not an object, or an object that fails
  \<open>ActionItem\<close> validation, discards the whole reply: the plan is the fallback, and the
  model's valid actions are lost with it (unlike validation issues, which are skipped one
  by one).
\<close>

theorem suggest_plan_bad_action:
  assumes "g (length (calls st)) (Plan_prompt rep pol vr) = Reply raw"
    and "loads (clean_json_response raw) = Some (JObj kvs)"
    and "dict_get kvs ''actions'' (JArr []) = JArr xs" and "x \<in> set xs"
    and "\<forall>d. x = JObj d \<longrightarrow> mk_action_item d = None"
  shows "fst (suggest_action_plan_with_ai g loads clk rep pol vr c st) = plan_fallback rep vr c clk"
proof -
  obtain e where "action_items xs = Inl e" using action_items_Inl [OF assms(4,5)] by blast
  then have "plan_of_result vr c clk kvs = Inl e"
    using assms(3) by (simp add: plan_of_result_def)
  then show ?thesis
    using assms(1,2) by (simp add: suggest_action_plan_with_ai_fst coerce_plan_dict)
qed

theorem suggest_plan_bad_action_witness:
  "fst (suggest_action_plan_with_ai (\<lambda>_ _. Reply ''{}'')
       (\<lambda>_. Some (JObj [(''status'', JStr ''approved''),
          (''actions'', JArr [JObj [(''id'', JStr ''action_1'')]])]))
       \<lparr>now_secs = 1700000000, now_iso = ''2023-11-14T22:13:20''\<rparr>
       [\<lparr>sec_id = ''report_sec_A'', sec_text = ''a''\<rparr>] [] None ''KH001'' \<lparr>calls = []\<rparr>)
   = plan_fallback [\<lparr>sec_id = ''report_sec_A'', sec_text = ''a''\<rparr>] None ''KH001''
       \<lparr>now_secs = 1700000000, now_iso = ''2023-11-14T22:13:20''\<rparr>"
  by (rule suggest_plan_bad_action [where raw = "''{}''" and x = "JObj [(''id'', JStr ''action_1'')]"
        and xs = "[JObj [(''id'', JStr ''action_1'')]]"
        and kvs = "[(''status'', JStr ''approved''), (''actions'', JArr [JObj [(''id'', JStr ''action_1'')]])]"])
     (simp_all add: dict_get_def mk_action_item_def req_def clean_eval)

text \<open>
  C24. The critical path of a plan built from the reply is the model's list verbatim:
  it is not checked against the ids of the plan's actions, so a plan with no actions can
  have the critical path \<open>[action_9]\<close>.
\<close>

theorem suggest_plan_critical_path:
  assumes "g (length (calls st)) (Plan_prompt rep pol vr) = Reply raw"
    and "loads (clean_json_response raw) = Some (JObj kvs)"
    and "plan_of_result vr c clk kvs = Inr p"
  shows "val_str_list (dict_get kvs ''criticalPath'' (JArr []))
           = Some (criticalPath (fst (suggest_action_plan_with_ai g loads clk rep pol vr c st)))"
  using assms plan_of_result_Inr [OF assms(3)]
  by (simp add: suggest_action_plan_with_ai_fst coerce_plan_dict)

theorem suggest_plan_critical_path_witness:
  "criticalPath (fst (suggest_action_plan_with_ai (\<lambda>_ _. Reply ''{}'')
       (\<lambda>_. Some (JObj [(''criticalPath'', JArr [JStr ''action_9''])]))
       \<lparr>now_secs = 1700000000, now_iso = ''2023-11-14T22:13:20''\<rparr> [] [] None ''KH001'' \<lparr>calls = []\<rparr>))
     = [''action_9'']
   \<and> actions (fst (suggest_action_plan_with_ai (\<lambda>_ _. Reply ''{}'')
       (\<lambda>_. Some (JObj [(''criticalPath'', JArr [JStr ''action_9''])]))
       \<lparr>now_secs = 1700000000, now_iso = ''2023-11-14T22:13:20''\<rparr> [] [] None ''KH001'' \<lparr>calls = []\<rparr>))
     = []"
proof -
  define kvs where "kvs = [(''criticalPath'', JArr [JStr ''action_9''])]"
  define clk where "clk = \<lparr>now_secs = 1700000000, now_iso = ''2023-11-14T22:13:20''\<rparr>"
  obtain p where p: "plan_of_result None ''KH001'' clk kvs = Inr p"
    by (simp add: kvs_def clk_def plan_eval)
  have "val_str_list (dict_get kvs ''criticalPath'' (JArr []))
      = Some (criticalPath (fst (suggest_action_plan_with_ai (\<lambda>_ _. Reply ''{}'') (\<lambda>_. Some (JObj kvs))
                clk [] [] None ''KH001'' \<lparr>calls = []\<rparr>)))"
    by (rule suggest_plan_critical_path [where raw = "''{}''", OF _ _ p]) (simp_all add: clean_eval)
  then show ?thesis by (simp add: kvs_def clk_def plan_eval)
qed

end
