(* ===== verification/Py_Regex.thy ===== *)
theory Py_Regex
  imports Prelude
begin

text \<open>
  The part of Python's \<open>re\<close> module the backend uses (\<open>re.search\<close> with
  \<open>re.IGNORECASE\<close> in \<open>calculate_payout_from_text\<close>, \<open>src/backend/services.py\<close>
  lines 525--527), on \<open>str\<close> values seen as lists of characters (\<open>py_chars\<close>).
  A pattern is a list of items: a literal matched case-insensitively, a one-character
  class, and the greedy quantifiers \<open>*\<close>, \<open>+\<close>, \<open>?\<close> on a class. The matcher
  is the backtracking one of \<open>re\<close>: a greedy quantifier tries its longest repetition
  first and gives back one character at a time, and \<open>re.search\<close> returns the first
  success at the leftmost start position. The classes \<open>\s\<close> (\<open>str.isspace\<close>,
  \<open>is_space\<close>), \<open>\d\<close> (the decimal digits of Unicode 15, general category Nd,
  which \<open>int()\<close> also accepts) and \<open>.\<close> (every character but a newline) are those of
  a \<open>str\<close> pattern.
\<close>

section \<open>Character classes\<close>

text \<open>The first code point of each run of ten Nd digits (zero to nine).\<close>

definition nd_zeros :: "nat list" where
  "nd_zeros =
     [0x30, 0x660, 0x6F0, 0x7C0, 0x966, 0x9E6, 0xA66, 0xAE6,
      0xB66, 0xBE6, 0xC66, 0xCE6, 0xD66, 0xDE6, 0xE50, 0xED0,
      0xF20, 0x1040, 0x1090, 0x17E0, 0x1810, 0x1946, 0x19D0, 0x1A80,
      0x1A90, 0x1B50, 0x1BB0, 0x1C40, 0x1C50, 0xA620, 0xA8D0, 0xA900,
      0xA9D0, 0xA9F0, 0xAA50, 0xABF0, 0xFF10, 0x104A0, 0x10D30, 0x11066,
      0x110F0, 0x11136, 0x111D0, 0x112F0, 0x11450, 0x114D0, 0x11650, 0x116C0,
      0x11730, 0x118E0, 0x11950, 0x11C50, 0x11D50, 0x11DA0, 0x11F50, 0x16A60,
      0x16AC0, 0x16B50, 0x1D7CE, 0x1D7D8, 0x1D7E2, 0x1D7EC, 0x1D7F6, 0x1E140,
      0x1E2F0, 0x1E4F0, 0x1E950, 0x1FBF0]"

text \<open>The value of a decimal digit character, \<open>None\<close> for any other character.\<close>

definition nd_value :: "string \<Rightarrow> nat option" where
  "nd_value u =
     (let n = utf8_code u in map_option (\<lambda>z. n - z) (find (\<lambda>z. z \<le> n \<and> n < z + 10) nd_zeros))"

definition is_py_digit :: "string \<Rightarrow> bool" where
  "is_py_digit u \<longleftrightarrow> nd_value u \<noteq> None"

text \<open>
  The characters a pattern letter matches under \<open>re.IGNORECASE\<close>: its two ASCII
  cases and, for \<open>i\<close>, \<open>k\<close> and \<open>s\<close>, the non-ASCII characters that case-fold to it
  (U+0130, U+0131; U+212A; U+017F). Other pattern characters match themselves.
\<close>

definition ci_class :: "char \<Rightarrow> string list" where
  "ci_class p =
     (let n = of_char p :: nat in
      if 97 \<le> n \<and> n \<le> 122 then
        [[p], [char_of (n - 32)]]
        @ (if p = CHR ''i'' then [[CHR 0xC4, CHR 0xB0], [CHR 0xC4, CHR 0xB1]]
           else if p = CHR ''k'' then [[CHR 0xE2, CHR 0x84, CHR 0xAA]]
           else if p = CHR ''s'' then [[CHR 0xC5, CHR 0xBF]] else [])
      else if 65 \<le> n \<and> n \<le> 90 then [[p], [char_of (n + 32)]]
      else [[p]])"

fun lit_ci :: "string \<Rightarrow> string list \<Rightarrow> string list option" where
  "lit_ci [] us = Some us"
| "lit_ci (p # ps) [] = None"
| "lit_ci (p # ps) (u # us) = (if u \<in> set (ci_class p) then lit_ci ps us else None)"

section \<open>Patterns and the backtracking matcher\<close>

datatype rx_item =
    RLit string
  | RCls "string \<Rightarrow> bool"
  | RStar "string \<Rightarrow> bool"
  | RPlus "string \<Rightarrow> bool"
  | ROpt "string \<Rightarrow> bool"

text \<open>The first alternative, in order, whose continuation succeeds.\<close>

definition first_some :: "('a \<Rightarrow> 'b option) \<Rightarrow> 'a list \<Rightarrow> 'b option" where
  "first_some f xs = (case find (\<lambda>r. r \<noteq> None) (map f xs) of Some r \<Rightarrow> r | None \<Rightarrow> None)"

text \<open>
  \<open>rx_match items s k\<close> matches the items at the start of \<open>s\<close> and passes what is
  left to the continuation \<open>k\<close>; a failing continuation makes the quantifiers
  backtrack. The repetition counts of a greedy quantifier are tried from the longest.
\<close>

fun rx_match :: "rx_item list \<Rightarrow> string list \<Rightarrow> (string list \<Rightarrow> 'a option) \<Rightarrow> 'a option" where
  "rx_match [] s k = k s"
| "rx_match (RLit p # items) s k =
     (case lit_ci p s of Some s' \<Rightarrow> rx_match items s' k | None \<Rightarrow> None)"
| "rx_match (RCls c # items) s k =
     (case s of u # s' \<Rightarrow> if c u then rx_match items s' k else None | [] \<Rightarrow> None)"
| "rx_match (RStar c # items) s k =
     first_some (\<lambda>n. rx_match items (drop n s) k) (rev [0..<Suc (length (takeWhile c s))])"
| "rx_match (RPlus c # items) s k =
     first_some (\<lambda>n. rx_match items (drop n s) k) (rev [1..<Suc (length (takeWhile c s))])"
| "rx_match (ROpt c # items) s k =
     first_some (\<lambda>n. rx_match items (drop n s) k) (if s \<noteq> [] \<and> c (hd s) then [1, 0] else [0])"

text \<open>
  \<open>re.search(pre + "(" + grp + ")", text).group(1)\<close> for a pattern whose group ends it:
  the leftmost start position at which the whole pattern matches, and the characters
  the group consumed there.
\<close>

definition rx_group :: "rx_item list \<Rightarrow> string list \<Rightarrow> string list option" where
  "rx_group grp s1 = rx_match grp s1 (\<lambda>s2. Some (take (length s1 - length s2) s1))"

fun re_search :: "rx_item list \<Rightarrow> rx_item list \<Rightarrow> string list \<Rightarrow> string list option" where
  "re_search pre grp [] = rx_match pre [] (rx_group grp)"
| "re_search pre grp (u # us) =
     (case rx_match pre (u # us) (rx_group grp) of
        Some g \<Rightarrow> Some g
      | None \<Rightarrow> re_search pre grp us)"

section \<open>The language of a pattern\<close>

text \<open>
  The declarative meaning of a pattern, independent of the search order: the
  strings (lists of characters) an item matches, and those a pattern matches as the
  concatenation of its items. It is the reference against which the backtracking
  matcher is shown complete and sound (lemma \<open>rx_match_lang\<close>).
\<close>

fun item_lang :: "rx_item \<Rightarrow> string list \<Rightarrow> bool" where
  "item_lang (RLit p) w = list_all2 (\<lambda>c u. u \<in> set (ci_class c)) p w"
| "item_lang (RCls c) w = (case w of [u] \<Rightarrow> c u | _ \<Rightarrow> False)"
| "item_lang (RStar c) w = list_all c w"
| "item_lang (RPlus c) w = (w \<noteq> [] \<and> list_all c w)"
| "item_lang (ROpt c) w = (case w of [] \<Rightarrow> True | [u] \<Rightarrow> c u | _ \<Rightarrow> False)"

fun in_lang :: "rx_item list \<Rightarrow> string list \<Rightarrow> bool" where
  "in_lang [] w = (w = [])"
| "in_lang (it # items) w =
     list_ex (\<lambda>i. item_lang it (take i w) \<and> in_lang items (drop i w)) [0..<Suc (length w)]"

section \<open>Lemmas\<close>

lemma ci_class_self [simp]: "[p] \<in> set (ci_class p)"
  by (simp add: ci_class_def Let_def)

lemma lit_ci_self [simp]: "lit_ci p (map (\<lambda>c. [c]) p @ rest) = Some rest"
  by (induction p) simp_all

lemma first_some_simps [simp]:
  "first_some f [] = None"
  "first_some f (x # xs) = (case f x of Some r \<Rightarrow> Some r | None \<Rightarrow> first_some f xs)"
  by (simp_all add: first_some_def split: option.split)

lemma first_some_rev_upt_top:
  "a \<le> m \<Longrightarrow> f m = Some r \<Longrightarrow> first_some f (rev [a..<Suc m]) = Some r"
  by simp

lemma re_search_start: "rx_match pre s (rx_group grp) = Some g \<Longrightarrow> re_search pre grp s = Some g"
  by (cases s) simp_all

lemma takeWhile_run: "(\<And>x. x \<in> set xs \<Longrightarrow> P x) \<Longrightarrow> \<not> P u \<Longrightarrow> takeWhile P (xs @ u # r) = xs"
  by (induction xs) auto

text \<open>A greedy \<open>+\<close> followed by the rest of a pattern first tries the whole run of its class.\<close>

lemma rx_match_plus_run:
  assumes "xs \<noteq> []" "\<And>x. x \<in> set xs \<Longrightarrow> P x" "\<not> P u"
    and "rx_match items (u # r) k = Some y"
  shows "rx_match (RPlus P # items) (xs @ u # r) k = Some y"
proof -
  have tw: "length (takeWhile P (xs @ u # r)) = length xs" using takeWhile_run [of xs P u r, OF assms(2,3)] by simp
  have "1 \<le> length xs" using assms(1) by (cases xs) simp_all
  moreover have "rx_match items (drop (length xs) (xs @ u # r)) k = Some y" using assms(4) by simp
  ultimately show ?thesis
    unfolding rx_match.simps tw by (rule first_some_rev_upt_top)
qed

text \<open>A group that is a greedy \<open>+\<close> at the end of a pattern takes the whole run of its class.\<close>

lemma rx_group_plus_run:
  assumes "xs \<noteq> []" "\<And>x. x \<in> set xs \<Longrightarrow> P x" "\<not> P u"
  shows "rx_group [RPlus P] (xs @ u # r) = Some xs"
  unfolding rx_group_def by (rule rx_match_plus_run [of xs P u, OF assms]) (simp only: rx_match.simps, simp)

lemma first_some_None_iff: "first_some f xs \<noteq> None \<longleftrightarrow> (\<exists>x\<in>set xs. f x \<noteq> None)"
  by (induction xs) (auto split: option.splits)

lemma list_all_take_takeWhile:
  "n \<le> length s \<Longrightarrow> list_all c (take n s) \<longleftrightarrow> n \<le> length (takeWhile c s)"
proof (induction s arbitrary: n)
  case (Cons u s)
  then show ?case by (cases n) auto
qed simp

lemma lit_ci_Some:
  "lit_ci p s = Some r \<longleftrightarrow> length p \<le> length s \<and> list_all2 (\<lambda>c u. u \<in> set (ci_class c)) p (take (length p) s)
      \<and> r = drop (length p) s"
proof (induction p arbitrary: s)
  case (Cons c p)
  then show ?case by (cases s) auto
qed (auto simp: eq_commute)

lemma item_lang_length: "item_lang (RLit p) w \<Longrightarrow> length w = length p"
  by (simp add: list_all2_lengthD)

lemma rx_match_cls:
  "rx_match (RCls c # items) s k \<noteq> None
     \<longleftrightarrow> (\<exists>i \<le> length s. item_lang (RCls c) (take i s) \<and> rx_match items (drop i s) k \<noteq> None)"
proof
  assume "rx_match (RCls c # items) s k \<noteq> None"
  then show "\<exists>i \<le> length s. item_lang (RCls c) (take i s) \<and> rx_match items (drop i s) k \<noteq> None"
    by (intro exI [of _ 1]) (auto split: list.splits if_splits)
next
  assume "\<exists>i \<le> length s. item_lang (RCls c) (take i s) \<and> rx_match items (drop i s) k \<noteq> None"
  then obtain i where i: "i \<le> length s" "item_lang (RCls c) (take i s)" "rx_match items (drop i s) k \<noteq> None"
    by blast
  then obtain u s' where "s = u # s'" "i = 1" "c u"
    by (cases s; cases i) (auto split: list.splits)
  then show "rx_match (RCls c # items) s k \<noteq> None" using i(3) by simp
qed

lemma rx_match_lit:
  "rx_match (RLit p # items) s k \<noteq> None
     \<longleftrightarrow> (\<exists>i \<le> length s. item_lang (RLit p) (take i s) \<and> rx_match items (drop i s) k \<noteq> None)"
proof
  assume "rx_match (RLit p # items) s k \<noteq> None"
  then obtain r where "lit_ci p s = Some r" "rx_match items r k \<noteq> None"
    by (auto split: option.splits)
  then show "\<exists>i \<le> length s. item_lang (RLit p) (take i s) \<and> rx_match items (drop i s) k \<noteq> None"
    by (intro exI [of _ "length p"]) (simp add: lit_ci_Some)
next
  assume "\<exists>i \<le> length s. item_lang (RLit p) (take i s) \<and> rx_match items (drop i s) k \<noteq> None"
  then obtain i where i: "i \<le> length s" "item_lang (RLit p) (take i s)" "rx_match items (drop i s) k \<noteq> None"
    by blast
  then have "length p = i" using item_lang_length [OF i(2)] by simp
  then have "lit_ci p s = Some (drop i s)" using i by (simp add: lit_ci_Some)
  then show "rx_match (RLit p # items) s k \<noteq> None" using i(3) by simp
qed

lemma rx_match_star:
  "rx_match (RStar c # items) s k \<noteq> None
     \<longleftrightarrow> (\<exists>i \<le> length s. item_lang (RStar c) (take i s) \<and> rx_match items (drop i s) k \<noteq> None)"
proof -
  have "rx_match (RStar c # items) s k \<noteq> None
      \<longleftrightarrow> (\<exists>i \<le> length (takeWhile c s). rx_match items (drop i s) k \<noteq> None)"
    by (simp only: rx_match.simps first_some_None_iff set_rev set_upt) (auto simp: less_Suc_eq_le)
  also have "\<dots> \<longleftrightarrow> (\<exists>i \<le> length s. item_lang (RStar c) (take i s) \<and> rx_match items (drop i s) k \<noteq> None)"
    using length_takeWhile_le [of c s] by (auto simp: list_all_take_takeWhile intro: order.trans)
  finally show ?thesis .
qed

lemma rx_match_plus:
  "rx_match (RPlus c # items) s k \<noteq> None
     \<longleftrightarrow> (\<exists>i \<le> length s. item_lang (RPlus c) (take i s) \<and> rx_match items (drop i s) k \<noteq> None)"
proof -
  have "rx_match (RPlus c # items) s k \<noteq> None
      \<longleftrightarrow> (\<exists>i. 1 \<le> i \<and> i \<le> length (takeWhile c s) \<and> rx_match items (drop i s) k \<noteq> None)"
    by (simp only: rx_match.simps first_some_None_iff set_rev set_upt) (auto simp: less_Suc_eq_le)
  also have "\<dots> \<longleftrightarrow> (\<exists>i \<le> length s. item_lang (RPlus c) (take i s) \<and> rx_match items (drop i s) k \<noteq> None)"
    using length_takeWhile_le [of c s]
    by (auto simp: list_all_take_takeWhile intro: order.trans) (metis Suc_leI gr0I le_trans take_eq_Nil)+
  finally show ?thesis .
qed

lemma rx_match_opt:
  "rx_match (ROpt c # items) s k \<noteq> None
     \<longleftrightarrow> (\<exists>i \<le> length s. item_lang (ROpt c) (take i s) \<and> rx_match items (drop i s) k \<noteq> None)"
proof (cases s)
  case (Cons u s')
  have "(\<exists>i \<le> length s. item_lang (ROpt c) (take i s) \<and> rx_match items (drop i s) k \<noteq> None)
      \<longleftrightarrow> rx_match items s k \<noteq> None \<or> (c u \<and> rx_match items s' k \<noteq> None)"
  proof
    assume "\<exists>i \<le> length s. item_lang (ROpt c) (take i s) \<and> rx_match items (drop i s) k \<noteq> None"
    then obtain i where "i \<le> length s" "item_lang (ROpt c) (take i s)" "rx_match items (drop i s) k \<noteq> None"
      by blast
    then show "rx_match items s k \<noteq> None \<or> (c u \<and> rx_match items s' k \<noteq> None)"
      using Cons by (cases i) (auto split: list.splits)
  next
    assume "rx_match items s k \<noteq> None \<or> (c u \<and> rx_match items s' k \<noteq> None)"
    then show "\<exists>i \<le> length s. item_lang (ROpt c) (take i s) \<and> rx_match items (drop i s) k \<noteq> None"
      using Cons by (auto intro: exI [of _ 0] exI [of _ 1])
  qed
  then show ?thesis using Cons by (auto split: option.splits)
qed (simp split: option.splits)

lemma rx_match_item:
  "rx_match (it # items) s k \<noteq> None
     \<longleftrightarrow> (\<exists>i \<le> length s. item_lang it (take i s) \<and> rx_match items (drop i s) k \<noteq> None)"
  by (cases it) (simp_all only: rx_match_lit rx_match_cls rx_match_star rx_match_plus rx_match_opt)

text \<open>
  The backtracking matcher finds a match exactly when the pattern's language has a
  prefix of the input after which the continuation succeeds.
\<close>

lemma rx_match_lang:
  "rx_match items s k \<noteq> None \<longleftrightarrow> (\<exists>n \<le> length s. in_lang items (take n s) \<and> k (drop n s) \<noteq> None)"
proof (induction items arbitrary: s)
  case Nil
  then show ?case by (auto intro: exI [of _ 0])
next
  case (Cons it items)
  have "rx_match (it # items) s k \<noteq> None \<longleftrightarrow>
      (\<exists>i \<le> length s. item_lang it (take i s) \<and>
         (\<exists>j \<le> length s - i. in_lang items (take j (drop i s)) \<and> k (drop (i + j) s) \<noteq> None))"
    by (simp only: rx_match_item Cons.IH length_drop drop_drop add.commute)
  also have "\<dots> \<longleftrightarrow> (\<exists>n \<le> length s. in_lang (it # items) (take n s) \<and> k (drop n s) \<noteq> None)"
  proof
    assume "\<exists>i \<le> length s. item_lang it (take i s) \<and>
         (\<exists>j \<le> length s - i. in_lang items (take j (drop i s)) \<and> k (drop (i + j) s) \<noteq> None)"
    then obtain i j where ij: "i \<le> length s" "item_lang it (take i s)" "j \<le> length s - i"
      "in_lang items (take j (drop i s))" "k (drop (i + j) s) \<noteq> None" by blast
    then have "in_lang (it # items) (take (i + j) s)"
      by (auto simp: list_ex_iff min_def take_add intro!: bexI [of _ i])
    then show "\<exists>n \<le> length s. in_lang (it # items) (take n s) \<and> k (drop n s) \<noteq> None"
      using ij by (intro exI [of _ "i + j"]) simp
  next
    assume "\<exists>n \<le> length s. in_lang (it # items) (take n s) \<and> k (drop n s) \<noteq> None"
    then obtain n where n: "n \<le> length s" "in_lang (it # items) (take n s)" "k (drop n s) \<noteq> None"
      by blast
    from n(2) obtain i where i: "i \<le> length (take n s)" "item_lang it (take i (take n s))"
      "in_lang items (drop i (take n s))"
      by (auto simp only: in_lang.simps list_ex_iff set_upt less_Suc_eq_le atLeastLessThan_iff)
    have le: "i \<le> n" using i(1) n(1) by simp
    have "item_lang it (take i s)" "in_lang items (take (n - i) (drop i s))"
      using i(2,3) le by (simp_all add: min_def drop_take)
    moreover have "k (drop (i + (n - i)) s) \<noteq> None" using n(3) le by simp
    ultimately show "\<exists>i \<le> length s. item_lang it (take i s) \<and>
         (\<exists>j \<le> length s - i. in_lang items (take j (drop i s)) \<and> k (drop (i + j) s) \<noteq> None)"
      using le n(1) by (intro exI [of _ i] conjI exI [of _ "n - i"]) simp_all
  qed
  finally show ?case .
qed

lemma ex_le_Suc: "(\<exists>j \<le> Suc n. P j) \<longleftrightarrow> P 0 \<or> (\<exists>j \<le> n. P (Suc j))"
  by (metis Suc_le_mono le0 not0_implies_Suc)

lemma re_search_iff:
  "re_search pre grp cs \<noteq> None \<longleftrightarrow> (\<exists>j \<le> length cs. rx_match pre (drop j cs) (rx_group grp) \<noteq> None)"
proof (induction cs)
  case (Cons u us)
  show ?case using Cons.IH unfolding length_Cons ex_le_Suc drop_0 drop_Suc_Cons
    by (auto split: option.splits)
qed simp

lemma rx_group_lang: "rx_group grp s \<noteq> None \<longleftrightarrow> (\<exists>m \<le> length s. in_lang grp (take m s))"
  unfolding rx_group_def rx_match_lang by simp

lemma re_search_lang:
  "re_search pre grp cs \<noteq> None \<longleftrightarrow>
     (\<exists>j n m. j + n + m \<le> length cs \<and> in_lang pre (take n (drop j cs))
              \<and> in_lang grp (take m (drop (j + n) cs)))"
  unfolding re_search_iff rx_match_lang rx_group_lang
proof (intro iffI; elim exE conjE)
  fix j n m
  assume "j \<le> length cs" "n \<le> length (drop j cs)" "in_lang pre (take n (drop j cs))"
    "m \<le> length (drop n (drop j cs))" "in_lang grp (take m (drop n (drop j cs)))"
  then show "\<exists>j n m. j + n + m \<le> length cs \<and> in_lang pre (take n (drop j cs))
              \<and> in_lang grp (take m (drop (j + n) cs))"
    by (intro exI [of _ j] exI [of _ n] exI [of _ m]) (simp add: add.commute)
next
  fix j n m
  assume "j + n + m \<le> length cs" "in_lang pre (take n (drop j cs))" "in_lang grp (take m (drop (j + n) cs))"
  then show "\<exists>j \<le> length cs. \<exists>n \<le> length (drop j cs). in_lang pre (take n (drop j cs))
        \<and> (\<exists>m \<le> length (drop n (drop j cs)). in_lang grp (take m (drop n (drop j cs))))"
    by (intro exI [of _ j] conjI exI [of _ n] exI [of _ m]) (simp_all add: add.commute)
qed

end
