(* ===== verification/Free_Text.thy ===== *)
theory Free_Text
  imports Py_Regex Gateway
begin

text \<open>
  The two services whose model reply is free text rather than JSON
  (\<open>src/backend/services.py\<close>):
  \<^item> \<open>extract_customer_id_with_ai(text)\<close> (lines 102--127): the model sees the first
    1000 characters of the report; its stripped reply is the customer id when it is
    non-empty, not \<open>"UNKNOWN"\<close> and longer than three characters, and \<open>"UNKNOWN"\<close>
    otherwise, also when the call fails;
  \<^item> \<open>calculate_payout_from_text(contract_text)\<close> (lines 509--564): a blank text is
    refused with \<open>HTTPException(400)\<close> before any call; the stripped reply is searched
    with three regular expressions for the expected value (grouping commas removed,
    cut at the first dot, \<open>int()\<close>), the recommended range (rest of the line,
    stripped) and the probability of success (verbatim); the extracted dict is saved
    to a file under \<open>outputs/\<close>. A failed call or a failed save becomes
    \<open>HTTPException(500)\<close>. The file system is a parameter \<open>save\<close> saying whether
    writing the JSON file succeeds; the file name (a timestamp) is not modelled.
\<close>

section \<open>Customer id extraction\<close>

definition accept_customer_id :: "string \<Rightarrow> string" where
  "accept_customer_id text =
     (let customer_id = py_strip text in
      if customer_id \<noteq> [] \<and> customer_id \<noteq> ''UNKNOWN'' \<and> 3 < length (py_chars customer_id)
      then customer_id else ''UNKNOWN'')"

definition extract_customer_id_with_ai ::
  "model_oracle \<Rightarrow> string \<Rightarrow> gw_state \<Rightarrow> string \<times> gw_state" where
  "extract_customer_id_with_ai g text st =
     (let (r, st') = generate g (Customer_id_prompt (py_prefix 1000 text)) st
      in (case reply_text r of Inl e \<Rightarrow> ''UNKNOWN'' | Inr t \<Rightarrow> accept_customer_id t, st'))"

section \<open>Payout extraction\<close>

definition colon_eq :: "string \<Rightarrow> bool" where
  "colon_eq u \<longleftrightarrow> u = '':'' \<or> u = ''=''"

text \<open>\<open>r"expected_value\s*[:=]\s*([\d.,]+)"\<close>\<close>

definition expected_value_pre :: "rx_item list" where
  "expected_value_pre = [RLit ''expected_value'', RStar is_space, RCls colon_eq, RStar is_space]"

definition expected_value_grp :: "rx_item list" where
  "expected_value_grp = [RPlus (\<lambda>u. is_py_digit u \<or> u = ''.'' \<or> u = '','')]"

text \<open>\<open>r"recommended_range\s*[:=]\s*(.+)"\<close>\<close>

definition recommended_range_pre :: "rx_item list" where
  "recommended_range_pre = [RLit ''recommended_range'', RStar is_space, RCls colon_eq, RStar is_space]"

definition recommended_range_grp :: "rx_item list" where
  "recommended_range_grp = [RPlus (\<lambda>u. u \<noteq> ''\<newline>'')]"

text \<open>\<open>r"probability_of_success\s*[:=]\s*([\d.]+%?)"\<close>\<close>

definition probability_pre :: "rx_item list" where
  "probability_pre = [RLit ''probability_of_success'', RStar is_space, RCls colon_eq, RStar is_space]"

definition probability_grp :: "rx_item list" where
  "probability_grp = [RPlus (\<lambda>u. is_py_digit u \<or> u = ''.''), ROpt (\<lambda>u. u = ''%'')]"

text \<open>
  \<open>int(m.group(1).replace(",", "").split(".")[0])\<close>, \<open>None\<close> on \<open>ValueError\<close>: the
  piece before the first dot consists of digits only, so \<open>int()\<close> fails exactly when
  it is empty. CPython's limit on the digits \<open>int()\<close> converts (\<open>sys.int_max_str_digits\<close>,
  4300 by default, 0 for none) is a setting of the interpreter; the model is the
  interpreter run without it.
\<close>

definition expected_value_of :: "string list \<Rightarrow> int option" where
  "expected_value_of grp =
     (let piece = takeWhile (\<lambda>u. u \<noteq> ''.'') (filter (\<lambda>u. u \<noteq> '','') grp)
      in if piece = [] then None
         else Some (int (foldl (\<lambda>acc u. 10 * acc + the (nd_value u)) 0 piece)))"

record payout_data =
  expected_value :: "int option"
  recommended_range :: "string option"
  probability_of_success :: "string option"

definition extract_payout :: "string \<Rightarrow> payout_data" where
  "extract_payout raw_text =
     (let cs = py_chars raw_text in
      \<lparr>expected_value =
         (case re_search expected_value_pre expected_value_grp cs of
            Some g \<Rightarrow> expected_value_of g | None \<Rightarrow> None),
       recommended_range =
         map_option (\<lambda>g. py_strip (concat g)) (re_search recommended_range_pre recommended_range_grp cs),
       probability_of_success =
         map_option concat (re_search probability_pre probability_grp cs)\<rparr>)"

text \<open>The dict \<open>data\<close> that is saved and returned.\<close>

definition payout_json :: "payout_data \<Rightarrow> json" where
  "payout_json d = JObj
     [(''expected_value'', case expected_value d of Some n \<Rightarrow> JInt n | None \<Rightarrow> JNull),
      (''recommended_range'', case recommended_range d of Some s \<Rightarrow> JStr s | None \<Rightarrow> JNull),
      (''probability_of_success'', case probability_of_success d of Some s \<Rightarrow> JStr s | None \<Rightarrow> JNull)]"

record payout_response =
  pay_message :: string
  ket_qua_tinh_toan_tu_hop_dong :: string
  du_lieu_trich_xuat :: payout_data

definition payout_error :: "py_exc \<Rightarrow> py_exc" where
  "payout_error e = HTTPException 500 (''Loi khi goi API Gemini: '' @ exc_str e)"

definition calculate_payout_from_text ::
  "model_oracle \<Rightarrow> (json \<Rightarrow> bool) \<Rightarrow> string \<Rightarrow> gw_state \<Rightarrow> (py_exc + payout_response) \<times> gw_state" where
  "calculate_payout_from_text g save contract_text st =
     (if py_strip contract_text = []
      then (Inl (HTTPException 400 ''Van ban 'contract_text' khong co noi dung.''), st)
      else
        (let (r, st') = generate g (Payout_prompt contract_text) st in
         (case reply_text r of
            Inl e \<Rightarrow> Inl (payout_error e)
          | Inr t \<Rightarrow>
              (let raw_text = py_strip t; data = extract_payout raw_text in
               if save (payout_json data)
               then Inr \<lparr>pay_message = ''Tinh toan thanh cong.'', ket_qua_tinh_toan_tu_hop_dong = raw_text,
                         du_lieu_trich_xuat = data\<rparr>
               else Inl (payout_error OSError)), st')))"

section \<open>Lemmas\<close>

lemma nd_value_digit: "is_digit c \<Longrightarrow> nd_value [c] = Some (of_char c - 48)"
  by (auto simp: nd_value_def utf8_code_def nd_zeros_def is_digit_def)

lemma is_py_digit_digit: "is_digit c \<Longrightarrow> is_py_digit [c]"
  by (simp add: is_py_digit_def nd_value_digit)

lemma takeWhile_space_digits:
  "ds \<noteq> [] \<Longrightarrow> list_all (\<lambda>c. is_digit c \<or> c = CHR ''.'' \<or> c = CHR '','') ds
     \<Longrightarrow> takeWhile is_space (map (\<lambda>c. [c]) ds @ r) = []"
  by (cases ds) (auto simp: is_space_def is_ws_def dest: is_digit_not_lead)

lemma expected_value_match:
  assumes ds: "ds \<noteq> []" "list_all (\<lambda>c. is_digit c \<or> c = CHR ''.'' \<or> c = CHR '','') ds"
    and u: "\<not> (is_py_digit u \<or> u = ''.'' \<or> u = '','')"
  shows "rx_match expected_value_pre (map (\<lambda>c. [c]) (''expected_value: '' @ ds) @ u # r)
           (rx_group expected_value_grp) = Some (map (\<lambda>c. [c]) ds)"
proof -
  have grp: "rx_group expected_value_grp (map (\<lambda>c. [c]) ds @ u # r) = Some (map (\<lambda>c. [c]) ds)"
    unfolding expected_value_grp_def using ds u
    by (intro rx_group_plus_run) (auto simp: list_all_iff is_py_digit_digit)
  have tw: "takeWhile is_space (map (\<lambda>c. [c]) ds @ u # r) = []"
    using takeWhile_space_digits [OF ds] .
  show ?thesis
    using grp tw by (simp add: expected_value_pre_def colon_eq_def is_space_def is_ws_def ws_seqs_def)
qed

lemma not_py_digit_pct: "\<not> is_py_digit ''%''"
  by (simp add: is_py_digit_def nd_value_def utf8_code_def nd_zeros_def)

lemma foldl_nd_value:
  "list_all is_digit ds
     \<Longrightarrow> foldl (\<lambda>acc u. 10 * acc + the (nd_value u)) a (map (\<lambda>c. [c]) ds)
         = foldl (\<lambda>acc c. 10 * acc + (of_char c - 48)) a ds"
  by (induction ds arbitrary: a) (simp_all add: nd_value_digit)

lemma expected_value_of_chars:
  assumes "list_all (\<lambda>c. is_digit c \<or> c = CHR ''.'' \<or> c = CHR '','') ds"
  shows "expected_value_of (map (\<lambda>c. [c]) ds)
    = (let p = takeWhile (\<lambda>c. c \<noteq> CHR ''.'') (filter (\<lambda>c. c \<noteq> CHR '','') ds)
       in if p = [] then None else Some (int (digits_val p)))"
proof -
  let ?p = "takeWhile (\<lambda>c. c \<noteq> CHR ''.'') (filter (\<lambda>c. c \<noteq> CHR '','') ds)"
  have m: "takeWhile (\<lambda>u. u \<noteq> ''.'') (filter (\<lambda>u. u \<noteq> '','') (map (\<lambda>c. [c]) ds))
      = map (\<lambda>c. [c]) ?p"
    by (simp add: filter_map takeWhile_map comp_def)
  have "list_all is_digit ?p"
    using assms by (fastforce simp: list_all_iff dest: set_takeWhileD)
  then show ?thesis
    by (simp add: expected_value_of_def m foldl_nd_value digits_val_def Let_def)
qed

lemma py_chars_group_chars: "x \<in> set (py_chars s) \<Longrightarrow> set x \<subseteq> set s"
  by (metis concat_py_chars in_set_conv_decomp concat_append concat.simps(2) set_append
      Un_upper1 Un_upper2 order_trans)

lemma recommended_range_match:
  assumes "r \<noteq> []" "CHR ''\<newline>'' \<notin> set r" "\<not> is_space (hd (py_chars r))"
  shows "rx_match recommended_range_pre (map (\<lambda>c. [c]) ''recommended_range: '' @ py_chars r @ ''\<newline>'' # rest)
           (rx_group recommended_range_grp) = Some (py_chars r)"
proof -
  have nl: "\<And>x. x \<in> set (py_chars r) \<Longrightarrow> x \<noteq> ''\<newline>''"
    using assms(2) py_chars_group_chars by fastforce
  have grp: "rx_group recommended_range_grp (py_chars r @ ''\<newline>'' # rest) = Some (py_chars r)"
    unfolding recommended_range_grp_def using assms(1) nl
    by (intro rx_group_plus_run) simp_all
  have tw: "takeWhile is_space (py_chars r @ ''\<newline>'' # rest) = []"
    using assms(1,3) by (cases "py_chars r") simp_all
  show ?thesis
    using grp tw by (simp add: recommended_range_pre_def colon_eq_def is_space_def is_ws_def ws_seqs_def)
qed

lemma probability_match:
  assumes ds: "ds \<noteq> []" "list_all is_digit ds"
  shows "rx_match probability_pre (map (\<lambda>c. [c]) (''probability_of_success: '' @ ds) @ ''%'' # rest)
           (rx_group probability_grp) = Some (map (\<lambda>c. [c]) ds @ [''%''])"
proof -
  let ?s = "map (\<lambda>c. [c]) ds @ ''%'' # rest"
  have opt: "rx_match [ROpt (\<lambda>u. u = ''%'')] (''%'' # rest) (\<lambda>s2. Some (take (length ?s - length s2) ?s))
      = Some (map (\<lambda>c. [c]) ds @ [''%''])"
    by simp
  have grp: "rx_group probability_grp ?s = Some (map (\<lambda>c. [c]) ds @ [''%''])"
    unfolding probability_grp_def rx_group_def using ds opt
    by (intro rx_match_plus_run) (auto simp: list_all_iff is_py_digit_digit not_py_digit_pct)
  have tw: "takeWhile is_space ?s = []"
    using takeWhile_space_digits [of ds] ds by (simp add: list_all_iff)
  show ?thesis
    using grp tw by (simp add: probability_pre_def colon_eq_def is_space_def is_ws_def ws_seqs_def)
qed

lemma py_chars_ascii_nl:
  "list_all (\<lambda>c. \<not> is_lead c) a
     \<Longrightarrow> py_chars (a @ ''\<newline>'' @ rest) = map (\<lambda>c. [c]) a @ ''\<newline>'' # py_chars rest"
  by (simp add: py_chars_ascii is_lead_def)

lemma not_lead_digits: "list_all (\<lambda>c. is_digit c \<or> c = CHR ''.'' \<or> c = CHR '','') ds
    \<Longrightarrow> list_all (\<lambda>c. \<not> is_lead c) ds"
  by (auto simp: list_all_iff is_lead_def is_digit_def)

lemma not_py_digit_nl: "\<not> (is_py_digit ''\<newline>'' \<or> ''\<newline>'' = ''.'' \<or> ''\<newline>'' = '','')"
  by (simp add: is_py_digit_def nd_value_def utf8_code_def nd_zeros_def)

lemma extract_expected_value_chars:
  assumes "ds \<noteq> []" "list_all (\<lambda>c. is_digit c \<or> c = CHR ''.'' \<or> c = CHR '','') ds"
  shows "expected_value (extract_payout (''expected_value: '' @ ds @ ''\<newline>'' @ rest))
    = expected_value_of (map (\<lambda>c. [c]) ds)"
proof -
  have "list_all (\<lambda>c. \<not> is_lead c) (''expected_value: '' @ ds)"
    using not_lead_digits [OF assms(2)] by (simp add: is_lead_def)
  from py_chars_ascii_nl [OF this, of rest]
  have cs: "py_chars (''expected_value: '' @ ds @ ''\<newline>'' @ rest)
      = map (\<lambda>c. [c]) (''expected_value: '' @ ds) @ ''\<newline>'' # py_chars rest" by simp
  show ?thesis
    using re_search_start [OF expected_value_match [OF assms not_py_digit_nl]]
    by (simp add: extract_payout_def cs Let_def del: map_append append_Cons)
qed

lemmas payout_eval = calculate_payout_from_text_def generate_def str_defs payout_json_def

subsection \<open>Properties\<close>

text \<open>
  C25. The customer id returned is \<open>UNKNOWN\<close> or a stripped string of more than three
  characters that is not \<open>UNKNOWN\<close>, whatever the model replies or if the call fails.
\<close>

theorem extract_customer_id_result:
  "fst (extract_customer_id_with_ai g text st) = ''UNKNOWN''
   \<or> (py_strip (fst (extract_customer_id_with_ai g text st)) = fst (extract_customer_id_with_ai g text st)
      \<and> 3 < length (py_chars (fst (extract_customer_id_with_ai g text st)))
      \<and> fst (extract_customer_id_with_ai g text st) \<noteq> ''UNKNOWN'')"
  by (cases "g (length (calls st)) (Customer_id_prompt (py_prefix 1000 text))")
     (auto simp: extract_customer_id_with_ai_def generate_def accept_customer_id_def Let_def)

text \<open>
  C7. The customer-id service makes exactly one model call, and its prompt carries the
  first \<open>min(1000, len(text))\<close> characters of the report (\<open>text[:1000]\<close> counts
  code points, not bytes): a prefix of the text that never cuts a character.
\<close>

theorem extract_customer_id_prompt:
  "\<exists>p. calls (snd (extract_customer_id_with_ai g text st)) = calls st @ [Customer_id_prompt p]
      \<and> py_chars p = take 1000 (py_chars text) \<and> (\<exists>q. text = p @ q)"
proof -
  have "py_chars (py_prefix 1000 text) = take 1000 (py_chars text)"
    by (rule py_chars_py_prefix)
  moreover obtain q where "text = py_prefix 1000 text @ q"
    using py_prefix_prefix by blast
  ultimately show ?thesis
    by (auto simp: extract_customer_id_with_ai_def generate_def split: prod.split)
qed

text \<open>
  C27. A contract text that is empty or only whitespace is refused with
  \<open>HTTPException(400)\<close> before the model is called: the call log is unchanged.
\<close>

theorem calculate_payout_blank:
  assumes "py_strip contract_text = []"
  shows "calculate_payout_from_text g save contract_text st
           = (Inl (HTTPException 400 ''Van ban 'contract_text' khong co noi dung.''), st)"
  using assms by (simp add: calculate_payout_from_text_def)

theorem calculate_payout_blank_witness:
  "calculate_payout_from_text (\<lambda>_ _. Reply ''expected_value: 1'') (\<lambda>_. True) '' \<newline>\<newline> '' \<lparr>calls = []\<rparr>
     = (Inl (HTTPException 400 ''Van ban 'contract_text' khong co noi dung.''), \<lparr>calls = []\<rparr>)"
  by (rule calculate_payout_blank) (simp add: str_defs)

text \<open>
  C28. An expected value written as a plain decimal number on its own line is read back
  exactly: \<open>expected_value: <n>\<close> gives \<open>n\<close>.
\<close>

theorem extract_expected_value:
  "expected_value (extract_payout (''expected_value: '' @ show_nat n @ ''\<newline>'' @ rest)) = Some (int n)"
proof -
  have digits: "\<forall>c\<in>set (show_nat n). is_digit c"
    using show_nat_digits [of n] by (simp add: list_all_iff)
  then have d: "list_all (\<lambda>c. is_digit c \<or> c = CHR ''.'' \<or> c = CHR '','') (show_nat n)"
    by (simp add: list_all_iff)
  have "\<forall>c\<in>set (show_nat n). c \<noteq> CHR ''.'' \<and> c \<noteq> CHR '',''"
    using digits by (auto simp: is_digit_def)
  then have p: "takeWhile (\<lambda>c. c \<noteq> CHR ''.'') (filter (\<lambda>c. c \<noteq> CHR '','') (show_nat n)) = show_nat n"
    by (simp add: filter_id_conv)
  show ?thesis
    using extract_expected_value_chars [OF show_nat_nonempty d, of rest] expected_value_of_chars [OF d]
    by (simp add: p)
qed

text \<open>
  C29. The expected value is the digits before the first dot once the commas are
  removed: grouping commas are ignored (\<open>75,000,000\<close> gives 75000000), but a dot used
  as the thousands separator, as in Vietnamese (\<open>75.000.000\<close>), cuts the number to 75;
  a value starting with a dot gives no value at all.
\<close>

theorem extract_expected_value_separators:
  assumes "ds \<noteq> []" "list_all (\<lambda>c. is_digit c \<or> c = CHR ''.'' \<or> c = CHR '','') ds"
  shows "expected_value (extract_payout (''expected_value: '' @ ds @ ''\<newline>'' @ rest))
    = (let p = takeWhile (\<lambda>c. c \<noteq> CHR ''.'') (filter (\<lambda>c. c \<noteq> CHR '','') ds)
       in if p = [] then None else Some (int (digits_val p)))"
  using extract_expected_value_chars [OF assms] expected_value_of_chars [OF assms(2)] by simp

theorem extract_expected_value_separators_witness:
  "expected_value (extract_payout (''expected_value: 75.000.000\<newline>'')) = Some 75
   \<and> expected_value (extract_payout (''expected_value: 75,000,000\<newline>'')) = Some 75000000"
proof -
  have a: "expected_value (extract_payout (''expected_value: '' @ ''75.000.000'' @ ''\<newline>'' @ ''''))
      = Some 75"
    using extract_expected_value_separators [of "''75.000.000''" "''''"]
    by (simp add: is_digit_def digits_val_def)
  have b: "expected_value (extract_payout (''expected_value: '' @ ''75,000,000'' @ ''\<newline>'' @ ''''))
      = Some 75000000"
    using extract_expected_value_separators [of "''75,000,000''" "''''"]
    by (simp add: is_digit_def digits_val_def)
  from a b show ?thesis by simp
qed

text \<open>
  C30. The recommended range is the rest of its line, stripped and otherwise verbatim:
  it is not checked to be a range.
\<close>

theorem extract_recommended_range:
  assumes "r \<noteq> []" "CHR ''\<newline>'' \<notin> set r" "\<not> is_space (hd (py_chars r))"
  shows "recommended_range (extract_payout (''recommended_range: '' @ r @ ''\<newline>'' @ rest))
           = Some (py_strip r)"
proof -
  have "py_chars (r @ ''\<newline>'' @ rest) = py_chars r @ ''\<newline>'' # py_chars rest"
    using py_chars_append [of "''\<newline>'' @ rest" r] by (simp add: is_cont_def is_lead_def)
  then have cs: "py_chars (''recommended_range: '' @ r @ ''\<newline>'' @ rest)
      = map (\<lambda>c. [c]) ''recommended_range: '' @ py_chars r @ ''\<newline>'' # py_chars rest"
    using py_chars_ascii [of "''recommended_range: ''" "r @ ''\<newline>'' @ rest"] by (simp add: is_lead_def)
  show ?thesis
    using re_search_start [OF recommended_range_match [OF assms, of "py_chars rest"]]
    by (simp add: extract_payout_def cs Let_def del: map_append append_Cons)
qed

theorem extract_recommended_range_witness:
  "recommended_range (extract_payout (''recommended_range: [50000000, 100000000]  \<newline>'')) =
     Some ''[50000000, 100000000]''"
proof -
  have "recommended_range (extract_payout (''recommended_range: '' @ ''[50000000, 100000000]  ''
          @ ''\<newline>'' @ '''')) = Some (py_strip ''[50000000, 100000000]  '')"
    by (rule extract_recommended_range) (simp_all add: str_defs)
  then show ?thesis by (simp add: str_defs)
qed

text \<open>
  C35. A probability written as a decimal number followed by a percent sign is returned
  verbatim, sign included.
\<close>

theorem extract_probability:
  "probability_of_success (extract_payout (''probability_of_success: '' @ show_nat n @ ''%'' @ rest))
     = Some (show_nat n @ ''%'')"
proof -
  have d: "list_all (\<lambda>c. \<not> is_lead c) (''probability_of_success: '' @ show_nat n @ ''%'')"
    using show_nat_digits [of n] by (auto simp: list_all_iff is_lead_def is_digit_def)
  have cs: "py_chars (''probability_of_success: '' @ show_nat n @ ''%'' @ rest)
      = map (\<lambda>c. [c]) (''probability_of_success: '' @ show_nat n) @ ''%'' # py_chars rest"
    using py_chars_ascii [OF d, of rest] by simp
  show ?thesis
    using re_search_start [OF probability_match [of "show_nat n" "py_chars rest", OF show_nat_nonempty show_nat_digits]]
    by (simp add: extract_payout_def cs Let_def comp_def del: map_append append_Cons)
qed

text \<open>
  C32. The payout service fails in exactly three ways: a blank text (400, no call), a
  failed model call, or a failed save of the extracted data (both 500). A reply in which
  none of the three fields is found is not an error.
\<close>

theorem calculate_payout_errors:
  assumes "fst (calculate_payout_from_text g save contract_text st) = Inl e"
  shows "(py_strip contract_text = [] \<and> e = HTTPException 400 ''Van ban 'contract_text' khong co noi dung.'')
    \<or> (\<exists>m. g (length (calls st)) (Payout_prompt contract_text) = Upstream m \<and> e = payout_error (UpstreamError m))
    \<or> (\<exists>t. g (length (calls st)) (Payout_prompt contract_text) = Reply t
           \<and> \<not> save (payout_json (extract_payout (py_strip t))) \<and> e = payout_error OSError)"
  using assms
  by (cases "g (length (calls st)) (Payout_prompt contract_text)")
     (auto simp: calculate_payout_from_text_def generate_def Let_def split: if_splits)

theorem calculate_payout_errors_witness:
  "(py_strip ''contract'' = [] \<and> payout_error (UpstreamError ''quota'')
       = HTTPException 400 ''Van ban 'contract_text' khong co noi dung.'')
   \<or> (\<exists>m. Upstream ''quota'' = Upstream m \<and> payout_error (UpstreamError ''quota'') = payout_error (UpstreamError m))
   \<or> (\<exists>t. Upstream ''quota'' = Reply t \<and> \<not> True \<and> payout_error (UpstreamError ''quota'') = payout_error OSError)"
proof -
  have "fst (calculate_payout_from_text (\<lambda>_ _. Upstream ''quota'') (\<lambda>_. True) ''contract'' \<lparr>calls = []\<rparr>)
      = Inl (payout_error (UpstreamError ''quota''))"
    by (simp add: calculate_payout_from_text_def generate_def str_defs)
  from calculate_payout_errors [OF this] show ?thesis by simp
qed

text \<open>
  C33. When the call and the save succeed, the response carries the stripped reply and
  the fields extracted from it, whether or not any was found, and the model was called
  once with the contract text.
\<close>

theorem calculate_payout_success:
  assumes "py_strip contract_text \<noteq> []"
    and "g (length (calls st)) (Payout_prompt contract_text) = Reply t"
    and "save (payout_json (extract_payout (py_strip t)))"
  shows "calculate_payout_from_text g save contract_text st
    = (Inr \<lparr>pay_message = ''Tinh toan thanh cong.'', ket_qua_tinh_toan_tu_hop_dong = py_strip t,
            du_lieu_trich_xuat = extract_payout (py_strip t)\<rparr>,
       st\<lparr>calls := calls st @ [Payout_prompt contract_text]\<rparr>)"
  using assms by (simp add: calculate_payout_from_text_def generate_def Let_def)

theorem calculate_payout_success_witness:
  "calculate_payout_from_text (\<lambda>_ _. Reply '' no figures here '') (\<lambda>_. True) ''contract'' \<lparr>calls = []\<rparr>
    = (Inr \<lparr>pay_message = ''Tinh toan thanh cong.'', ket_qua_tinh_toan_tu_hop_dong = ''no figures here'',
            du_lieu_trich_xuat = extract_payout ''no figures here''\<rparr>,
       \<lparr>calls = [Payout_prompt ''contract'']\<rparr>)"
proof -
  have "py_strip '' no figures here '' = ''no figures here''" by (simp add: str_defs)
  then show ?thesis
    using calculate_payout_success [of "''contract''" "\<lambda>_ _. Reply '' no figures here ''" "\<lparr>calls = []\<rparr>"
        "'' no figures here ''" "\<lambda>_. True"]
    by (simp add: str_defs)
qed

text \<open>
  Whether the payout reply yields a recommended range, or a probability of
  success, does not depend on the backtracking order of the matcher: the field is
  present exactly when the reply contains, at some position, a piece in the language
  of the field's pattern followed by a piece in the language of its group
  (\<open>in_lang\<close>, the declarative semantics of the pattern).
\<close>

theorem extract_payout_fields_present:
  "(recommended_range (extract_payout t) \<noteq> None \<longleftrightarrow>
      (\<exists>j n m. j + n + m \<le> length (py_chars t)
         \<and> in_lang recommended_range_pre (take n (drop j (py_chars t)))
         \<and> in_lang recommended_range_grp (take m (drop (j + n) (py_chars t)))))
   \<and> (probability_of_success (extract_payout t) \<noteq> None \<longleftrightarrow>
      (\<exists>j n m. j + n + m \<le> length (py_chars t)
         \<and> in_lang probability_pre (take n (drop j (py_chars t)))
         \<and> in_lang probability_grp (take m (drop (j + n) (py_chars t)))))"
  unfolding extract_payout_def Let_def
  by (simp only: payout_data.select_convs option.map_disc_iff re_search_lang)

end
