(* ===== verification/Utf8.thy ===== *)
theory Utf8
  imports Prelude
begin

text \<open>
  \<open>bytes.decode('utf-8')\<close> in its default strict mode, as \<open>utils.py\<close> applies it to an
  uploaded plain-text file (\<open>src/backend/utils.py\<close>, line 27). A \<open>str\<close> is represented
  by its UTF-8 bytes (theory \<open>Prelude\<close>), so decoding is the identity on the byte
  sequences the decoder accepts and raises \<open>UnicodeDecodeError\<close> on the others. The
  accepted sequences are the well-formed ones of the Unicode standard (Table 3-7):
  no overlong forms, no surrogates U+D800--U+DFFF, nothing above U+10FFFF, no stray or
  missing continuation bytes.
\<close>

definition in_range :: "char \<Rightarrow> nat \<Rightarrow> nat \<Rightarrow> bool" where
  "in_range c lo hi \<longleftrightarrow> lo \<le> of_char c \<and> of_char c \<le> hi"

text \<open>The admissible second byte after a three- or four-byte lead.\<close>

definition second_lo :: "nat \<Rightarrow> nat" where
  "second_lo b = (if b = 0xE0 then 0xA0 else if b = 0xF0 then 0x90 else 0x80)"

definition second_hi :: "nat \<Rightarrow> nat" where
  "second_hi b = (if b = 0xED then 0x9F else if b = 0xF4 then 0x8F else 0xBF)"

fun valid_utf8 :: "string \<Rightarrow> bool" where
  "valid_utf8 [] = True"
| "valid_utf8 (c # cs) =
     (if of_char c < (0x80::nat) then valid_utf8 cs
      else if in_range c 0xC2 0xDF then
        (case cs of c1 # r \<Rightarrow> in_range c1 0x80 0xBF \<and> valid_utf8 r | [] \<Rightarrow> False)
      else if in_range c 0xE0 0xEF then
        (case cs of
           c1 # c2 # r \<Rightarrow> in_range c1 (second_lo (of_char c)) (second_hi (of_char c))
                          \<and> in_range c2 0x80 0xBF \<and> valid_utf8 r
         | _ \<Rightarrow> False)
      else if in_range c 0xF0 0xF4 then
        (case cs of
           c1 # c2 # c3 # r \<Rightarrow> in_range c1 (second_lo (of_char c)) (second_hi (of_char c))
                               \<and> in_range c2 0x80 0xBF \<and> in_range c3 0x80 0xBF \<and> valid_utf8 r
         | _ \<Rightarrow> False)
      else False)"

definition py_decode :: "string \<Rightarrow> py_exc + string" where
  "py_decode bs = (if valid_utf8 bs then Inr bs else Inl UnicodeDecodeError)"

section \<open>Lemmas\<close>

lemma of_char_char_of_small [simp]: "k < 256 \<Longrightarrow> of_char (char_of k :: char) = (k::nat)"
  by (simp add: of_char_of)


lemma utf8_1: "n < 128 \<Longrightarrow> valid_utf8 (py_chr n) \<and> utf8_code (py_chr n) = n"
  by (simp add: py_chr_def utf8_code_def)

lemma utf8_2: "128 \<le> n \<Longrightarrow> n < 2048 \<Longrightarrow> valid_utf8 (py_chr n) \<and> utf8_code (py_chr n) = n"
proof -
  assume a: "128 \<le> n" "n < 2048"
  have d: "2 \<le> n div 64" "n div 64 < 32" using a by auto
  show ?thesis using a d
    by (simp add: py_chr_def utf8_code_def in_range_def Let_def)
qed

lemma utf8_code_3:
  "2048 \<le> n \<Longrightarrow> n < 65536 \<Longrightarrow> utf8_code (py_chr n) = n"
proof -
  assume a: "2048 \<le> n" "n < 65536"
  have d: "n div 4096 < 16" "n div 64 mod 64 < 64" "n mod 64 < 64" using a by auto
  have h2: "64 * (n div 64 div 64) + n div 64 mod 64 = n div 64" by (rule mult_div_mod_eq)
  have h3: "n div 64 div 64 = n div 4096" by (simp add: div_mult2_eq [symmetric])
  have "64 * (64 * (n div 4096) + n div 64 mod 64) + n mod 64 = 64 * (n div 64) + n mod 64"
    using h2 h3 by simp
  then have dec: "64 * (64 * (n div 4096) + n div 64 mod 64) + n mod 64 = n"
    using mult_div_mod_eq [of 64 n] by simp
  show ?thesis using a d dec by (simp add: py_chr_def utf8_code_def Let_def)
qed

lemma utf8_3:
  "2048 \<le> n \<Longrightarrow> n < 65536 \<Longrightarrow> \<not> (55296 \<le> n \<and> n \<le> 57343)
     \<Longrightarrow> valid_utf8 (py_chr n) \<and> utf8_code (py_chr n) = n"
proof -
  assume a: "2048 \<le> n" "n < 65536" "\<not> (55296 \<le> n \<and> n \<le> 57343)"
  have d: "n div 4096 < 16" "n div 64 mod 64 < 64" "n mod 64 < 64" using a by auto
  have e0: "n div 4096 = 0 \<Longrightarrow> 32 \<le> n div 64 mod 64" using a by auto
  have ed: "n div 4096 = 13 \<Longrightarrow> n div 64 mod 64 < 32"
  proof -
    assume "n div 4096 = 13"
    then have "53248 \<le> n" "n < 55296" using a by auto
    then have "832 \<le> n div 64" "n div 64 < 864" by auto
    moreover define q where "q = n div 64"
    ultimately have q: "q = (q - 832) + 13 * 64" "q - 832 < 32" by auto
    have "q mod 64 = ((q - 832) + 13 * 64) mod 64" using q(1) by simp
    also have "\<dots> = q - 832" using q(2) by (simp only: mod_mult_self1) simp
    finally show ?thesis using q(2) by (simp add: q_def)
  qed
  have "valid_utf8 (py_chr n)" using a d e0 ed
    by (auto simp: py_chr_def in_range_def second_lo_def second_hi_def)
  then show ?thesis using utf8_code_3 [OF a(1,2)] by simp
qed

lemma utf8_4_bytes:
  assumes "b0 \<le> 4" "b1 < 64" "b2 < 64" "b3 < 64" "b0 = 0 \<Longrightarrow> 16 \<le> b1" "b0 = 4 \<Longrightarrow> b1 < 16"
  shows "valid_utf8 [char_of (240 + b0), char_of (128 + b1), char_of (128 + b2), char_of (128 + b3)]
    \<and> utf8_code [char_of (240 + b0), char_of (128 + b1), char_of (128 + b2), char_of (128 + b3)]
       = 64 * (64 * (64 * b0 + b1) + b2) + b3"
  using assms by (auto simp: utf8_code_def in_range_def Let_def second_lo_def second_hi_def)

lemma utf8_4:
  "65536 \<le> n \<Longrightarrow> n < 1114112 \<Longrightarrow> valid_utf8 (py_chr n) \<and> utf8_code (py_chr n) = n"
proof -
  assume a: "65536 \<le> n" "n < 1114112"
  define q where "q = n div 4096"
  have q4: "q div 64 = n div 262144" by (simp add: q_def div_mult2_eq [symmetric])
  have lead: "n div 262144 \<le> 4" using a by simp
  have f0: "16 \<le> q mod 64" if "n div 262144 = 0"
  proof -
    have "16 \<le> q" "q < 64" using a that by (auto simp: q_def)
    then show ?thesis by simp
  qed
  have f4: "q mod 64 < 16" if "n div 262144 = 4"
  proof -
    have "256 \<le> q" "q < 272" using a that by (auto simp: q_def)
    then have q': "q = (q - 256) + 4 * 64" "q - 256 < 16" by auto
    have "q mod 64 = ((q - 256) + 4 * 64) mod 64" using q'(1) by simp
    also have "\<dots> = q - 256" using q'(2) by (simp only: mod_mult_self1) simp
    finally show ?thesis using q'(2) by simp
  qed
  have h1: "64 * (q div 64) + q mod 64 = q" by (rule mult_div_mod_eq)
  have h2: "64 * (n div 64 div 64) + n div 64 mod 64 = n div 64" by (rule mult_div_mod_eq)
  have h3: "n div 64 div 64 = q" by (simp add: q_def div_mult2_eq [symmetric])
  have "64 * (64 * (64 * (n div 262144) + q mod 64) + n div 64 mod 64) + n mod 64
      = 64 * (64 * q + n div 64 mod 64) + n mod 64" using h1 q4 by simp
  also have "\<dots> = n" using h2 h3 mult_div_mod_eq [of 64 n] by simp
  finally have dec: "64 * (64 * (64 * (n div 262144) + q mod 64) + n div 64 mod 64) + n mod 64 = n" .
  have eq: "py_chr n = [char_of (240 + n div 262144), char_of (128 + q mod 64),
                        char_of (128 + n div 64 mod 64), char_of (128 + n mod 64)]"
    using a by (simp add: py_chr_def q_def)
  have "valid_utf8 (py_chr n) \<and> utf8_code (py_chr n)
          = 64 * (64 * (64 * (n div 262144) + q mod 64) + n div 64 mod 64) + n mod 64"
    unfolding eq by (rule utf8_4_bytes) (use lead f0 f4 in auto)
  then show ?thesis by (simp only: dec)
qed

lemma utf8_surrogate:
  assumes "55296 \<le> n" "n \<le> 57343"
  shows "\<not> valid_utf8 (py_chr n)"
proof -
  define q where "q = n div 64"
  have q: "q = (q - 832) + 13 * 64" "32 \<le> q - 832" "q - 832 < 64"
    using assms by (auto simp: q_def)
  have "q mod 64 = ((q - 832) + 13 * 64) mod 64" using q(1) by simp
  also have "\<dots> = q - 832" using q(3) by (simp only: mod_mult_self1) simp
  finally have m: "32 \<le> n div 64 mod 64" "n div 64 mod 64 < 64" using q by (auto simp: q_def)
  have l: "n div 4096 = 13" using assms by auto
  show ?thesis using assms m l
    by (simp add: py_chr_def in_range_def second_lo_def second_hi_def)
qed

lemma valid_utf8_hd: "valid_utf8 (x # r) \<Longrightarrow> \<not> is_cont x"
  by (auto simp: is_cont_def in_range_def split: if_splits)

lemma valid_utf8_cont_prefix:
  "valid_utf8 r \<Longrightarrow> takeWhile is_cont r = [] \<and> dropWhile is_cont r = r"
  by (cases r) (simp_all add: valid_utf8_hd del: valid_utf8.simps)

lemma enc2:
  "2 \<le> a \<Longrightarrow> a < 32 \<Longrightarrow> x < 64 \<Longrightarrow> py_chr (64 * a + x) = [char_of (192 + a), char_of (128 + x)]"
  by (simp add: py_chr_def)

lemma enc3_digits:
  fixes a x y :: nat
  assumes "x < 64" "y < 64"
  shows "(64 * (64 * a + x) + y) div 64 = 64 * a + x" "(64 * (64 * a + x) + y) mod 64 = y"
    "(64 * (64 * a + x) + y) div 4096 = a"
proof -
  show d1: "(64 * (64 * a + x) + y) div 64 = 64 * a + x" using assms by simp
  show "(64 * (64 * a + x) + y) mod 64 = y" using assms by (simp only: mod_mult_self4) simp
  have "(64 * (64 * a + x) + y) div 4096 = (64 * (64 * a + x) + y) div 64 div 64"
    by (simp add: div_mult2_eq)
  then show "(64 * (64 * a + x) + y) div 4096 = a" using d1 assms by simp
qed

lemma enc3:
  "a < 16 \<Longrightarrow> x < 64 \<Longrightarrow> y < 64 \<Longrightarrow> (a = 0 \<Longrightarrow> 32 \<le> x)
    \<Longrightarrow> py_chr (64 * (64 * a + x) + y) = [char_of (224 + a), char_of (128 + x), char_of (128 + y)]"
proof -
  assume a: "a < 16" "x < 64" "y < 64" "a = 0 \<Longrightarrow> 32 \<le> x"
  have d1: "(64 * (64 * a + x) + y) div 64 = 64 * a + x" using a by simp
  have d2: "(64 * (64 * a + x) + y) div 4096 = a"
  proof -
    have "(64 * (64 * a + x) + y) div 4096 = (64 * (64 * a + x) + y) div 64 div 64"
      by (simp add: div_mult2_eq)
    then show ?thesis using d1 a by simp
  qed
  have m: "(64 * (64 * a + x) + y) mod 64 = y" using a by (simp only: mod_mult_self4) simp
  have lo: "2048 \<le> 64 * (64 * a + x) + y" using a by (cases "a = 0") auto
  show ?thesis using a d1 d2 m lo by (simp add: py_chr_def)
qed

lemma enc4:
  "a < 8 \<Longrightarrow> x < 64 \<Longrightarrow> y < 64 \<Longrightarrow> z < 64 \<Longrightarrow> (a = 0 \<Longrightarrow> 16 \<le> x)
    \<Longrightarrow> py_chr (64 * (64 * (64 * a + x) + y) + z)
        = [char_of (240 + a), char_of (128 + x), char_of (128 + y), char_of (128 + z)]"
proof -
  assume a: "a < 8" "x < 64" "y < 64" "z < 64" "a = 0 \<Longrightarrow> 16 \<le> x"
  define k where "k = 64 * (64 * a + x) + y"
  have k: "k div 64 = 64 * a + x" "k mod 64 = y" "k div 4096 = a"
    using enc3_digits [of x y a] a by (auto simp: k_def)
  have d1: "(64 * k + z) div 64 = k" using a by simp
  have m: "(64 * k + z) mod 64 = z" using a by (simp only: mod_mult_self4) simp
  have d2: "(64 * k + z) div 4096 = 64 * a + x" and d3: "(64 * k + z) div 262144 = a"
  proof -
    have "(64 * k + z) div 4096 = k div 64" "(64 * k + z) div 262144 = k div 4096"
      using d1 by (simp_all add: div_mult2_eq [of _ 64 64, simplified] div_mult2_eq [of _ 64 4096, simplified])
    then show "(64 * k + z) div 4096 = 64 * a + x" "(64 * k + z) div 262144 = a" using k by simp_all
  qed
  have d4: "(64 * a + x) mod 64 = x" using a by (simp only: mod_mult_self4) simp
  have lo: "65536 \<le> 64 * k + z" using a by (cases "a = 0") (auto simp: k_def)
  show ?thesis unfolding k_def [symmetric] using a d1 d2 d3 d4 m lo k(2) by (simp add: py_chr_def)
qed

lemma char_of_offset [simp]: "k \<le> of_char c \<Longrightarrow> char_of (k + (of_char c - k)) = c"
  by simp

lemma lead_cont_of_range:
  "in_range c lo hi \<Longrightarrow> 192 \<le> lo \<Longrightarrow> is_lead c"
  "in_range c lo hi \<Longrightarrow> 128 \<le> lo \<Longrightarrow> hi \<le> 191 \<Longrightarrow> is_cont c"
  by (auto simp: in_range_def is_lead_def is_cont_def)

lemma chars2:
  assumes "in_range c 194 223" "in_range c1 128 191" "valid_utf8 r"
  shows "py_chars (c # c1 # r) = [c, c1] # py_chars r \<and> py_chr (utf8_code [c, c1]) = [c, c1]"
proof -
  have "py_chr (64 * (of_char c - 192) + (of_char c1 - 128))
      = [char_of (192 + (of_char c - 192 :: nat)), char_of (128 + (of_char c1 - 128 :: nat))]"
    using assms by (intro enc2) (auto simp: in_range_def)
  then show ?thesis using assms valid_utf8_cont_prefix [OF assms(3)] lead_cont_of_range [of c1 128 191]
    lead_cont_of_range [of c 194 223]
    by (simp add: utf8_code_def in_range_def)
qed

lemma second_bounds: "128 \<le> second_lo b" "second_hi b \<le> 191"
  by (simp_all add: second_lo_def second_hi_def)

lemma chars3:
  assumes "in_range c 224 239" "in_range c1 (second_lo (of_char c)) (second_hi (of_char c))"
    "in_range c2 128 191" "valid_utf8 r"
  shows "py_chars (c # c1 # c2 # r) = [c, c1, c2] # py_chars r
    \<and> py_chr (utf8_code [c, c1, c2]) = [c, c1, c2]"
proof -
  have c1: "(128::nat) \<le> of_char c1"
    using assms(2) second_bounds(1) [of "of_char c"] unfolding in_range_def by linarith
  have e: "py_chr (64 * (64 * (of_char c - 224) + (of_char c1 - 128)) + (of_char c2 - 128))
      = [char_of (224 + (of_char c - 224 :: nat)), char_of (128 + (of_char c1 - 128 :: nat)),
         char_of (128 + (of_char c2 - 128 :: nat))]"
    using assms by (intro enc3) (auto simp: in_range_def second_lo_def second_hi_def split: if_splits)
  have u: "utf8_code [c, c1, c2]
      = 64 * (64 * (of_char c - 224) + (of_char c1 - 128)) + (of_char c2 - 128)"
    using assms(1) by (simp add: utf8_code_def in_range_def)
  have p: "py_chars (c # c1 # c2 # r) = [c, c1, c2] # py_chars r"
    using valid_utf8_cont_prefix [OF assms(4)] second_bounds
      lead_cont_of_range [of c1 "second_lo (of_char c)" "second_hi (of_char c)"]
      lead_cont_of_range [of c2 128 191] lead_cont_of_range [of c 224 239] assms
    by simp
  show ?thesis unfolding u e using p c1 assms(1,3) by (simp add: in_range_def)
qed

lemma chars4:
  assumes "in_range c 240 244" "in_range c1 (second_lo (of_char c)) (second_hi (of_char c))"
    "in_range c2 128 191" "in_range c3 128 191" "valid_utf8 r"
  shows "py_chars (c # c1 # c2 # c3 # r) = [c, c1, c2, c3] # py_chars r
    \<and> py_chr (utf8_code [c, c1, c2, c3]) = [c, c1, c2, c3]"
proof -
  have c1: "(128::nat) \<le> of_char c1"
    using assms(2) second_bounds(1) [of "of_char c"] unfolding in_range_def by linarith
  have e: "py_chr (64 * (64 * (64 * (of_char c - 240) + (of_char c1 - 128)) + (of_char c2 - 128))
          + (of_char c3 - 128))
      = [char_of (240 + (of_char c - 240 :: nat)), char_of (128 + (of_char c1 - 128 :: nat)),
         char_of (128 + (of_char c2 - 128 :: nat)), char_of (128 + (of_char c3 - 128 :: nat))]"
    using assms by (intro enc4) (auto simp: in_range_def second_lo_def second_hi_def split: if_splits)
  have u: "utf8_code [c, c1, c2, c3]
      = 64 * (64 * (64 * (of_char c - 240) + (of_char c1 - 128)) + (of_char c2 - 128))
          + (of_char c3 - 128)"
    using assms(1) by (simp add: utf8_code_def in_range_def)
  have p: "py_chars (c # c1 # c2 # c3 # r) = [c, c1, c2, c3] # py_chars r"
    using valid_utf8_cont_prefix [OF assms(5)] second_bounds
      lead_cont_of_range [of c1 "second_lo (of_char c)" "second_hi (of_char c)"]
      lead_cont_of_range [of c2 128 191] lead_cont_of_range [of c3 128 191]
      lead_cont_of_range [of c 240 244] assms
    by simp
  show ?thesis unfolding u e using p c1 assms(1,3,4) by (simp add: in_range_def)
qed

lemma chars1: "of_char c < (128::nat) \<Longrightarrow> py_chars (c # r) = [c] # py_chars r \<and> py_chr (utf8_code [c]) = [c]"
  by (simp add: py_chars_single is_lead_def py_chr_def utf8_code_def)

theorem utf8_decode_chars:
  "valid_utf8 s \<Longrightarrow> map (py_chr \<circ> utf8_code) (py_chars s) = py_chars s"
proof (induction s rule: valid_utf8.induct)
  case 1
  then show ?case by simp
next
  case (2 c cs)
  show ?case
  proof (cases "of_char c < (128::nat)")
    case True
    then show ?thesis using 2 chars1 [OF True] by simp
  next
    case n1: False
    show ?thesis
    proof (cases "in_range c 194 223")
      case True
      then obtain c1 r where cs: "cs = c1 # r" "in_range c1 128 191" "valid_utf8 r"
        using 2(5) n1 by (auto split: list.splits)
      then show ?thesis using 2(2) n1 True chars2 [OF True cs(2,3)] by simp
    next
      case n2: False
      show ?thesis
      proof (cases "in_range c 224 239")
        case True
        then obtain c1 c2 r where cs: "cs = c1 # c2 # r"
            "in_range c1 (second_lo (of_char c)) (second_hi (of_char c))"
            "in_range c2 128 191" "valid_utf8 r"
          using 2(5) n1 n2 by (auto split: list.splits)
        then show ?thesis using 2(3) n1 n2 True chars3 [OF True cs(2,3,4)] by simp
      next
        case n3: False
        then have True4: "in_range c 240 244" using 2(5) n1 n2 by (auto split: if_splits)
        then obtain c1 c2 c3 r where cs: "cs = c1 # c2 # c3 # r"
            "in_range c1 (second_lo (of_char c)) (second_hi (of_char c))"
            "in_range c2 128 191" "in_range c3 128 191" "valid_utf8 r"
          using 2(5) n1 n2 n3 by (auto split: list.splits)
        then show ?thesis using 2(4) n1 n2 n3 True4 chars4 [OF True4 cs(2-5)] by simp
      qed
    qed
  qed
qed

text \<open>The encoder's output for a code point is accepted and decodes to that code point.\<close>

lemma utf8_valid_code:
  "n < 1114112 \<Longrightarrow> \<not> (55296 \<le> n \<and> n \<le> 57343) \<Longrightarrow> valid_utf8 (py_chr n) \<and> utf8_code (py_chr n) = n"
  using utf8_1 [of n] utf8_2 [of n] utf8_3 [of n] utf8_4 [of n] by (cases "n < 128"; cases "n < 2048"; cases "n < 65536") auto

lemma utf8_code_chr:
  "n < 1114112 \<Longrightarrow> utf8_code (py_chr n) = n"
  using utf8_1 [of n] utf8_2 [of n] utf8_code_3 [of n] utf8_4 [of n]
  by (cases "n < 128"; cases "n < 2048"; cases "n < 65536") auto

text \<open>
  Encoding a code point and decoding it again: for every code point below
  U+110000, \<open>chr(n).encode()\<close> decodes back to the same character, and its code is
  \<open>n\<close>, except for the surrogates U+D800--U+DFFF, whose three-byte forms the strict
  decoder rejects with \<open>UnicodeDecodeError\<close>.
\<close>

theorem utf8_roundtrip:
  "n < 1114112 \<Longrightarrow>
     py_decode (py_chr n) = (if 55296 \<le> n \<and> n \<le> 57343 then Inl UnicodeDecodeError else Inr (py_chr n))
     \<and> utf8_code (py_chr n) = n"
  using utf8_valid_code [of n] utf8_surrogate [of n] utf8_code_chr [of n]
  by (auto simp: py_decode_def)

theorem utf8_roundtrip_witness:
  "py_decode (py_chr 7841) = Inr (py_chr 7841) \<and> utf8_code (py_chr 7841) = 7841
   \<and> py_decode (py_chr 55296) = Inl UnicodeDecodeError"
  using utf8_roundtrip [of 7841] utf8_roundtrip [of 55296] by simp

text \<open>
  Decoding and encoding again: a byte string the strict decoder accepts is
  returned unchanged, and each of the characters the development iterates over
  (\<open>py_chars\<close>) is the encoding of its own code point, so iterating and counting
  characters on the model agree with \<open>str\<close> iteration and \<open>len\<close> in Python.
\<close>

theorem utf8_decode_roundtrip:
  "py_decode s = Inr t \<Longrightarrow> t = s \<and> map (py_chr \<circ> utf8_code) (py_chars t) = py_chars t"
  using utf8_decode_chars [of s] by (simp add: py_decode_def split: if_splits)

theorem utf8_decode_roundtrip_witness:
  "map (py_chr \<circ> utf8_code) (py_chars (''a'' @ py_chr 7841))
     = py_chars (''a'' @ py_chr 7841)"
proof -
  have "valid_utf8 (py_chr 7841)" using utf8_valid_code [of 7841] by simp
  then have "valid_utf8 (''a'' @ py_chr 7841)" by (simp only: append_Cons append_Nil) (subst valid_utf8.simps, simp)
  then show ?thesis using utf8_decode_roundtrip [of "''a'' @ py_chr 7841" "''a'' @ py_chr 7841"]
    by (simp add: py_decode_def)
qed

end
