(* ===== verification/Utils.thy ===== *)
theory Utils
  imports Utf8
begin

text \<open>
  Text extraction from an upload (\<open>src/backend/utils.py\<close>). The DOCX parser
  (\<open>python-docx\<close>, with the temporary file it is given) is a library the code only
  calls: it is the parameter \<open>docx_reader\<close>, which returns the texts of the
  document's paragraphs in order, or the exception the parser (or the temporary file)
  raised. Plain text is decoded with the strict UTF-8 decoder of theory \<open>Utf8\<close>.
\<close>

type_synonym docx_reader = "string \<Rightarrow> py_exc + string list"

definition docx_error :: "py_exc \<Rightarrow> py_exc" where
  "docx_error e = HTTPException 400 (''Loi doc DOCX: '' @ exc_str e)"

definition extract_text_from_docx :: "docx_reader \<Rightarrow> string \<Rightarrow> py_exc + string" where
  "extract_text_from_docx rd file_bytes =
     (case rd file_bytes of
        Inl e \<Rightarrow> Inl (docx_error e)
      | Inr paragraphs \<Rightarrow> Inr (py_strip (py_join ''\<newline>'' paragraphs)))"

definition docx_mime :: string where
  "docx_mime = ''application/vnd.openxmlformats-officedocument.wordprocessingml.document''"

text \<open>\<open>file.content_type\<close> is \<open>None\<close> when the part carries no content type.\<close>

definition extract_text_from_file :: "docx_reader \<Rightarrow> string option \<Rightarrow> string \<Rightarrow> py_exc + string" where
  "extract_text_from_file rd content_type file_bytes =
     (if content_type = Some docx_mime then extract_text_from_docx rd file_bytes
      else if content_type = Some ''text/plain'' then py_decode file_bytes
      else Inl (HTTPException 400 ''Loai file khong duoc ho tro''))"

section \<open>Lemmas\<close>

text \<open>Every outcome of the extraction, by content type.\<close>

lemma extract_text_from_file_cases:
  "extract_text_from_file rd ct bs = Inr t \<Longrightarrow>
     (ct = Some docx_mime \<and> (\<exists>ps. rd bs = Inr ps \<and> t = py_strip (py_join ''\<newline>'' ps)))
     \<or> (ct = Some ''text/plain'' \<and> valid_utf8 bs \<and> t = bs)"
  by (auto simp: extract_text_from_file_def extract_text_from_docx_def py_decode_def docx_mime_def
      split: if_splits sum.splits)

lemma extract_text_from_file_Inl:
  "extract_text_from_file rd ct bs = Inl e \<Longrightarrow>
     (ct = Some docx_mime \<and> (\<exists>e'. rd bs = Inl e' \<and> e = docx_error e'))
     \<or> (ct = Some ''text/plain'' \<and> \<not> valid_utf8 bs \<and> e = UnicodeDecodeError)
     \<or> (ct \<noteq> Some docx_mime \<and> ct \<noteq> Some ''text/plain''
        \<and> e = HTTPException 400 ''Loai file khong duoc ho tro'')"
  by (auto simp: extract_text_from_file_def extract_text_from_docx_def py_decode_def docx_mime_def
      split: if_splits sum.splits)

lemma extract_text_from_docx_stripped: "extract_text_from_docx rd bs = Inr t \<Longrightarrow> stripped t"
  by (auto simp: extract_text_from_docx_def stripped_py_strip split: sum.splits)

lemma extract_text_from_docx_http:
  "extract_text_from_docx rd bs = Inl e \<Longrightarrow> \<exists>d. e = HTTPException 400 d"
  by (auto simp: extract_text_from_docx_def docx_error_def split: sum.splits)

end
