(* ===== verification/Chat.thy ===== *)
theory Chat
  imports Gateway
begin

text \<open>
  The chat service (\<open>get_chat_response\<close>, \<open>src/backend/services.py\<close> lines 206--244)
  and its response model (\<open>ChatResponse\<close>, \<open>models.py\<close> lines 59--61). The context
  is built from the optional report and policy sections; the prompt embeds it with the
  question; the reply's text is returned raw, and a failed call propagates.
\<close>

text \<open>
  One part of the context: omitted when the sections are \<open>None\<close> or empty (Python
  truthiness of \<open>if report_content:\<close>), otherwise the header and one
  \<open>"- <text>"\<close> line per section.
\<close>

definition chat_part :: "string \<Rightarrow> content_section list option \<Rightarrow> string list" where
  "chat_part header secs =
     (case secs of
        None \<Rightarrow> []
      | Some [] \<Rightarrow> []
      | Some ss \<Rightarrow> [header @ ''\<newline>'' @ py_join ''\<newline>'' (map (\<lambda>s. ''- '' @ sec_text s) ss)])"

definition chat_context :: "content_section list option \<Rightarrow> content_section list option \<Rightarrow> string" where
  "chat_context report_content policy_content =
     py_join ''\<newline>\<newline>''
       (chat_part ''BIEN BAN BAO CAO:'' report_content @ chat_part ''HOP DONG BAO HIEM:'' policy_content)"

definition get_chat_response ::
  "model_oracle \<Rightarrow> string \<Rightarrow> content_section list option \<Rightarrow> content_section list option \<Rightarrow> gw_state
     \<Rightarrow> (py_exc + string) \<times> gw_state" where
  "get_chat_response g message report_content policy_content st =
     (let (r, st') = generate g (Chat_prompt (chat_context report_content policy_content) message) st
      in (reply_text r, st'))"

record chat_response =
  response :: string
  chat_timestamp :: string

section \<open>Lemmas\<close>

lemma chat_part_empty [simp]: "chat_part h None = []" "chat_part h (Some []) = []"
  by (simp_all add: chat_part_def)

lemma chat_part_nonempty [simp]:
  "ss \<noteq> [] \<Longrightarrow> chat_part h (Some ss) = [h @ ''\<newline>'' @ py_join ''\<newline>'' (map (\<lambda>s. ''- '' @ sec_text s) ss)]"
  by (cases ss) (simp_all add: chat_part_def)

lemma get_chat_response_eq:
  "get_chat_response g m rep pol st =
     (reply_text (g (length (calls st)) (Chat_prompt (chat_context rep pol) m)),
      st\<lparr>calls := calls st @ [Chat_prompt (chat_context rep pol) m]\<rparr>)"
  by (simp add: get_chat_response_def generate_def)

lemma chat_context_none: "chat_context None None = []" "chat_context (Some []) (Some []) = []"
  by (simp_all add: chat_context_def)

end
