(* ===== verification/Image.thy ===== *)
theory Image
  imports Gateway
begin

text \<open>
  Cross-reference of a claim with an image (\<open>verify_claim_with_image\<close>,
  \<open>src/backend/services.py\<close> lines 466--507). PIL is a library the code only calls:
  \<open>Image.open\<close> is the parameter \<open>image_open\<close> (the decoded image, or the exception
  of an unreadable file) and \<open>img.convert('RGB')\<close> the parameter \<open>image_convert\<close>
  (PIL loads the pixel data lazily, so the conversion can fail too). Both run in the
  first \<open>try\<close>, whose exceptions become \<open>HTTPException(400)\<close>; the two model calls
  run in the second, whose exceptions become \<open>HTTPException(500)\<close>.
\<close>

type_synonym image_open = "string \<Rightarrow> py_exc + image"
type_synonym image_convert = "image \<Rightarrow> py_exc + image"

text \<open>Lines 470--475: open, and convert an image with alpha or palette to RGB.\<close>

definition image_error :: "py_exc \<Rightarrow> py_exc" where
  "image_error e = HTTPException 400 (''Khong the xu ly file anh: '' @ exc_str e)"

definition load_image :: "image_open \<Rightarrow> image_convert \<Rightarrow> string \<Rightarrow> py_exc + image" where
  "load_image image_open image_convert image_data =
     (case image_open image_data of
        Inl e \<Rightarrow> Inl (image_error e)
      | Inr img \<Rightarrow>
          if img_mode img = Mode_RGBA \<or> img_mode img = Mode_P
          then (case image_convert img of Inl e \<Rightarrow> Inl (image_error e) | Inr rgb \<Rightarrow> Inr rgb)
          else Inr img)"

definition gemini_error :: "py_exc \<Rightarrow> py_exc" where
  "gemini_error e = HTTPException 500 (''Loi khi goi API Gemini: '' @ exc_str e)"

definition verify_claim_with_image ::
  "model_oracle \<Rightarrow> image_open \<Rightarrow> image_convert \<Rightarrow> string \<Rightarrow> string \<Rightarrow> gw_state
     \<Rightarrow> (py_exc + string) \<times> gw_state" where
  "verify_claim_with_image g image_open image_convert claim_text image_data st =
     (case load_image image_open image_convert image_data of
        Inl e \<Rightarrow> (Inl e, st)
      | Inr img \<Rightarrow>
          (let (r1, st1) = generate g (Image_triage_prompt img) st in
           case reply_text r1 of
             Inl e \<Rightarrow> (Inl (gemini_error e), st1)
           | Inr image_analysis_result \<Rightarrow>
               (let (r2, st2) = generate g (Compare_prompt claim_text image_analysis_result) st1 in
                (case reply_text r2 of
                   Inl e \<Rightarrow> Inl (gemini_error e)
                 | Inr comparison_result \<Rightarrow> Inr (py_strip comparison_result), st2))))"

section \<open>Lemmas\<close>

lemma load_image_Inr:
  "load_image op cv d = Inr img \<Longrightarrow>
     \<exists>img0. op d = Inr img0 \<and>
       (if img_mode img0 = Mode_RGBA \<or> img_mode img0 = Mode_P then cv img0 = Inr img else img = img0)"
  by (auto simp: load_image_def image_error_def split: sum.splits if_splits)

lemma load_image_Inl: "load_image op cv d = Inl e \<Longrightarrow> \<exists>m. e = HTTPException 400 m"
  by (auto simp: load_image_def image_error_def split: sum.splits if_splits)

text \<open>
  The calls of one cross-reference: none (the image is refused), the triage alone (it
  failed), or the triage and then the comparison, which is fed the triage's reply.
\<close>

lemma verify_claim_with_image_calls:
  "calls (snd (verify_claim_with_image g op cv c d st)) = calls st
   \<or> (\<exists>img. calls (snd (verify_claim_with_image g op cv c d st)) = calls st @ [Image_triage_prompt img])
   \<or> (\<exists>img a. g (length (calls st)) (Image_triage_prompt img) = Reply a
          \<and> calls (snd (verify_claim_with_image g op cv c d st))
             = calls st @ [Image_triage_prompt img, Compare_prompt c a])"
proof (cases "load_image op cv d")
  case (Inr img)
  then show ?thesis
    by (cases "g (length (calls st)) (Image_triage_prompt img)")
       (auto simp: verify_claim_with_image_def generate_def split: sum.splits)
qed (simp add: verify_claim_with_image_def)

end
