(* ===== verification/Policy.thy ===== *)
theory Policy
  imports Sections Utils
begin

text \<open>
  The policy lookup (\<open>fetch_insurance_policy\<close>, \<open>src/backend/services.py\<close> lines
  129--150). The code does not query a database: it reads the one file
  \<open>policy_backend.docx\<close> of the working directory, whatever the customer. The file
  system is the parameter \<open>policy_store\<close>: the file's bytes, or \<open>None\<close> when
  \<open>os.path.exists\<close> is false. The text is extracted with the DOCX extractor of
  \<open>utils.py\<close> and structured by the content-structuring service with
  \<open>file_type = "policy"\<close>; the metadata is built from the customer id and the clock.
\<close>

type_synonym policy_store = "string option"

definition policy_not_found :: py_exc where
  "policy_not_found = HTTPException 404 ''Khong tim thay file policy_backend.docx''"

definition fetch_insurance_policy ::
  "model_oracle \<Rightarrow> json_loads \<Rightarrow> docx_reader \<Rightarrow> policy_store \<Rightarrow> clock \<Rightarrow> string \<Rightarrow> gw_state
     \<Rightarrow> (py_exc + policy_file) \<times> gw_state" where
  "fetch_insurance_policy g loads rd store clk customer_id st =
     (case store of
        None \<Rightarrow> (Inl policy_not_found, st)
      | Some file_bytes \<Rightarrow>
          (case extract_text_from_docx rd file_bytes of
             Inl e \<Rightarrow> (Inl e, st)
           | Inr policy_text \<Rightarrow>
               (let (r, st') = structure_content_with_ai g loads policy_text ''policy'' st in
                (case r of
                   Inl e \<Rightarrow> Inl e
                 | Inr structured_content \<Rightarrow>
                     Inr \<lparr>policy_id = ''policy-'' @ customer_id,
                          policy_name = ''Hop dong bao hiem - '' @ customer_id @ ''.pdf'',
                          policy_type = ''application/pdf'', policy_size = length file_bytes,
                          uploadDate = now_iso clk, structuredContent = structured_content\<rparr>, st'))))"

section \<open>Lemmas\<close>

lemma structure_content_with_ai_pair:
  "structure_content_with_ai g loads t ft st =
     (coerce_sections loads ft t (g (length (calls st)) (structure_prompt ft t)),
      st\<lparr>calls := calls st @ [structure_prompt ft t]\<rparr>)"
  by (simp add: structure_content_with_ai_def generate_def)

lemma fetch_insurance_policy_calls:
  "calls (snd (fetch_insurance_policy g loads rd store clk c st)) =
     (case store of
        None \<Rightarrow> calls st
      | Some bs \<Rightarrow> (case extract_text_from_docx rd bs of
                     Inl _ \<Rightarrow> calls st
                   | Inr t \<Rightarrow> calls st @ [Structure_policy_prompt t]))"
  by (auto simp: fetch_insurance_policy_def structure_content_with_ai_pair structure_prompt_def
      split: option.splits sum.splits)

lemma fetch_insurance_policy_Inr:
  "fst (fetch_insurance_policy g loads rd store clk c st) = Inr p \<Longrightarrow>
     \<exists>bs t. store = Some bs \<and> extract_text_from_docx rd bs = Inr t
       \<and> fst (structure_content_with_ai g loads t ''policy'' st) = Inr (structuredContent p)
       \<and> policy_id p = ''policy-'' @ c \<and> policy_type p = ''application/pdf''
       \<and> policy_size p = length bs"
  by (auto simp: fetch_insurance_policy_def structure_content_with_ai_pair split: option.splits sum.splits)

lemma fetch_insurance_policy_Inl:
  "fst (fetch_insurance_policy g loads rd store clk c st) = Inl e \<Longrightarrow> \<exists>code d. e = HTTPException code d"
  by (auto simp: fetch_insurance_policy_def policy_not_found_def structure_content_with_ai_pair
      coerce_sections_def ai_error_def extract_text_from_docx_def docx_error_def map_sum_def
      split: option.splits sum.splits)

end
