(* ===== verification/Routers.thy ===== *)
theory Routers
  imports Policy Chat Image Mappings Action_Plan Free_Text "HOL-Library.Sublist"
begin

text \<open>
  The request handlers of \<open>src/backend/routers.py\<close> and the request and response
  models they use (\<open>models.py\<close>). A handler threads the call log through the
  services it awaits and may raise: it is a function
  \<open>gw_state \<Rightarrow> (py_exc + 'a) \<times> gw_state\<close> (\<open>'a handler\<close>), composed with
  \<open>h_bind\<close>, which stops at the first exception and keeps the calls already made.
  The \<open>except\<close> clauses are \<open>h_except\<close> with the mapping the clause applies:
  \<open>except HTTPException: raise\<close> followed by \<open>except Exception as e\<close> is
  \<open>reraise_http\<close>, a lone \<open>except Exception as e\<close> is \<open>wrap_500\<close> (it also wraps an
  \<open>HTTPException\<close>). \<open>datetime.now()\<close> is read from the request's clock; the text
  of \<open>str(datetime.now().timestamp())\<close> for the report id is the parameter \<open>ts\<close>.
\<close>

section \<open>Handlers with exceptions over the call log\<close>

type_synonym 'a handler = "gw_state \<Rightarrow> (py_exc + 'a) \<times> gw_state"

definition h_return :: "'a \<Rightarrow> 'a handler" where
  "h_return a st = (Inr a, st)"

definition h_raise :: "py_exc \<Rightarrow> 'a handler" where
  "h_raise e st = (Inl e, st)"

definition h_exc :: "py_exc + 'a \<Rightarrow> 'a handler" where
  "h_exc x st = (x, st)"

definition h_lift :: "(gw_state \<Rightarrow> 'a \<times> gw_state) \<Rightarrow> 'a handler" where
  "h_lift m st = (case m st of (a, st') \<Rightarrow> (Inr a, st'))"

definition h_bind :: "'a handler \<Rightarrow> ('a \<Rightarrow> 'b handler) \<Rightarrow> 'b handler" where
  "h_bind m f st = (case m st of (Inl e, st') \<Rightarrow> (Inl e, st') | (Inr a, st') \<Rightarrow> f a st')"

definition h_except :: "'a handler \<Rightarrow> (py_exc \<Rightarrow> py_exc) \<Rightarrow> 'a handler" where
  "h_except m h st = (case m st of (Inl e, st') \<Rightarrow> (Inl (h e), st') | (Inr a, st') \<Rightarrow> (Inr a, st'))"

definition reraise_http :: "string \<Rightarrow> py_exc \<Rightarrow> py_exc" where
  "reraise_http msg e = (case e of HTTPException _ _ \<Rightarrow> e | _ \<Rightarrow> HTTPException 500 (msg @ exc_str e))"

definition wrap_500 :: "string \<Rightarrow> py_exc \<Rightarrow> py_exc" where
  "wrap_500 msg e = HTTPException 500 (msg @ exc_str e)"

section \<open>Request and response models (models.py)\<close>

record upload_file =
  up_filename :: string
  up_content_type :: "string option"
  up_bytes :: string

record chat_request =
  message :: string
  chat_reportContent :: "content_section list option"
  chat_policyContent :: "content_section list option"

record validate_claim_request =
  vc_reportContent :: "content_section list"
  vc_policyContent :: "content_section list"
  vc_mappings :: "(string \<times> string) list"
  vc_customerId :: string

record suggest_plan_request =
  sp_reportContent :: "content_section list"
  sp_policyContent :: "content_section list"
  sp_validationResult :: "claim_validation_result option"
  sp_customerId :: string

record calculate_payout_request =
  contract_text :: string

record full_analysis_response =
  fa_validation :: claim_validation_result
  fa_actionPlan :: action_plan
  fa_timestamp :: string

section \<open>Handlers (routers.py)\<close>

text \<open>\<open>upload_report\<close> (lines 23--53).\<close>

text \<open>\<open>not text or len(text) < 50\<close>: \<open>len\<close> counts characters (code points).\<close>

definition short_text :: "string \<Rightarrow> bool" where
  "short_text text \<longleftrightarrow> text = [] \<or> length (py_chars text) < 50"

definition short_text_error :: py_exc where
  "short_text_error = HTTPException 400 ''File khong chua du noi dung de xu ly''"

definition upload_report ::
  "model_oracle \<Rightarrow> json_loads \<Rightarrow> docx_reader \<Rightarrow> policy_store \<Rightarrow> clock \<Rightarrow> string \<Rightarrow> upload_file
     \<Rightarrow> processed_report handler" where
  "upload_report g loads rd store clk ts file =
     h_except
      (h_bind (h_exc (extract_text_from_file rd (up_content_type file) (up_bytes file))) (\<lambda>text.
       if short_text text then h_raise short_text_error
       else
       h_bind (structure_content_with_ai g loads text ''report'') (\<lambda>report_content.
       h_bind (h_lift (extract_customer_id_with_ai g text)) (\<lambda>customer_id.
       h_bind (fetch_insurance_policy g loads rd store clk customer_id) (\<lambda>policy.
       h_bind (h_lift (create_mappings_with_ai g loads report_content (structuredContent policy)))
         (\<lambda>mappings.
       h_bind (h_exc (case up_content_type file of None \<Rightarrow> Inl ValidationError | Some ct \<Rightarrow> Inr ct))
         (\<lambda>report_type.
       h_return \<lparr>reportId = ''report-'' @ ts, reportName = up_filename file, reportType = report_type,
                 reportSize = length (up_bytes file), reportContent = report_content,
                 customerId = customer_id, policy = policy, mappings = mappings\<rparr>)))))))
      (reraise_http ''Loi xu ly file: '')"

text \<open>\<open>chat\<close> (lines 55--72).\<close>

definition chat :: "model_oracle \<Rightarrow> clock \<Rightarrow> chat_request \<Rightarrow> chat_response handler" where
  "chat g clk request =
     h_except
      (h_bind (get_chat_response g (message request) (chat_reportContent request) (chat_policyContent request))
        (\<lambda>response_text. h_return \<lparr>response = response_text, chat_timestamp = now_iso clk\<rparr>))
      (wrap_500 ''Loi xu ly chat: '')"

text \<open>\<open>verify_claim_with_gemini_endpoint\<close> (lines 74--87).\<close>

definition verify_claim :: "model_oracle \<Rightarrow> image_open \<Rightarrow> image_convert \<Rightarrow> string \<Rightarrow> string \<Rightarrow> json handler" where
  "verify_claim g op cv claim_text image_data =
     h_except
      (h_bind (verify_claim_with_image g op cv claim_text image_data)
        (\<lambda>result. h_return (JObj [(''ket_qua_doi_chieu'', JStr result)])))
      (reraise_http ''Loi xu ly verify_claim: '')"

text \<open>\<open>calculate_max_payout_from_contract_endpoint\<close> (lines 89--101).\<close>

definition calculate_max_payout ::
  "model_oracle \<Rightarrow> (json \<Rightarrow> bool) \<Rightarrow> calculate_payout_request \<Rightarrow> payout_response handler" where
  "calculate_max_payout g save request =
     h_except (calculate_payout_from_text g save (contract_text request))
       (reraise_http ''Loi xu ly calculate_max_payout: '')"

text \<open>\<open>validate_claim\<close> (lines 103--116) and \<open>suggest_plan\<close> (lines 118--131).\<close>

definition validate_claim ::
  "model_oracle \<Rightarrow> json_loads \<Rightarrow> clock \<Rightarrow> validate_claim_request \<Rightarrow> claim_validation_result handler" where
  "validate_claim g loads clk request =
     h_except
      (h_lift (validate_claim_with_ai g loads clk (vc_reportContent request) (vc_policyContent request)
                 (vc_mappings request) (vc_customerId request)))
      (wrap_500 ''Loi validate claim: '')"

definition suggest_plan ::
  "model_oracle \<Rightarrow> json_loads \<Rightarrow> clock \<Rightarrow> suggest_plan_request \<Rightarrow> action_plan handler" where
  "suggest_plan g loads clk request =
     h_except
      (h_lift (suggest_action_plan_with_ai g loads clk (sp_reportContent request) (sp_policyContent request)
                 (sp_validationResult request) (sp_customerId request)))
      (wrap_500 ''Loi suggest plan: '')"

text \<open>
  \<open>full_analysis\<close> (lines 133--161): validation, then the plan for that validation.
  Each service reads the clock itself, so the three readings are separate parameters.
\<close>

definition full_analysis ::
  "model_oracle \<Rightarrow> json_loads \<Rightarrow> clock \<Rightarrow> clock \<Rightarrow> clock \<Rightarrow> validate_claim_request
     \<Rightarrow> full_analysis_response handler" where
  "full_analysis g loads clk1 clk2 clk3 request =
     h_except
      (h_bind (h_lift (validate_claim_with_ai g loads clk1 (vc_reportContent request) (vc_policyContent request)
                         (vc_mappings request) (vc_customerId request))) (\<lambda>validation_result.
       h_bind (h_lift (suggest_action_plan_with_ai g loads clk2 (vc_reportContent request)
                         (vc_policyContent request) (Some validation_result) (vc_customerId request)))
         (\<lambda>action_plan.
       h_return \<lparr>fa_validation = validation_result, fa_actionPlan = action_plan,
                 fa_timestamp = now_iso clk3\<rparr>)))
      (wrap_500 ''Loi full analysis: '')"

text \<open>\<open>get_claim_status\<close> (lines 163--173), \<open>health_check\<close> (lines 175--189) and the root
  endpoint of \<open>main.py\<close> (lines 15--17): constant payloads with the time.\<close>

definition get_claim_status :: "clock \<Rightarrow> string \<Rightarrow> json" where
  "get_claim_status clk requested_id = JObj
     [(''claimId'', JStr requested_id), (''status'', JStr ''pending_review''),
      (''lastUpdated'', JStr (now_iso clk)), (''assignedTo'', JStr ''Claims Team''),
      (''progress'', JInt 45), (''message'', JStr ''Dang cho bo sung tai lieu'')]"

definition health_check :: "clock \<Rightarrow> json" where
  "health_check clk = JObj
     [(''status'', JStr ''healthy''), (''timestamp'', JStr (now_iso clk)), (''version'', JStr ''2.0.0''),
      (''features'', JArr (map JStr [''upload-report'', ''chat'', ''validate-claim'', ''suggest-plan'',
                                     ''full-analysis'']))]"

definition root :: json where
  "root = JObj [(''message'', JStr ''Insurance Workspace API''), (''status'', JStr ''running'')]"

text \<open>
  What a \<open>ProcessedReport\<close> returned by the upload promises: its mappings are a partial
  function from its own report sections to its policy's sections, and its policy is
  the one looked up for its customer.
\<close>

definition wf_processed_report :: "processed_report \<Rightarrow> bool" where
  "wf_processed_report r \<longleftrightarrow>
     distinct (map fst (mappings r))
     \<and> list_all (\<lambda>(k, v). k \<in> set (map sec_id (reportContent r))
                       \<and> v \<in> set (map sec_id (structuredContent (policy r)))) (mappings r)
     \<and> policy_id (policy r) = ''policy-'' @ customerId r
     \<and> policy_type (policy r) = ''application/pdf''"

section \<open>Lemmas\<close>

lemmas h_defs = h_except_def h_bind_def h_exc_def h_lift_def h_return_def h_raise_def

lemma extract_customer_id_with_ai_pair:
  "extract_customer_id_with_ai g t st =
     (case reply_text (g (length (calls st)) (Customer_id_prompt (py_prefix 1000 t))) of
        Inl e \<Rightarrow> ''UNKNOWN'' | Inr r \<Rightarrow> accept_customer_id r,
      st\<lparr>calls := calls st @ [Customer_id_prompt (py_prefix 1000 t)]\<rparr>)"
  by (simp add: extract_customer_id_with_ai_def generate_def)

lemma create_mappings_with_ai_pair:
  "create_mappings_with_ai g loads rep pol st =
     (coerce_mappings loads rep pol (g (length (calls st)) (Mapping_prompt rep pol)),
      st\<lparr>calls := calls st @ [Mapping_prompt rep pol]\<rparr>)"
  by (simp add: create_mappings_with_ai_def generate_def)

text \<open>The upload before the first model call: an unusable text ends the request.\<close>

lemma upload_report_extract_fails:
  "extract_text_from_file rd (up_content_type f) (up_bytes f) = Inl e \<Longrightarrow>
     upload_report g loads rd store clk ts f st = (Inl (reraise_http ''Loi xu ly file: '' e), st)"
  by (simp add: upload_report_def h_defs)

lemma upload_report_short:
  "extract_text_from_file rd (up_content_type f) (up_bytes f) = Inr t \<Longrightarrow> short_text t
     \<Longrightarrow> upload_report g loads rd store clk ts f st = (Inl short_text_error, st)"
  by (auto simp: upload_report_def h_defs reraise_http_def short_text_error_def)

text \<open>The upload after the report text is structured: the customer id, the policy, the mappings.\<close>

lemma upload_report_structured:
  assumes "extract_text_from_file rd (up_content_type f) (up_bytes f) = Inr t"
    "\<not> short_text t"
    "structure_content_with_ai g loads t ''report'' st = (r1, st1)"
  shows "upload_report g loads rd store clk ts f st =
    (case r1 of
       Inl e \<Rightarrow> (Inl (reraise_http ''Loi xu ly file: '' e), st1)
     | Inr rc \<Rightarrow>
         (case extract_customer_id_with_ai g t st1 of (cid, st2) \<Rightarrow>
          case fetch_insurance_policy g loads rd store clk cid st2 of
            (Inl e, st3) \<Rightarrow> (Inl (reraise_http ''Loi xu ly file: '' e), st3)
          | (Inr p, st3) \<Rightarrow>
              (case create_mappings_with_ai g loads rc (structuredContent p) st3 of (ms, st4) \<Rightarrow>
               (case up_content_type f of
                  None \<Rightarrow> Inl (reraise_http ''Loi xu ly file: '' ValidationError)
                | Some ct \<Rightarrow> Inr \<lparr>reportId = ''report-'' @ ts, reportName = up_filename f, reportType = ct,
                                   reportSize = length (up_bytes f), reportContent = rc,
                                   customerId = cid, policy = p, mappings = ms\<rparr>, st4))))"
  using assms by (simp add: upload_report_def h_defs split: sum.splits prod.splits option.splits)

lemma upload_report_log:
  "\<exists>t pt rc pc k. calls (snd (upload_report g loads rd store clk ts f st))
     = calls st @ take k [Structure_report_prompt t, Customer_id_prompt (py_prefix 1000 t),
                          Structure_policy_prompt pt, Mapping_prompt rc pc]"
proof (cases "\<exists>t. extract_text_from_file rd (up_content_type f) (up_bytes f) = Inr t
                   \<and> \<not> short_text t")
  case False
  then have "snd (upload_report g loads rd store clk ts f st) = st"
    by (cases "extract_text_from_file rd (up_content_type f) (up_bytes f)")
       (auto simp: upload_report_extract_fails upload_report_short)
  then show ?thesis by (metis append_Nil2 take_0)
next
  case True
  then obtain t where ext: "extract_text_from_file rd (up_content_type f) (up_bytes f) = Inr t"
    and long: "\<not> short_text t" by blast
  define SR CI where "SR = Structure_report_prompt t" and "CI = Customer_id_prompt (py_prefix 1000 t)"
  define st1 where "st1 = st\<lparr>calls := calls st @ [SR]\<rparr>"
  obtain r1 where s1: "structure_content_with_ai g loads t ''report'' st = (r1, st1)"
    by (simp add: structure_content_with_ai_pair st1_def SR_def structure_prompt_def)
  note run = upload_report_structured [OF ext long s1]
  show ?thesis
  proof (cases r1)
    case Inl
    then show ?thesis using run by (intro exI [of _ t] exI [of _ "[]"] exI [of _ "[]"] exI [of _ "[]"] exI [of _ 1]) (simp add: st1_def SR_def)
  next
    case (Inr rc)
    define st2 where "st2 = st1\<lparr>calls := calls st1 @ [CI]\<rparr>"
    obtain cid where s2: "extract_customer_id_with_ai g t st1 = (cid, st2)"
      by (simp add: extract_customer_id_with_ai_pair st2_def CI_def)
    obtain rp st3 where s3: "fetch_insurance_policy g loads rd store clk cid st2 = (rp, st3)"
      by (cases "fetch_insurance_policy g loads rd store clk cid st2")
    have c3: "calls st3 = calls st2 \<or> (\<exists>pt. calls st3 = calls st2 @ [Structure_policy_prompt pt])"
      using fetch_insurance_policy_calls [of g loads rd store clk cid st2] s3
      by (auto split: option.splits sum.splits)
    show ?thesis
    proof (cases rp)
      case Inl
      then have "snd (upload_report g loads rd store clk ts f st) = st3" using run Inr s2 s3 by simp
      with c3 show ?thesis
      proof (elim disjE exE)
        assume "calls st3 = calls st2"
        then show ?thesis using \<open>snd (upload_report g loads rd store clk ts f st) = st3\<close>
          by (intro exI [of _ t] exI [of _ "[]"] exI [of _ "[]"] exI [of _ "[]"] exI [of _ 2])
             (simp add: st1_def st2_def SR_def CI_def)
      next
        fix pt assume "calls st3 = calls st2 @ [Structure_policy_prompt pt]"
        then show ?thesis using \<open>snd (upload_report g loads rd store clk ts f st) = st3\<close>
          by (intro exI [of _ t] exI [of _ pt] exI [of _ "[]"] exI [of _ "[]"] exI [of _ 3])
             (simp add: st1_def st2_def SR_def CI_def)
      qed
    next
      case (Inr p)
      then obtain pt where pt: "calls st3 = calls st2 @ [Structure_policy_prompt pt]"
        using fetch_insurance_policy_Inr [of g loads rd store clk cid st2 p]
          fetch_insurance_policy_calls [of g loads rd store clk cid st2] s3
        by auto
      have "snd (upload_report g loads rd store clk ts f st)
          = st3\<lparr>calls := calls st3 @ [Mapping_prompt rc (structuredContent p)]\<rparr>"
        using run Inr \<open>r1 = Inr rc\<close> s2 s3 by (simp add: create_mappings_with_ai_pair split: option.splits)
      then show ?thesis using pt
        by (intro exI [of _ t] exI [of _ pt] exI [of _ rc] exI [of _ "structuredContent p"] exI [of _ 4])
           (simp add: st1_def st2_def SR_def CI_def)
    qed
  qed
qed

lemma upload_report_Inr:
  assumes "fst (upload_report g loads rd store clk ts f st) = Inr r"
  shows "(\<exists>st'. fst (fetch_insurance_policy g loads rd store clk (customerId r) st') = Inr (policy r))
    \<and> (\<exists>st'. fst (create_mappings_with_ai g loads (reportContent r) (structuredContent (policy r)) st')
              = mappings r)
    \<and> reportSize r = length (up_bytes f) \<and> reportId r = ''report-'' @ ts"
proof -
  have "\<exists>t. extract_text_from_file rd (up_content_type f) (up_bytes f) = Inr t
            \<and> \<not> short_text t"
  proof (cases "extract_text_from_file rd (up_content_type f) (up_bytes f)")
    case (Inl e)
    then show ?thesis using assms upload_report_extract_fails [OF Inl] by simp
  next
    case (Inr t)
    then show ?thesis using assms upload_report_short [OF Inr] by auto
  qed
  then obtain t where ext: "extract_text_from_file rd (up_content_type f) (up_bytes f) = Inr t"
    and long: "\<not> short_text t" by blast
  obtain r1 st1 where s1: "structure_content_with_ai g loads t ''report'' st = (r1, st1)"
    by (cases "structure_content_with_ai g loads t ''report'' st")
  obtain cid st2 where s2: "extract_customer_id_with_ai g t st1 = (cid, st2)"
    by (cases "extract_customer_id_with_ai g t st1")
  obtain rp st3 where s3: "fetch_insurance_policy g loads rd store clk cid st2 = (rp, st3)"
    by (cases "fetch_insurance_policy g loads rd store clk cid st2")
  show ?thesis
    using assms upload_report_structured [OF ext long s1] s2 s3
    by (auto split: sum.splits prod.splits option.splits intro: exI [of _ st2] exI [of _ st3])
qed

text \<open>
  C9. An uploaded \<open>text/plain\<close> file that is not valid UTF-8 is not treated as a client
  error: \<open>content.decode('utf-8')\<close> raises \<open>UnicodeDecodeError\<close>, which is not an
  \<open>HTTPException\<close>, so the upload answers 500 before any model call.
\<close>

lemma upload_report_invalid_utf8:
  "up_content_type f = Some ''text/plain'' \<Longrightarrow> \<not> valid_utf8 (up_bytes f) \<Longrightarrow>
     upload_report g loads rd store clk ts f st
       = (Inl (HTTPException 500 ''Loi xu ly file: UnicodeDecodeError''), st)"
  by (simp add: upload_report_extract_fails extract_text_from_file_def docx_mime_def py_decode_def
      reraise_http_def)

lemma upload_report_invalid_utf8_witness:
  "upload_report (\<lambda>_ _. Reply ''x'') (\<lambda>_. None) (\<lambda>_. Inr []) None
     \<lparr>now_secs = 0, now_iso = ''2025-01-01T00:00:00''\<rparr> ''1.5''
     \<lparr>up_filename = ''a.txt'', up_content_type = Some ''text/plain'', up_bytes = [CHR 0xC3, CHR 0x28]\<rparr>
     \<lparr>calls = []\<rparr>
   = (Inl (HTTPException 500 ''Loi xu ly file: UnicodeDecodeError''), \<lparr>calls = []\<rparr>)"
  by (rule upload_report_invalid_utf8) (simp_all add: in_range_def second_lo_def second_hi_def)

text \<open>
  The policy file is read after two model calls: a missing file is a 404 and a corrupt
  one a 400 of the upload, although neither concerns the uploaded document.
\<close>

lemma upload_report_policy_missing:
  assumes "extract_text_from_file rd (up_content_type f) (up_bytes f) = Inr t"
    "\<not> short_text t"
    "fst (structure_content_with_ai g loads t ''report'' st) = Inr rc"
  shows "upload_report g loads rd None clk ts f st
      = (Inl (HTTPException 404 ''Khong tim thay file policy_backend.docx''),
         st\<lparr>calls := calls st @ [Structure_report_prompt t, Customer_id_prompt (py_prefix 1000 t)]\<rparr>)"
proof -
  have s1: "structure_content_with_ai g loads t ''report'' st
      = (Inr rc, st\<lparr>calls := calls st @ [Structure_report_prompt t]\<rparr>)"
    using assms(3) by (simp add: structure_content_with_ai_pair structure_prompt_def)
  show ?thesis using upload_report_structured [OF assms(1,2) s1]
    by (simp add: extract_customer_id_with_ai_pair fetch_insurance_policy_def policy_not_found_def reraise_http_def)
qed

lemma upload_report_policy_corrupt:
  assumes "extract_text_from_file rd (up_content_type f) (up_bytes f) = Inr t"
    "\<not> short_text t"
    "fst (structure_content_with_ai g loads t ''report'' st) = Inr rc" "rd bs = Inl e"
  shows "upload_report g loads rd (Some bs) clk ts f st
      = (Inl (HTTPException 400 (''Loi doc DOCX: '' @ exc_str e)),
         st\<lparr>calls := calls st @ [Structure_report_prompt t, Customer_id_prompt (py_prefix 1000 t)]\<rparr>)"
proof -
  have s1: "structure_content_with_ai g loads t ''report'' st
      = (Inr rc, st\<lparr>calls := calls st @ [Structure_report_prompt t]\<rparr>)"
    using assms(3) by (simp add: structure_content_with_ai_pair structure_prompt_def)
  show ?thesis using upload_report_structured [OF assms(1,2) s1] assms(4)
    by (simp add: extract_customer_id_with_ai_pair fetch_insurance_policy_def extract_text_from_docx_def docx_error_def reraise_http_def)
qed

lemma coerce_plan_claimId: "plan_claimId (coerce_plan loads rep vr c clk r) = plan_claim_id vr c clk"
  using coerce_plan_cases [of loads rep vr c clk r]
  by (auto simp: plan_fallback_def dest: plan_of_result_Inr)

section \<open>Properties\<close>

text \<open>
  C36. An upload whose extracted text has fewer than 50 characters is refused with
  \<open>HTTPException(400)\<close> before any model call: the call log is unchanged (spec, 8).
\<close>

theorem upload_report_short_text:
  "extract_text_from_file rd (up_content_type f) (up_bytes f) = Inr t \<Longrightarrow> length (py_chars t) < 50
     \<Longrightarrow> upload_report g loads rd store clk ts f st
         = (Inl (HTTPException 400 ''File khong chua du noi dung de xu ly''), st)"
  using upload_report_short [of rd f t g loads store clk ts st] by (simp add: short_text_def short_text_error_def)

theorem upload_report_short_text_witness:
  "upload_report (\<lambda>_ _. Reply ''x'') (\<lambda>_. None) (\<lambda>_. Inr []) None
     \<lparr>now_secs = 0, now_iso = ''2025-01-01T00:00:00''\<rparr> ''1.5''
     \<lparr>up_filename = ''a.txt'', up_content_type = Some ''text/plain'', up_bytes = ''too short''\<rparr>
     \<lparr>calls = []\<rparr>
   = (Inl (HTTPException 400 ''File khong chua du noi dung de xu ly''), \<lparr>calls = []\<rparr>)"
  by (rule upload_report_short_text [of _ _ "''too short''"])
     (simp_all add: extract_text_from_file_def docx_mime_def py_decode_def str_defs)

text \<open>
  C37. An upload makes at most four model calls, in this order, each only after the step
  before it succeeded. Before any call, the text is extracted from the upload and is long
  enough. The customer id is asked for (on the first 1000 characters of that text) only
  after the report's structuring returned sections. The policy is structured only if its
  file exists and can be read. The mapping is asked for only after the policy was
  structured, and on the two lists of sections those calls returned.
\<close>

theorem upload_report_calls:
  "calls (snd (upload_report g loads rd store clk ts f st)) = calls st
   \<or> (\<exists>t. extract_text_from_file rd (up_content_type f) (up_bytes f) = Inr t \<and> \<not> short_text t
       \<and> ((\<exists>e. fst (structure_content_with_ai g loads t ''report'' st) = Inl e
            \<and> calls (snd (upload_report g loads rd store clk ts f st))
                = calls st @ [Structure_report_prompt t])
          \<or> (\<exists>rc. fst (structure_content_with_ai g loads t ''report'' st) = Inr rc
            \<and> (calls (snd (upload_report g loads rd store clk ts f st))
                 = calls st @ [Structure_report_prompt t, Customer_id_prompt (py_prefix 1000 t)]
               \<or> (\<exists>bs pt. store = Some bs \<and> extract_text_from_docx rd bs = Inr pt
                  \<and> (calls (snd (upload_report g loads rd store clk ts f st))
                       = calls st @ [Structure_report_prompt t, Customer_id_prompt (py_prefix 1000 t),
                                     Structure_policy_prompt pt]
                     \<or> (\<exists>pc. fst (structure_content_with_ai g loads pt ''policy''
                                 (st\<lparr>calls := calls st @ [Structure_report_prompt t,
                                                          Customer_id_prompt (py_prefix 1000 t)]\<rparr>))
                              = Inr pc
                          \<and> calls (snd (upload_report g loads rd store clk ts f st))
                              = calls st @ [Structure_report_prompt t, Customer_id_prompt (py_prefix 1000 t),
                                            Structure_policy_prompt pt, Mapping_prompt rc pc])))))))"
  (is "?none \<or> ?some")
proof (cases "\<exists>t. extract_text_from_file rd (up_content_type f) (up_bytes f) = Inr t \<and> \<not> short_text t")
  case False
  then have "snd (upload_report g loads rd store clk ts f st) = st"
    by (cases "extract_text_from_file rd (up_content_type f) (up_bytes f)")
       (auto simp: upload_report_extract_fails upload_report_short)
  then show ?thesis by simp
next
  case True
  then obtain t where ext: "extract_text_from_file rd (up_content_type f) (up_bytes f) = Inr t"
    and long: "\<not> short_text t" by blast
  define SR CI where "SR = Structure_report_prompt t" and "CI = Customer_id_prompt (py_prefix 1000 t)"
  define st1 st2 where "st1 = st\<lparr>calls := calls st @ [SR]\<rparr>" and "st2 = st\<lparr>calls := calls st @ [SR, CI]\<rparr>"
  obtain r1 where s1: "structure_content_with_ai g loads t ''report'' st = (r1, st1)"
    by (simp add: structure_content_with_ai_pair st1_def SR_def structure_prompt_def)
  note run = upload_report_structured [OF ext long s1]
  show ?thesis
  proof (cases r1)
    case (Inl e)
    then show ?thesis using ext long s1 run by (simp add: st1_def SR_def)
  next
    case (Inr rc)
    obtain cid where s2: "extract_customer_id_with_ai g t st1 = (cid, st2)"
      by (simp add: extract_customer_id_with_ai_pair st1_def st2_def CI_def)
    have calls_fetch: "calls (snd (upload_report g loads rd store clk ts f st))
        = calls (snd (fetch_insurance_policy g loads rd store clk cid st2))
          @ (case fst (fetch_insurance_policy g loads rd store clk cid st2) of
               Inl _ \<Rightarrow> [] | Inr p \<Rightarrow> [Mapping_prompt rc (structuredContent p)])"
      using run Inr s2
      by (auto simp: create_mappings_with_ai_pair split: prod.splits sum.splits option.splits)
    show ?thesis
    proof (cases "\<exists>bs pt. store = Some bs \<and> extract_text_from_docx rd bs = Inr pt")
      case False
      then have "fetch_insurance_policy g loads rd store clk cid st2 = (fst (fetch_insurance_policy g loads rd store clk cid st2), st2)"
        and "\<exists>e. fst (fetch_insurance_policy g loads rd store clk cid st2) = Inl e"
        by (auto simp: fetch_insurance_policy_def split: option.splits sum.splits)
      then show ?thesis using ext long s1 Inr calls_fetch
        by (auto simp: st2_def SR_def CI_def split: sum.splits)
    next
      case True
      then obtain bs pt where bs: "store = Some bs" and pt: "extract_text_from_docx rd bs = Inr pt" by blast
      have fc: "calls (snd (fetch_insurance_policy g loads rd store clk cid st2)) = calls st2 @ [Structure_policy_prompt pt]"
        using fetch_insurance_policy_calls [of g loads rd store clk cid st2] bs pt by simp
      have ff: "fst (fetch_insurance_policy g loads rd store clk cid st2)
          = (case fst (structure_content_with_ai g loads pt ''policy'' st2) of Inl e \<Rightarrow> Inl e
             | Inr pc \<Rightarrow> Inr \<lparr>policy_id = ''policy-'' @ cid,
                          policy_name = ''Hop dong bao hiem - '' @ cid @ ''.pdf'',
                          policy_type = ''application/pdf'', policy_size = length bs,
                          uploadDate = now_iso clk, structuredContent = pc\<rparr>)"
        using bs pt by (simp add: fetch_insurance_policy_def split: prod.splits sum.splits)
      show ?thesis using ext long s1 Inr bs pt calls_fetch fc ff
        by (cases "fst (structure_content_with_ai g loads pt ''policy'' st2)")
           (auto simp: st2_def SR_def CI_def)
    qed
  qed
qed

text \<open>
  C38. Every \<open>ProcessedReport\<close> the upload returns is well formed
  (\<open>wf_processed_report\<close>): distinct mapping keys, each a section id of the report,
  mapped to a section id of its policy, and the policy is \<open>policy-<customerId>\<close>.
\<close>

theorem upload_report_wf:
  "fst (upload_report g loads rd store clk ts f st) = Inr r \<Longrightarrow> wf_processed_report r"
proof -
  assume a: "fst (upload_report g loads rd store clk ts f st) = Inr r"
  then obtain st2 st3 where p: "fst (fetch_insurance_policy g loads rd store clk (customerId r) st2) = Inr (policy r)"
    and m: "fst (create_mappings_with_ai g loads (reportContent r) (structuredContent (policy r)) st3) = mappings r"
    using upload_report_Inr by blast
  have "set (mappings r) \<subseteq> set (map sec_id (reportContent r)) \<times> set (map sec_id (structuredContent (policy r)))
      \<and> distinct (map fst (mappings r))"
    by (metis m create_mappings_with_ai_fst coerce_mappings_inv)
  then show ?thesis using fetch_insurance_policy_Inr [OF p]
    by (auto simp: wf_processed_report_def list_all_iff)
qed

theorem upload_report_wf_witness:
  "\<exists>r. fst (upload_report (\<lambda>_ _. Reply ''x'')
          (\<lambda>_. Some (JArr [JObj [(''id'', JStr ''s1''), (''text'', JStr ''t'')]]))
          (\<lambda>_. Inr [''Dieu 1'']) (Some ''PK'') \<lparr>now_secs = 0, now_iso = ''2025-01-01T00:00:00''\<rparr> ''1.5''
          \<lparr>up_filename = ''a.txt'', up_content_type = Some ''text/plain'',
             up_bytes = ''Xe va cham tai nga tu, khach hang bi thuong nhe o chan.''\<rparr>
          \<lparr>calls = []\<rparr>) = Inr r \<and> wf_processed_report r"
proof -
  have "\<exists>r. fst (upload_report (\<lambda>_ _. Reply ''x'')
          (\<lambda>_. Some (JArr [JObj [(''id'', JStr ''s1''), (''text'', JStr ''t'')]]))
          (\<lambda>_. Inr [''Dieu 1'']) (Some ''PK'') \<lparr>now_secs = 0, now_iso = ''2025-01-01T00:00:00''\<rparr> ''1.5''
          \<lparr>up_filename = ''a.txt'', up_content_type = Some ''text/plain'',
             up_bytes = ''Xe va cham tai nga tu, khach hang bi thuong nhe o chan.''\<rparr>
          \<lparr>calls = []\<rparr>) = Inr r"
    by (simp add: upload_report_def short_text_def h_defs extract_text_from_file_def docx_mime_def py_decode_def
        str_defs structure_content_with_ai_pair extract_customer_id_with_ai_pair create_mappings_with_ai_pair
        fetch_insurance_policy_def extract_text_from_docx_def sections_eval mappings_eval
        accept_customer_id_def Let_def)
  then show ?thesis using upload_report_wf by blast
qed

text \<open>
  C39. The full analysis always answers: it never raises, makes exactly the validation
  call and then the plan call for that validation, and the plan refers to the
  validation's claim id.
\<close>

theorem full_analysis_total:
  "\<exists>resp. full_analysis g loads clk1 clk2 clk3 rq st
      = (Inr resp, st\<lparr>calls := calls st @ [Validation_prompt (vc_reportContent rq) (vc_policyContent rq) (vc_mappings rq),
                      Plan_prompt (vc_reportContent rq) (vc_policyContent rq) (Some (fa_validation resp))]\<rparr>)
     \<and> plan_claimId (fa_actionPlan resp) = claimId (fa_validation resp)"
  by (simp add: full_analysis_def h_defs validate_claim_with_ai_def suggest_action_plan_with_ai_def
      generate_def coerce_plan_claimId plan_claim_id_def)


end
