(* ===== verification/Server.thy ===== *)
theory Server
  imports Routers
begin

text \<open>
  The server as a whole: the endpoints of \<open>src/backend/routers.py\<close> dispatched on a
  request (\<open>serve\<close>), the call logs reachable by any sequence of requests
  (\<open>reachable\<close>, an inductive predicate), and the invariant that links
  consecutive calls of the log, proved by rule induction.
\<close>

text \<open>
  The libraries and the file system the handlers use, fixed for a run of the server.
\<close>

record server =
  srv_model :: model_oracle
  srv_loads :: json_loads
  srv_docx :: docx_reader
  srv_store :: policy_store
  srv_open :: image_open
  srv_convert :: image_convert
  srv_save :: "json \<Rightarrow> bool"

text \<open>
  One request to an endpoint of \<open>routers.py\<close> (or the root of \<open>main.py\<close>) with the
  readings of the clock it makes.
\<close>

datatype request =
    Upload_report_req clock string upload_file
  | Chat_req clock chat_request
  | Verify_claim_req string string
  | Calculate_max_payout_req calculate_payout_request
  | Validate_claim_req clock validate_claim_request
  | Suggest_plan_req clock suggest_plan_request
  | Full_analysis_req clock clock clock validate_claim_request
  | Claim_status_req clock string
  | Health_req clock
  | Root_req

datatype response =
    Report_resp processed_report
  | Chat_resp chat_response
  | Json_resp json
  | Payout_resp payout_response
  | Validation_resp claim_validation_result
  | Plan_resp action_plan
  | Full_analysis_resp full_analysis_response

definition h_map :: "('a \<Rightarrow> 'b) \<Rightarrow> 'a handler \<Rightarrow> 'b handler" where
  "h_map f m = h_bind m (\<lambda>a. h_return (f a))"

text \<open>The FastAPI routing: the handler of each endpoint.\<close>

fun serve :: "server \<Rightarrow> request \<Rightarrow> response handler" where
  "serve s (Upload_report_req clk ts f) =
     h_map Report_resp (upload_report (srv_model s) (srv_loads s) (srv_docx s) (srv_store s) clk ts f)"
| "serve s (Chat_req clk rq) = h_map Chat_resp (chat (srv_model s) clk rq)"
| "serve s (Verify_claim_req c d) = h_map Json_resp (verify_claim (srv_model s) (srv_open s) (srv_convert s) c d)"
| "serve s (Calculate_max_payout_req rq) = h_map Payout_resp (calculate_max_payout (srv_model s) (srv_save s) rq)"
| "serve s (Validate_claim_req clk rq) = h_map Validation_resp (validate_claim (srv_model s) (srv_loads s) clk rq)"
| "serve s (Suggest_plan_req clk rq) = h_map Plan_resp (suggest_plan (srv_model s) (srv_loads s) clk rq)"
| "serve s (Full_analysis_req c1 c2 c3 rq) =
     h_map Full_analysis_resp (full_analysis (srv_model s) (srv_loads s) c1 c2 c3 rq)"
| "serve s (Claim_status_req clk i) = h_return (Json_resp (get_claim_status clk i))"
| "serve s (Health_req clk) = h_return (Json_resp (health_check clk))"
| "serve s Root_req = h_return (Json_resp root)"

text \<open>
  The call logs a running server can reach. Between its first \<open>await\<close> (reading the
  upload) and its return, a handler makes its model calls with blocking
  \<open>generate_content\<close>, which does not yield to the event loop, so the calls of two
  requests are never interleaved and a run is a sequence of whole requests.
\<close>

inductive reachable :: "server \<Rightarrow> gw_state \<Rightarrow> bool" for s where
  start: "reachable s \<lparr>calls = []\<rparr>"
| step: "reachable s st \<Longrightarrow> reachable s (snd (serve s rq st))"

text \<open>
  The links between consecutive calls of the log: a customer-id call follows the
  structuring of the report it reads, a policy structuring follows a customer-id call,
  a mapping follows a policy structuring, and a comparison follows an image triage
  whose reply it carries. \<open>i\<close> is the index of the call in the log.
\<close>

fun follows :: "model_oracle \<Rightarrow> nat \<Rightarrow> prompt option \<Rightarrow> prompt \<Rightarrow> bool" where
  "follows g i (Some (Structure_report_prompt t)) (Customer_id_prompt p) = (p = py_prefix 1000 t)"
| "follows g i _ (Customer_id_prompt p) = False"
| "follows g i (Some (Customer_id_prompt _)) (Structure_policy_prompt _) = True"
| "follows g i _ (Structure_policy_prompt _) = False"
| "follows g i (Some (Structure_policy_prompt _)) (Mapping_prompt _ _) = True"
| "follows g i _ (Mapping_prompt _ _) = False"
| "follows g i (Some (Image_triage_prompt img)) (Compare_prompt c a) = (g (i - 1) (Image_triage_prompt img) = Reply a)"
| "follows g i _ (Compare_prompt _ _) = False"
| "follows g i _ _ = True"

fun log_ok :: "model_oracle \<Rightarrow> nat \<Rightarrow> prompt option \<Rightarrow> prompt list \<Rightarrow> bool" where
  "log_ok g i prev [] = True"
| "log_ok g i prev (p # ps) = (follows g i prev p \<and> log_ok g (Suc i) (Some p) ps)"

section \<open>Lemmas\<close>

lemma log_ok_append:
  "log_ok g i prev (xs @ ys)
     \<longleftrightarrow> log_ok g i prev xs \<and> log_ok g (i + length xs) (if xs = [] then prev else Some (last xs)) ys"
  by (induction xs arbitrary: i prev) auto

lemma follows_None: "follows g i None p \<Longrightarrow> follows g i q p"
  by (cases p) auto

lemma log_ok_None: "log_ok g i None ys \<Longrightarrow> log_ok g i prev ys"
  by (cases ys) (auto intro: follows_None)

lemma log_ok_take: "log_ok g i prev xs \<Longrightarrow> log_ok g i prev (take k xs)"
  using log_ok_append [of g i prev "take k xs" "drop k xs"] by simp

lemma snd_h_except [simp]: "snd (h_except m h st) = snd (m st)"
  by (simp add: h_except_def split: prod.splits sum.splits)

lemma snd_h_map [simp]: "snd (h_map f m st) = snd (m st)"
  by (simp add: h_map_def h_bind_def h_return_def split: prod.splits sum.splits)

lemma snd_h_bind_return [simp]: "snd (h_bind m (\<lambda>a. h_return (f a)) st) = snd (m st)"
  by (simp add: h_bind_def h_return_def split: prod.splits sum.splits)

lemma snd_h_lift [simp]: "snd (h_lift m st) = snd (m st)"
  by (simp add: h_lift_def split: prod.splits)

text \<open>The calls of one request, whatever it is, form a well-linked block.\<close>

lemma serve_log:
  "\<exists>new. calls (snd (serve s rq st)) = calls st @ new \<and> log_ok (srv_model s) (length (calls st)) None new"
proof (cases rq)
  case (Upload_report_req clk ts f)
  obtain t pt rc pc k where "calls (snd (serve s rq st))
      = calls st @ take k [Structure_report_prompt t, Customer_id_prompt (py_prefix 1000 t),
                           Structure_policy_prompt pt, Mapping_prompt rc pc]"
    using upload_report_log Upload_report_req by fastforce
  then show ?thesis by (auto intro: log_ok_take)
next
  case (Verify_claim_req c d)
  then show ?thesis
    using verify_claim_with_image_calls [of "srv_model s" "srv_open s" "srv_convert s" c d st]
    by (auto simp: verify_claim_def)
next
  case (Calculate_max_payout_req r)
  then show ?thesis
    by (auto simp: calculate_max_payout_def calculate_payout_from_text_def generate_def
        split: prod.splits sum.splits)
next
  case (Full_analysis_req c1 c2 c3 r)
  then show ?thesis
    by (simp add: full_analysis_def h_defs validate_claim_with_ai_def suggest_action_plan_with_ai_def generate_def)
qed (auto simp: chat_def get_chat_response_eq validate_claim_def suggest_plan_def h_return_def)

section \<open>Properties\<close>

text \<open>
  C40. In every call log a running server reaches, the calls are linked as
  \<open>follows\<close> says: the four calls of an upload and the two of a cross-reference are
  consecutive and in order, and each comparison carries the reply of the triage before it.
\<close>

theorem server_log_ok: "reachable s st \<Longrightarrow> log_ok (srv_model s) 0 None (calls st)"
proof (induction rule: reachable.induct)
  case start
  then show ?case by simp
next
  case (step st rq)
  obtain new where "calls (snd (serve s rq st)) = calls st @ new"
    and "log_ok (srv_model s) (length (calls st)) None new"
    using serve_log by blast
  then show ?case using step.IH by (simp add: log_ok_append log_ok_None)
qed

theorem server_log_ok_witness:
  "log_ok (\<lambda>_ _. Reply ''ok'') 0 None
     (calls (snd (serve \<lparr>srv_model = \<lambda>_ _. Reply ''ok'', srv_loads = \<lambda>_. None, srv_docx = \<lambda>_. Inr [],
                          srv_store = None, srv_open = \<lambda>_. Inr \<lparr>img_mode = Mode_RGB, img_pixels = []\<rparr>,
                          srv_convert = Inr, srv_save = \<lambda>_. True\<rparr>
                  (Verify_claim_req ''claim'' ''jpeg'') \<lparr>calls = []\<rparr>)))"
proof -
  define S where "S = \<lparr>srv_model = \<lambda>_ _. Reply ''ok'', srv_loads = \<lambda>_. None, srv_docx = \<lambda>_. Inr [],
                         srv_store = None, srv_open = \<lambda>_. Inr \<lparr>img_mode = Mode_RGB, img_pixels = []\<rparr>,
                         srv_convert = Inr, srv_save = \<lambda>_. True\<rparr>"
  have "log_ok (srv_model S) 0 None (calls (snd (serve S (Verify_claim_req ''claim'' ''jpeg'') \<lparr>calls = []\<rparr>)))"
    by (rule server_log_ok [OF reachable.step [OF reachable.start]])
  then show ?thesis by (simp add: S_def)
qed

end
