(* ===== verification/Startup.thy ===== *)
theory Startup
  imports Prelude
begin

text \<open>
  Process start-up (\<open>src/backend/config.py\<close>, with the \<open>load_dotenv()\<close> of
  \<open>src/backend/main.py\<close> line 5 that runs before it). The process environment is a
  map from variable names to values; the \<open>.env\<close> file is the list of assignments
  python-dotenv parses from it, in file order. \<open>load_dotenv()\<close> (with its default
  \<open>override=False\<close>) sets each variable of the file that the environment does not
  already have, the last assignment of a name winning. Then the API key is read: a
  missing or empty key ends the process with exit status 1; otherwise the masked key
  is printed and the model is configured. The CORS configuration is the constant the
  code passes to the middleware.
\<close>

type_synonym environ = "string \<Rightarrow> string option"

definition load_dotenv :: "(string \<times> string) list \<Rightarrow> environ \<Rightarrow> environ" where
  "load_dotenv dotenv env =
     (\<lambda>k. case env k of Some v \<Rightarrow> Some v | None \<Rightarrow> map_of (rev dotenv) k)"

record cors_config =
  allow_origins :: "string list"
  allow_credentials :: bool
  allow_methods :: "string list"
  allow_headers :: "string list"

definition cors :: cors_config where
  "cors = \<lparr>allow_origins = [''http://localhost:3000''], allow_credentials = True,
           allow_methods = [''*''], allow_headers = [''*'']\<rparr>"

text \<open>\<open>s[-4:]\<close>: the last four characters, or all of them when there are fewer.\<close>

definition py_last4 :: "string \<Rightarrow> string" where
  "py_last4 s = concat (drop (length (py_chars s) - 4) (py_chars s))"

datatype startup =
    Exit nat "string list"
  | Started "string list" string string

definition missing_key_msg :: string where
  "missing_key_msg = ''Loi: Khong tim thay GEMINI_API_KEY. Hay chac chan file .env da duoc cau hinh.''"

text \<open>
  Lines 26--33: the log lines printed, and on success the key given to
  \<open>genai.configure\<close> and the model name.
\<close>

definition configure :: "environ \<Rightarrow> startup" where
  "configure env =
     (case env ''GEMINI_API_KEY'' of
        None \<Rightarrow> Exit 1 [missing_key_msg]
      | Some key \<Rightarrow>
          if key = [] then Exit 1 [missing_key_msg]
          else Started [''API_KEY: ...'' @ py_last4 key] key ''gemini-2.5-flash'')"

text \<open>\<open>main.py\<close> loads the file, then imports \<open>config.py\<close>, which loads it again.\<close>

definition main_startup :: "(string \<times> string) list \<Rightarrow> environ \<Rightarrow> startup" where
  "main_startup dotenv env = configure (load_dotenv dotenv (load_dotenv dotenv env))"

record bind_config =
  bind_host :: string
  bind_port :: nat

definition uvicorn_bind :: bind_config where
  "uvicorn_bind = \<lparr>bind_host = ''0.0.0.0'', bind_port = 8000\<rparr>"

section \<open>Lemmas\<close>

lemma load_dotenv_idem: "load_dotenv dotenv (load_dotenv dotenv env) = load_dotenv dotenv env"
  by (rule ext) (simp add: load_dotenv_def split: option.splits)

lemma load_dotenv_key:
  "load_dotenv dotenv env k =
     (case env k of Some v \<Rightarrow> Some v | None \<Rightarrow> map_of (rev dotenv) k)"
  by (simp add: load_dotenv_def)

text \<open>
  An exported but empty \<open>GEMINI_API_KEY\<close> hides the key of the \<open>.env\<close> file: the
  process exits although the file holds a key.
\<close>

lemma main_startup_empty_env:
  "env ''GEMINI_API_KEY'' = Some [] \<Longrightarrow> main_startup dotenv env = Exit 1 [missing_key_msg]"
  by (simp add: main_startup_def load_dotenv_idem configure_def load_dotenv_key)

text \<open>A key of at most four characters is printed whole.\<close>

lemma py_last4_short: "length (py_chars s) \<le> 4 \<Longrightarrow> py_last4 s = s"
  by (simp add: py_last4_def)

lemma main_startup_log:
  "main_startup dotenv env = Started lines key m \<Longrightarrow> lines = [''API_KEY: ...'' @ py_last4 key] \<and> m = ''gemini-2.5-flash''"
  by (auto simp: main_startup_def configure_def split: option.splits if_splits)

section \<open>Properties\<close>

text \<open>
  C26. The server starts with key \<open>k\<close> exactly when \<open>k\<close> is not empty and is the value
  of \<open>GEMINI_API_KEY\<close> in the process environment, or, when the environment has no
  such variable, its last assignment in the \<open>.env\<close> file: the environment takes
  precedence, and loading the file twice changes nothing.
\<close>

theorem main_startup_key:
  "(\<exists>lines m. main_startup dotenv env = Started lines k m) \<longleftrightarrow>
     k \<noteq> [] \<and> (case env ''GEMINI_API_KEY'' of
                  Some v \<Rightarrow> v = k
                | None \<Rightarrow> map_of (rev dotenv) ''GEMINI_API_KEY'' = Some k)"
  by (auto simp: main_startup_def load_dotenv_idem configure_def load_dotenv_key
      split: option.splits if_splits)

end
