(* ===== verification/Prompts.thy ===== *)
theory Prompts
  imports Gateway
begin

text \<open>
  The Prompt Template Library: the text each \<open>prompt\<close> of the gateway stands for. The
  templates are the three constants of \<open>src/backend/prompts.py\<close> and the f-strings of
  \<open>src/backend/services.py\<close>; \<open>prompt_parts\<close> renders a prompt into the list of parts
  the code hands to \<open>model.generate_content\<close> (a string, or a list of strings and a
  PIL image). Strings are UTF-8 byte lists as everywhere in the development, so a
  letter outside ASCII in a template is written \<open>py_chr\<close> of its code point. The
  lemmas show how a template places its fields, and that the section listings of the
  mapping prompt do not delimit a section's text: a text that contains the
  rendering of another section is read by the model as two sections.
\<close>

section \<open>Template constants\<close>

text \<open>\<open>PROMPT_PHAN_TICH_ANH\<close> (prompts.py lines 2--22).\<close>

definition prompt_phan_tich_anh :: string where
  \<open>prompt_phan_tich_anh =
     ''\<newline>''
     @ ''B'' @ py_chr 0x1EA1 @ ''n l'' @ py_chr 0x00E0 @ '' m'' @ py_chr 0x1ED9 @ ''t tr''
       @ py_chr 0x1EE3 @ '' l'' @ py_chr 0x00FD @ '' AI chuy'' @ py_chr 0x00EA @ ''n ph''
       @ py_chr 0x00E2 @ ''n t'' @ py_chr 0x00ED @ ''ch h'' @ py_chr 0x00EC @ ''nh ''
       @ py_chr 0x1EA3 @ ''nh v'' @ py_chr 0x1EDB @ ''i '' @ py_chr 0x0111 @ py_chr 0x1ED9
       @ '' ch'' @ py_chr 0x00ED @ ''nh x'' @ py_chr 0x00E1 @ ''c cao.\<newline>''
     @ ''Nhi'' @ py_chr 0x1EC7 @ ''m v'' @ py_chr 0x1EE5 @ '' c'' @ py_chr 0x1EE7 @ ''a b''
       @ py_chr 0x1EA1 @ ''n l'' @ py_chr 0x00E0 @ '' xem x'' @ py_chr 0x00E9 @ ''t h''
       @ py_chr 0x00EC @ ''nh '' @ py_chr 0x1EA3 @ ''nh '' @ py_chr 0x0111 @ py_chr 0x01B0
       @ py_chr 0x1EE3 @ ''c ng'' @ py_chr 0x01B0 @ py_chr 0x1EDD @ ''i d'' @ py_chr 0x00F9
       @ ''ng t'' @ py_chr 0x1EA3 @ ''i l'' @ py_chr 0x00EA @ ''n v'' @ py_chr 0x00E0 @ '' t''
       @ py_chr 0x1EF1 @ '' '' @ py_chr 0x0111 @ py_chr 0x1ED9 @ ''ng th'' @ py_chr 0x1EF1
       @ ''c hi'' @ py_chr 0x1EC7 @ ''n M'' @ py_chr 0x1ED8 @ ''T trong hai t'' @ py_chr 0x00E1
       @ ''c v'' @ py_chr 0x1EE5 @ '' sau:\<newline>''
     @ ''1.  **N'' @ py_chr 0x1EBE @ ''U h'' @ py_chr 0x00EC @ ''nh '' @ py_chr 0x1EA3
       @ ''nh l'' @ py_chr 0x00E0 @ '' m'' @ py_chr 0x1ED9 @ ''t v'' @ py_chr 0x1EE5 @ '' TAI N''
       @ py_chr 0x1EA0 @ ''N GIAO TH'' @ py_chr 0x00D4 @ ''NG:**\<newline>''
     @ ''    * M'' @ py_chr 0x00F4 @ '' t'' @ py_chr 0x1EA3 @ '' ng'' @ py_chr 0x1EAF @ ''n g''
       @ py_chr 0x1ECD @ ''n (1-2 c'' @ py_chr 0x00E2 @ ''u) v'' @ py_chr 0x1EC1 @ '' hi''
       @ py_chr 0x1EC7 @ ''n tr'' @ py_chr 0x01B0 @ py_chr 0x1EDD @ ''ng.\<newline>''
     @ ''    * Li'' @ py_chr 0x1EC7 @ ''t k'' @ py_chr 0x00EA @ '' c'' @ py_chr 0x00E1
       @ ''c ph'' @ py_chr 0x01B0 @ py_chr 0x01A1 @ ''ng ti'' @ py_chr 0x1EC7 @ ''n li''
       @ py_chr 0x00EA @ ''n quan (v'' @ py_chr 0x00ED @ '' d'' @ py_chr 0x1EE5 @ '': 1 ''
       @ py_chr 0x00F4 @ '' t'' @ py_chr 0x00F4 @ '' 4 ch'' @ py_chr 0x1ED7 @ '' m''
       @ py_chr 0x00E0 @ ''u tr'' @ py_chr 0x1EAF @ ''ng, 1 xe m'' @ py_chr 0x00E1 @ ''y m''
       @ py_chr 0x00E0 @ ''u '' @ py_chr 0x0111 @ py_chr 0x1ECF @ '').\<newline>''
     @ ''    * '' @ py_chr 0x0110 @ py_chr 0x00E1 @ ''nh gi'' @ py_chr 0x00E1 @ '' s''
       @ py_chr 0x01A1 @ '' b'' @ py_chr 0x1ED9 @ '' m'' @ py_chr 0x1EE9 @ ''c '' @ py_chr 0x0111
       @ py_chr 0x1ED9 @ '' h'' @ py_chr 0x01B0 @ '' h'' @ py_chr 0x1ECF @ ''ng (v''
       @ py_chr 0x00ED @ '' d'' @ py_chr 0x1EE5 @ '': '' @ py_chr 0x00F4 @ '' t'' @ py_chr 0x00F4
       @ '' m'' @ py_chr 0x00F3 @ ''p '' @ py_chr 0x0111 @ py_chr 0x1EA7 @ ''u, xe m''
       @ py_chr 0x00E1 @ ''y v'' @ py_chr 0x1EE1 @ '' y'' @ py_chr 0x1EBF @ ''m).\<newline>''
     @ ''    * **'' @ py_chr 0x0110 @ py_chr 0x1ECB @ ''nh d'' @ py_chr 0x1EA1 @ ''ng tr''
       @ py_chr 0x1EA3 @ '' v'' @ py_chr 0x1EC1 @ '':**\<newline>''
     @ ''        LO'' @ py_chr 0x1EA0 @ ''I '' @ py_chr 0x1EA2 @ ''NH: TAI N'' @ py_chr 0x1EA0
       @ ''N GIAO TH'' @ py_chr 0x00D4 @ ''NG\<newline>''
     @ ''        HI'' @ py_chr 0x1EC6 @ ''N TR'' @ py_chr 0x01AF @ py_chr 0x1EDC @ ''NG: [M''
       @ py_chr 0x00F4 @ '' t'' @ py_chr 0x1EA3 @ '']\<newline>''
     @ ''        PH'' @ py_chr 0x01AF @ py_chr 0x01A0 @ ''NG TI'' @ py_chr 0x1EC6 @ ''N: [M''
       @ py_chr 0x00F4 @ '' t'' @ py_chr 0x1EA3 @ '']\<newline>''
     @ ''        CHI TI'' @ py_chr 0x1EBE @ ''T: [M'' @ py_chr 0x00F4 @ '' t'' @ py_chr 0x1EA3
       @ '']\<newline>''
     @ ''2.  **N'' @ py_chr 0x1EBE @ ''U h'' @ py_chr 0x00EC @ ''nh '' @ py_chr 0x1EA3
       @ ''nh l'' @ py_chr 0x00E0 @ '' m'' @ py_chr 0x1ED9 @ ''t BI'' @ py_chr 0x00CA
       @ ''N LAI Y T'' @ py_chr 0x1EBE @ '', h'' @ py_chr 0x00F3 @ ''a '' @ py_chr 0x0111
       @ py_chr 0x01A1 @ ''n, ho'' @ py_chr 0x1EB7 @ ''c t'' @ py_chr 0x00E0 @ ''i li''
       @ py_chr 0x1EC7 @ ''u c'' @ py_chr 0x00F3 @ '' ch'' @ py_chr 0x1EEF @ '':**\<newline>''
     @ ''    * Tr'' @ py_chr 0x00ED @ ''ch xu'' @ py_chr 0x1EA5 @ ''t (OCR) TO''
       @ py_chr 0x00C0 @ ''N B'' @ py_chr 0x1ED8 @ '' v'' @ py_chr 0x0103 @ ''n b''
       @ py_chr 0x1EA3 @ ''n ti'' @ py_chr 0x1EBF @ ''ng Vi'' @ py_chr 0x1EC7 @ ''t c''
       @ py_chr 0x00F3 @ '' trong '' @ py_chr 0x1EA3 @ ''nh.\<newline>''
     @ ''    * **'' @ py_chr 0x0110 @ py_chr 0x1ECB @ ''nh d'' @ py_chr 0x1EA1 @ ''ng tr''
       @ py_chr 0x1EA3 @ '' v'' @ py_chr 0x1EC1 @ '':**\<newline>''
     @ ''        LO'' @ py_chr 0x1EA0 @ ''I '' @ py_chr 0x1EA2 @ ''NH: BI'' @ py_chr 0x00CA
       @ ''N LAI Y T'' @ py_chr 0x1EBE @ '' (OCR)\<newline>''
     @ ''        N'' @ py_chr 0x1ED8 @ ''I DUNG V'' @ py_chr 0x0102 @ ''N B'' @ py_chr 0x1EA2
       @ ''N:\<newline>''
     @ ''        ---\<newline>''
     @ ''        [N'' @ py_chr 0x1ED9 @ ''i dung OCR]\<newline>''
     @ ''        ---\<newline>''\<close>

text \<open>\<open>PROMPT_SO_SANH_KEYPOINTS\<close> (prompts.py lines 25--41).\<close>

definition prompt_so_sanh_keypoints :: string where
  \<open>prompt_so_sanh_keypoints =
     ''\<newline>''
     @ ''B'' @ py_chr 0x1EA1 @ ''n l'' @ py_chr 0x00E0 @ '' m'' @ py_chr 0x1ED9 @ ''t chuy''
       @ py_chr 0x00EA @ ''n gia th'' @ py_chr 0x1EA9 @ ''m '' @ py_chr 0x0111 @ py_chr 0x1ECB
       @ ''nh b'' @ py_chr 0x1ED3 @ ''i th'' @ py_chr 0x01B0 @ py_chr 0x1EDD @ ''ng b''
       @ py_chr 0x1EA3 @ ''o hi'' @ py_chr 0x1EC3 @ ''m.\<newline>''
     @ ''Nhi'' @ py_chr 0x1EC7 @ ''m v'' @ py_chr 0x1EE5 @ '' c'' @ py_chr 0x1EE7 @ ''a b''
       @ py_chr 0x1EA1 @ ''n l'' @ py_chr 0x00E0 @ '' so s'' @ py_chr 0x00E1 @ ''nh "H''
       @ py_chr 0x1ED3 @ '' s'' @ py_chr 0x01A1 @ '' y'' @ py_chr 0x00EA @ ''u c''
       @ py_chr 0x1EA7 @ ''u t'' @ py_chr 0x1EEB @ '' kh'' @ py_chr 0x00E1 @ ''ch h''
       @ py_chr 0x00E0 @ ''ng" v'' @ py_chr 0x1EDB @ ''i "B'' @ py_chr 0x00E1 @ ''o c''
       @ py_chr 0x00E1 @ ''o t'' @ py_chr 0x1EF1 @ '' '' @ py_chr 0x0111 @ py_chr 0x1ED9
       @ ''ng t'' @ py_chr 0x1EEB @ '' '' @ py_chr 0x1EA3 @ ''nh hi'' @ py_chr 0x1EC7 @ ''n tr''
       @ py_chr 0x01B0 @ py_chr 0x1EDD @ ''ng".\<newline>''
     @ ''H'' @ py_chr 0x00E3 @ ''y ph'' @ py_chr 0x00E2 @ ''n t'' @ py_chr 0x00ED @ ''ch v''
       @ py_chr 0x00E0 @ '' tr'' @ py_chr 0x1EA3 @ '' v'' @ py_chr 0x1EC1 @ '' k''
       @ py_chr 0x1EBF @ ''t qu'' @ py_chr 0x1EA3 @ '' so s'' @ py_chr 0x00E1 @ ''nh, t''
       @ py_chr 0x1EAD @ ''p trung v'' @ py_chr 0x00E0 @ ''o c'' @ py_chr 0x00E1 @ ''c ''
       @ py_chr 0x0111 @ ''i'' @ py_chr 0x1EC3 @ ''m M'' @ py_chr 0x00C2 @ ''U THU''
       @ py_chr 0x1EAA @ ''N ho'' @ py_chr 0x1EB7 @ ''c TR'' @ py_chr 0x00D9 @ ''NG KH''
       @ py_chr 0x1EDA @ ''P.\<newline>''
     @ ''\<newline>''
     @ ''H'' @ py_chr 0x00E3 @ ''y tr'' @ py_chr 0x1EA3 @ '' l'' @ py_chr 0x1EDD @ ''i theo ''
       @ py_chr 0x0111 @ py_chr 0x1ECB @ ''nh d'' @ py_chr 0x1EA1 @ ''ng sau:\<newline>''
     @ ''\<newline>''
     @ ''**K'' @ py_chr 0x1EBE @ ''T QU'' @ py_chr 0x1EA2 @ '' '' @ py_chr 0x0110
       @ py_chr 0x1ED0 @ ''I CHI'' @ py_chr 0x1EBE @ ''U:** [TR'' @ py_chr 0x00D9 @ ''NG KH''
       @ py_chr 0x1EDA @ ''P / C'' @ py_chr 0x00D3 @ '' M'' @ py_chr 0x00C2 @ ''U THU''
       @ py_chr 0x1EAA @ ''N / KH'' @ py_chr 0x00D4 @ ''NG LI'' @ py_chr 0x00CA
       @ ''N QUAN]\<newline>''
     @ ''\<newline>''
     @ ''**PH'' @ py_chr 0x00C2 @ ''N T'' @ py_chr 0x00CD @ ''CH CHI TI'' @ py_chr 0x1EBE
       @ ''T:**\<newline>''
     @ ''* **'' @ py_chr 0x0110 @ ''i'' @ py_chr 0x1EC3 @ ''m tr'' @ py_chr 0x00F9 @ ''ng kh''
       @ py_chr 0x1EDB @ ''p:**\<newline>''
     @ ''    * [Li'' @ py_chr 0x1EC7 @ ''t k'' @ py_chr 0x00EA @ '' c'' @ py_chr 0x00E1
       @ ''c chi ti'' @ py_chr 0x1EBF @ ''t m'' @ py_chr 0x00E0 @ '' c'' @ py_chr 0x1EA3
       @ '' hai v'' @ py_chr 0x0103 @ ''n b'' @ py_chr 0x1EA3 @ ''n '' @ py_chr 0x0111
       @ py_chr 0x1EC1 @ ''u m'' @ py_chr 0x00F4 @ '' t'' @ py_chr 0x1EA3 @ '' gi''
       @ py_chr 0x1ED1 @ ''ng nhau, v'' @ py_chr 0x00ED @ '' d'' @ py_chr 0x1EE5 @ '': lo''
       @ py_chr 0x1EA1 @ ''i xe, '' @ py_chr 0x0111 @ py_chr 0x1ECB @ ''a '' @ py_chr 0x0111
       @ ''i'' @ py_chr 0x1EC3 @ ''m, h'' @ py_chr 0x01B0 @ '' h'' @ py_chr 0x1ECF
       @ ''ng...]\<newline>''
     @ ''* **'' @ py_chr 0x0110 @ ''i'' @ py_chr 0x1EC3 @ ''m m'' @ py_chr 0x00E2 @ ''u thu''
       @ py_chr 0x1EAB @ ''n ho'' @ py_chr 0x1EB7 @ ''c thi'' @ py_chr 0x1EBF @ ''u th''
       @ py_chr 0x00F4 @ ''ng tin:**\<newline>''
     @ ''    * [Li'' @ py_chr 0x1EC7 @ ''t k'' @ py_chr 0x00EA @ '' c'' @ py_chr 0x00E1
       @ ''c chi ti'' @ py_chr 0x1EBF @ ''t m'' @ py_chr 0x00E0 @ '' h'' @ py_chr 0x1ED3 @ '' s''
       @ py_chr 0x01A1 @ '' y'' @ py_chr 0x00EA @ ''u c'' @ py_chr 0x1EA7 @ ''u c''
       @ py_chr 0x00F3 @ '' nh'' @ py_chr 0x01B0 @ ''ng '' @ py_chr 0x1EA3 @ ''nh kh''
       @ py_chr 0x00F4 @ ''ng th'' @ py_chr 0x1EA5 @ ''y, ho'' @ py_chr 0x1EB7 @ ''c ''
       @ py_chr 0x1EA3 @ ''nh th'' @ py_chr 0x1EA5 @ ''y nh'' @ py_chr 0x01B0 @ ''ng h''
       @ py_chr 0x1ED3 @ '' s'' @ py_chr 0x01A1 @ '' kh'' @ py_chr 0x00F4 @ ''ng ghi, ho''
       @ py_chr 0x1EB7 @ ''c m'' @ py_chr 0x00F4 @ '' t'' @ py_chr 0x1EA3 @ '' tr''
       @ py_chr 0x00E1 @ ''i ng'' @ py_chr 0x01B0 @ py_chr 0x1EE3 @ ''c nhau...]\<newline>''
     @ ''\<newline>''
     @ ''**K'' @ py_chr 0x1EBE @ ''T LU'' @ py_chr 0x1EAC @ ''N CHUNG:** ['' @ py_chr 0x0110
       @ py_chr 0x01B0 @ ''a ra nh'' @ py_chr 0x1EAD @ ''n '' @ py_chr 0x0111 @ py_chr 0x1ECB
       @ ''nh ng'' @ py_chr 0x1EAF @ ''n g'' @ py_chr 0x1ECD @ ''n v'' @ py_chr 0x1EC1 @ '' t''
       @ py_chr 0x00ED @ ''nh x'' @ py_chr 0x00E1 @ ''c th'' @ py_chr 0x1EF1 @ ''c c''
       @ py_chr 0x1EE7 @ ''a h'' @ py_chr 0x1ED3 @ '' s'' @ py_chr 0x01A1 @ '' d''
       @ py_chr 0x1EF1 @ ''a tr'' @ py_chr 0x00EA @ ''n h'' @ py_chr 0x00EC @ ''nh ''
       @ py_chr 0x1EA3 @ ''nh.]\<newline>''\<close>

text \<open>\<open>PROMPT_TINH_TOAN_TOI_DA\<close> (prompts.py lines 44--66) before its field \<open>{text}\<close> ...\<close>

definition payout_prompt_head :: string where
  \<open>payout_prompt_head =
     ''\<newline>''
     @ ''B'' @ py_chr 0x1EA0 @ ''N L'' @ py_chr 0x00C0 @ '' CHUY'' @ py_chr 0x00CA
       @ ''N GIA T'' @ py_chr 0x00CD @ ''NH TO'' @ py_chr 0x00C1 @ ''N B'' @ py_chr 0x1ED2
       @ ''I TH'' @ py_chr 0x01AF @ py_chr 0x1EDC @ ''NG B'' @ py_chr 0x1EA2 @ ''O HI''
       @ py_chr 0x1EC2 @ ''M.\<newline>''
     @ ''\<newline>''
     @ ''D'' @ py_chr 0x1EF1 @ ''a v'' @ py_chr 0x00E0 @ ''o v'' @ py_chr 0x0103 @ ''n b''
       @ py_chr 0x1EA3 @ ''n h'' @ py_chr 0x1ED3 @ '' s'' @ py_chr 0x01A1 @ '' (bao g''
       @ py_chr 0x1ED3 @ ''m c'' @ py_chr 0x1EA3 @ '' h'' @ py_chr 0x1EE3 @ ''p ''
       @ py_chr 0x0111 @ py_chr 0x1ED3 @ ''ng v'' @ py_chr 0x00E0 @ '' bi'' @ py_chr 0x00EA
       @ ''n b'' @ py_chr 0x1EA3 @ ''n tai n'' @ py_chr 0x1EA1 @ ''n), \<newline>''
     @ ''h'' @ py_chr 0x00E3 @ ''y ph'' @ py_chr 0x00E2 @ ''n t'' @ py_chr 0x00ED @ ''ch v''
       @ py_chr 0x00E0 @ '' tr'' @ py_chr 0x1EA3 @ '' v'' @ py_chr 0x1EC1 @ '' c''
       @ py_chr 0x00E1 @ ''c th'' @ py_chr 0x00F4 @ ''ng tin sau:\<newline>''
     @ ''\<newline>''
     @ ''1.  **Ph'' @ py_chr 0x00E2 @ ''n t'' @ py_chr 0x00ED @ ''ch chi ti'' @ py_chr 0x1EBF
       @ ''t:** Gi'' @ py_chr 0x1EA3 @ ''i th'' @ py_chr 0x00ED @ ''ch ng'' @ py_chr 0x1EAF
       @ ''n g'' @ py_chr 0x1ECD @ ''n c'' @ py_chr 0x00E1 @ ''c '' @ py_chr 0x0111 @ ''i''
       @ py_chr 0x1EC1 @ ''u kho'' @ py_chr 0x1EA3 @ ''n '' @ py_chr 0x00E1 @ ''p d''
       @ py_chr 0x1EE5 @ ''ng v'' @ py_chr 0x00E0 @ '' lo'' @ py_chr 0x1EA1 @ ''i tr''
       @ py_chr 0x1EEB @ '' (n'' @ py_chr 0x1EBF @ ''u c'' @ py_chr 0x00F3 @ '').\<newline>''
     @ ''2.  **expected_value:** S'' @ py_chr 0x1ED1 @ '' ti'' @ py_chr 0x1EC1 @ ''n chi tr''
       @ py_chr 0x1EA3 @ '' d'' @ py_chr 0x1EF1 @ '' ki'' @ py_chr 0x1EBF @ ''n (CH''
       @ py_chr 0x1EC8 @ '' GHI S'' @ py_chr 0x1ED0 @ '', v'' @ py_chr 0x00ED @ '' d''
       @ py_chr 0x1EE5 @ '': 75000000)\<newline>''
     @ ''3.  **recommended_range:** Kho'' @ py_chr 0x1EA3 @ ''ng chi tr'' @ py_chr 0x1EA3
       @ '' khuy'' @ py_chr 0x1EBF @ ''n ngh'' @ py_chr 0x1ECB @ '' (v'' @ py_chr 0x00ED @ '' d''
       @ py_chr 0x1EE5 @ '': [50000000, 100000000])\<newline>''
     @ ''4.  **probability_of_success:** T'' @ py_chr 0x1EF7 @ '' l'' @ py_chr 0x1EC7 @ '' th''
       @ py_chr 0x00E0 @ ''nh c'' @ py_chr 0x00F4 @ ''ng c'' @ py_chr 0x1EE7 @ ''a claim (v''
       @ py_chr 0x00ED @ '' d'' @ py_chr 0x1EE5 @ '': 85%)\<newline>''
     @ ''\<newline>''
     @ ''V'' @ py_chr 0x0102 @ ''N B'' @ py_chr 0x1EA2 @ ''N H'' @ py_chr 0x1ED2 @ '' S''
       @ py_chr 0x01A0 @ '':\<newline>''\<close>

text \<open>... and after it.\<close>

definition payout_prompt_tail :: string where
  \<open>payout_prompt_tail =
     ''\<newline>''
     @ ''\<newline>''
     @ ''---\<newline>''
     @ ''TR'' @ py_chr 0x1EA2 @ '' V'' @ py_chr 0x1EC0 @ '' K'' @ py_chr 0x1EBE @ ''T QU''
       @ py_chr 0x1EA2 @ '' (KH'' @ py_chr 0x00D4 @ ''NG C'' @ py_chr 0x00D3 @ '' MARKDOWN HO''
       @ py_chr 0x1EB6 @ ''C GHI CH'' @ py_chr 0x00DA @ ''):\<newline>''
     @ ''PH'' @ py_chr 0x00C2 @ ''N T'' @ py_chr 0x00CD @ ''CH:\<newline>''
     @ ''[Ph'' @ py_chr 0x00E2 @ ''n t'' @ py_chr 0x00ED @ ''ch chi ti'' @ py_chr 0x1EBF
       @ ''t c'' @ py_chr 0x1EE7 @ ''a b'' @ py_chr 0x1EA1 @ ''n...]\<newline>''
     @ ''\<newline>''
     @ ''expected_value: [S'' @ py_chr 0x1ED0 @ '' TI'' @ py_chr 0x1EC0 @ ''N]\<newline>''
     @ ''recommended_range: [KHO'' @ py_chr 0x1EA2 @ ''NG]\<newline>''
     @ ''probability_of_success: [T'' @ py_chr 0x1EF6 @ '' L'' @ py_chr 0x1EC6
       @ '']\<newline>''\<close>

text \<open>A constant piece of the f-string of \<open>structure_content_with_ai\<close> (services.py lines 36--50).\<close>

definition report_prompt_head :: string where
  \<open>report_prompt_head =
     ''Ph'' @ py_chr 0x00E2 @ ''n t'' @ py_chr 0x00ED @ ''ch bi'' @ py_chr 0x00EA @ ''n b''
       @ py_chr 0x1EA3 @ ''n b'' @ py_chr 0x00E1 @ ''o c'' @ py_chr 0x00E1 @ ''o tai n''
       @ py_chr 0x1EA1 @ ''n b'' @ py_chr 0x1EA3 @ ''o hi'' @ py_chr 0x1EC3 @ ''m sau v''
       @ py_chr 0x00E0 @ '' chia th'' @ py_chr 0x00E0 @ ''nh c'' @ py_chr 0x00E1 @ ''c ph''
       @ py_chr 0x1EA7 @ ''n logic.\<newline>''
     @ ''        \<newline>''
     @ ''Y'' @ py_chr 0x00EA @ ''u c'' @ py_chr 0x1EA7 @ ''u:\<newline>''
     @ ''- M'' @ py_chr 0x1ED7 @ ''i ph'' @ py_chr 0x1EA7 @ ''n n'' @ py_chr 0x00EA @ ''n ch''
       @ py_chr 0x1EE9 @ ''a th'' @ py_chr 0x00F4 @ ''ng tin v'' @ py_chr 0x1EC1 @ '': m''
       @ py_chr 0x00F4 @ '' t'' @ py_chr 0x1EA3 @ '' tai n'' @ py_chr 0x1EA1 @ ''n, th''
       @ py_chr 0x00F4 @ ''ng tin kh'' @ py_chr 0x00E1 @ ''ch h'' @ py_chr 0x00E0 @ ''ng, ''
       @ py_chr 0x0111 @ ''i'' @ py_chr 0x1EC1 @ ''u tr'' @ py_chr 0x1ECB @ '', chi ph''
       @ py_chr 0x00ED @ '', ho'' @ py_chr 0x1EB7 @ ''c h'' @ py_chr 0x1ED3 @ '' s''
       @ py_chr 0x01A1 @ '' '' @ py_chr 0x0111 @ py_chr 0x00ED @ ''nh k'' @ py_chr 0x00E8
       @ ''m\<newline>''
     @ ''- T'' @ py_chr 0x1EA1
       @ ''o ID theo format: report_sec_A, report_sec_B, report_sec_C, v.v.\<newline>''
     @ ''- M'' @ py_chr 0x1ED7 @ ''i ph'' @ py_chr 0x1EA7 @ ''n n'' @ py_chr 0x00EA @ ''n c''
       @ py_chr 0x00F3 @ '' t'' @ py_chr 0x1EEB @ '' 2-5 c'' @ py_chr 0x00E2 @ ''u, r''
       @ py_chr 0x00F5 @ '' r'' @ py_chr 0x00E0 @ ''ng v'' @ py_chr 0x00E0 @ '' s''
       @ py_chr 0x00FA @ ''c t'' @ py_chr 0x00ED @ ''ch\<newline>''
     @ ''\<newline>''
     @ ''Text bi'' @ py_chr 0x00EA @ ''n b'' @ py_chr 0x1EA3 @ ''n:\<newline>''\<close>

text \<open>A constant piece of the f-string of \<open>structure_content_with_ai\<close> (services.py lines 36--50).\<close>

definition report_prompt_tail :: string where
  \<open>report_prompt_tail =
     ''\<newline>''
     @ ''\<newline>''
     @ ''Tr'' @ py_chr 0x1EA3 @ '' v'' @ py_chr 0x1EC1 @ '' CH'' @ py_chr 0x00CD @ ''NH X''
       @ py_chr 0x00C1 @ ''C JSON array v'' @ py_chr 0x1EDB @ ''i format (kh'' @ py_chr 0x00F4
       @ ''ng th'' @ py_chr 0x00EA @ ''m markdown, ch'' @ py_chr 0x1EC9 @ '' JSON thu''
       @ py_chr 0x1EA7 @ ''n):\<newline>''
     @ ''[\<newline>''
     @ ''  {"id": "report_sec_A", "text": "n'' @ py_chr 0x1ED9 @ ''i dung ph'' @ py_chr 0x1EA7
       @ ''n A"},\<newline>''
     @ ''  {"id": "report_sec_B", "text": "n'' @ py_chr 0x1ED9 @ ''i dung ph'' @ py_chr 0x1EA7
       @ ''n B"}\<newline>''
     @ '']''\<close>

text \<open>A constant piece of the f-string of \<open>structure_content_with_ai\<close> (services.py lines 52--66).\<close>

definition policy_prompt_head :: string where
  \<open>policy_prompt_head =
     ''Ph'' @ py_chr 0x00E2 @ ''n t'' @ py_chr 0x00ED @ ''ch h'' @ py_chr 0x1EE3 @ ''p ''
       @ py_chr 0x0111 @ py_chr 0x1ED3 @ ''ng b'' @ py_chr 0x1EA3 @ ''o hi'' @ py_chr 0x1EC3
       @ ''m sau v'' @ py_chr 0x00E0 @ '' chia th'' @ py_chr 0x00E0 @ ''nh c'' @ py_chr 0x00E1
       @ ''c '' @ py_chr 0x0111 @ ''i'' @ py_chr 0x1EC1 @ ''u kho'' @ py_chr 0x1EA3 @ ''n ch''
       @ py_chr 0x00ED @ ''nh.\<newline>''
     @ ''\<newline>''
     @ ''Y'' @ py_chr 0x00EA @ ''u c'' @ py_chr 0x1EA7 @ ''u:\<newline>''
     @ ''- M'' @ py_chr 0x1ED7 @ ''i '' @ py_chr 0x0111 @ ''i'' @ py_chr 0x1EC1 @ ''u kho''
       @ py_chr 0x1EA3 @ ''n n'' @ py_chr 0x00EA @ ''n r'' @ py_chr 0x00F5 @ '' r''
       @ py_chr 0x00E0 @ ''ng v'' @ py_chr 0x1EC1 @ '' quy'' @ py_chr 0x1EC1 @ ''n l''
       @ py_chr 0x1EE3 @ ''i, tr'' @ py_chr 0x00E1 @ ''ch nhi'' @ py_chr 0x1EC7 @ ''m, ho''
       @ py_chr 0x1EB7 @ ''c '' @ py_chr 0x0111 @ ''i'' @ py_chr 0x1EC1 @ ''u ki''
       @ py_chr 0x1EC7 @ ''n\<newline>''
     @ ''- T'' @ py_chr 0x1EA1
       @ ''o ID theo format: policy_sec_1, policy_sec_2, policy_sec_3, v.v.\<newline>''
     @ ''- T'' @ py_chr 0x1EAD @ ''p trung v'' @ py_chr 0x00E0 @ ''o c'' @ py_chr 0x00E1
       @ ''c '' @ py_chr 0x0111 @ ''i'' @ py_chr 0x1EC1 @ ''u kho'' @ py_chr 0x1EA3 @ ''n v''
       @ py_chr 0x1EC1 @ '' tai n'' @ py_chr 0x1EA1 @ ''n, chi ph'' @ py_chr 0x00ED @ '' y t''
       @ py_chr 0x1EBF @ '', lo'' @ py_chr 0x1EA1 @ ''i tr'' @ py_chr 0x1EEB @ '', v''
       @ py_chr 0x00E0 @ '' th'' @ py_chr 0x1EE7 @ '' t'' @ py_chr 0x1EE5 @ ''c b''
       @ py_chr 0x1ED3 @ ''i th'' @ py_chr 0x01B0 @ py_chr 0x1EDD @ ''ng\<newline>''
     @ ''\<newline>''
     @ ''Text h'' @ py_chr 0x1EE3 @ ''p '' @ py_chr 0x0111 @ py_chr 0x1ED3 @ ''ng:\<newline>''\<close>

text \<open>A constant piece of the f-string of \<open>structure_content_with_ai\<close> (services.py lines 52--66).\<close>

definition policy_prompt_tail :: string where
  \<open>policy_prompt_tail =
     ''\<newline>''
     @ ''\<newline>''
     @ ''Tr'' @ py_chr 0x1EA3 @ '' v'' @ py_chr 0x1EC1 @ '' CH'' @ py_chr 0x00CD @ ''NH X''
       @ py_chr 0x00C1 @ ''C JSON array v'' @ py_chr 0x1EDB @ ''i format (kh'' @ py_chr 0x00F4
       @ ''ng th'' @ py_chr 0x00EA @ ''m markdown, ch'' @ py_chr 0x1EC9 @ '' JSON thu''
       @ py_chr 0x1EA7 @ ''n):\<newline>''
     @ ''[\<newline>''
     @ ''  {"id": "policy_sec_1", "text": "n'' @ py_chr 0x1ED9 @ ''i dung '' @ py_chr 0x0111
       @ ''i'' @ py_chr 0x1EC1 @ ''u kho'' @ py_chr 0x1EA3 @ ''n 1"},\<newline>''
     @ ''  {"id": "policy_sec_2", "text": "n'' @ py_chr 0x1ED9 @ ''i dung '' @ py_chr 0x0111
       @ ''i'' @ py_chr 0x1EC1 @ ''u kho'' @ py_chr 0x1EA3 @ ''n 2"}\<newline>''
     @ '']''\<close>

text \<open>A constant piece of the f-string of \<open>extract_customer_id_with_ai\<close> (services.py lines 105--116).\<close>

definition customer_id_prompt_head :: string where
  \<open>customer_id_prompt_head =
     ''T'' @ py_chr 0x1EEB @ '' v'' @ py_chr 0x0103 @ ''n b'' @ py_chr 0x1EA3 @ ''n bi''
       @ py_chr 0x00EA @ ''n b'' @ py_chr 0x1EA3 @ ''n b'' @ py_chr 0x1EA3 @ ''o hi''
       @ py_chr 0x1EC3 @ ''m sau, h'' @ py_chr 0x00E3 @ ''y t'' @ py_chr 0x00EC @ ''m v''
       @ py_chr 0x00E0 @ '' tr'' @ py_chr 0x1EA3 @ '' v'' @ py_chr 0x1EC1 @ '' M''
       @ py_chr 0x00C3 @ '' KH'' @ py_chr 0x00C1 @ ''CH H'' @ py_chr 0x00C0 @ ''NG ho''
       @ py_chr 0x1EB7 @ ''c S'' @ py_chr 0x1ED1 @ '' H'' @ py_chr 0x1EE2 @ ''P ''
       @ py_chr 0x0110 @ py_chr 0x1ED2 @ ''NG b'' @ py_chr 0x1EA3 @ ''o hi'' @ py_chr 0x1EC3
       @ ''m.\<newline>''
     @ ''\<newline>''
     @ ''C'' @ py_chr 0x00E1 @ ''c pattern th'' @ py_chr 0x01B0 @ py_chr 0x1EDD @ ''ng g''
       @ py_chr 0x1EB7 @ ''p:\<newline>''
     @ ''- "ID: XXX" ho'' @ py_chr 0x1EB7 @ ''c "M'' @ py_chr 0x00E3 @ '' KH: XXX"\<newline>''
     @ ''- "S'' @ py_chr 0x1ED1 @ '' H'' @ py_chr 0x0110 @ '': XXX" ho'' @ py_chr 0x1EB7
       @ ''c "S'' @ py_chr 0x1ED1 @ '' h'' @ py_chr 0x1EE3 @ ''p '' @ py_chr 0x0111
       @ py_chr 0x1ED3 @ ''ng: XXX"\<newline>''
     @ ''- "CMND/CCCD: XXX"\<newline>''
     @ ''- M'' @ py_chr 0x00E3 @ '' c'' @ py_chr 0x00F3 @ '' d'' @ py_chr 0x1EA1
       @ ''ng BH-XXXXX, INS-XXXXX, ho'' @ py_chr 0x1EB7 @ ''c s'' @ py_chr 0x1ED1 @ '' d''
       @ py_chr 0x00E0 @ ''i\<newline>''
     @ ''\<newline>''
     @ ''Text bi'' @ py_chr 0x00EA @ ''n b'' @ py_chr 0x1EA3 @ ''n:\<newline>''\<close>

text \<open>A constant piece of the f-string of \<open>extract_customer_id_with_ai\<close> (services.py lines 105--116).\<close>

definition customer_id_prompt_tail :: string where
  \<open>customer_id_prompt_tail =
     ''\<newline>''
     @ ''\<newline>''
     @ ''Ch'' @ py_chr 0x1EC9 @ '' tr'' @ py_chr 0x1EA3 @ '' v'' @ py_chr 0x1EC1 @ '' M''
       @ py_chr 0x00C3 @ '' KH'' @ py_chr 0x00C1 @ ''CH H'' @ py_chr 0x00C0 @ ''NG duy nh''
       @ py_chr 0x1EA5 @ ''t, kh'' @ py_chr 0x00F4 @ ''ng gi'' @ py_chr 0x1EA3 @ ''i th''
       @ py_chr 0x00ED @ ''ch. N'' @ py_chr 0x1EBF @ ''u kh'' @ py_chr 0x00F4 @ ''ng t''
       @ py_chr 0x00EC @ ''m th'' @ py_chr 0x1EA5 @ ''y, tr'' @ py_chr 0x1EA3 @ '' v''
       @ py_chr 0x1EC1 @ '' "UNKNOWN".''\<close>

text \<open>A constant piece of the f-string of \<open>create_mappings_with_ai\<close> (services.py lines 161--177).\<close>

definition mapping_prompt_head :: string where
  \<open>mapping_prompt_head =
     ''B'' @ py_chr 0x1EA1 @ ''n l'' @ py_chr 0x00E0 @ '' chuy'' @ py_chr 0x00EA
       @ ''n gia b'' @ py_chr 0x1EA3 @ ''o hi'' @ py_chr 0x1EC3 @ ''m. H'' @ py_chr 0x00E3
       @ ''y ph'' @ py_chr 0x00E2 @ ''n t'' @ py_chr 0x00ED @ ''ch v'' @ py_chr 0x00E0 @ '' t''
       @ py_chr 0x1EA1 @ ''o li'' @ py_chr 0x00EA @ ''n k'' @ py_chr 0x1EBF @ ''t gi''
       @ py_chr 0x1EEF @ ''a c'' @ py_chr 0x00E1 @ ''c ph'' @ py_chr 0x1EA7 @ ''n trong BI''
       @ py_chr 0x00CA @ ''N B'' @ py_chr 0x1EA2 @ ''N v'' @ py_chr 0x00E0 @ '' ''
       @ py_chr 0x0110 @ ''I'' @ py_chr 0x1EC0 @ ''U KHO'' @ py_chr 0x1EA2 @ ''N B''
       @ py_chr 0x1EA2 @ ''O HI'' @ py_chr 0x1EC2 @ ''M.\<newline>''
     @ ''\<newline>''
     @ ''BI'' @ py_chr 0x00CA @ ''N B'' @ py_chr 0x1EA2 @ ''N:\<newline>''\<close>

text \<open>A constant piece of the f-string of \<open>create_mappings_with_ai\<close> (services.py lines 161--177).\<close>

definition mapping_prompt_mid :: string where
  \<open>mapping_prompt_mid =
     ''\<newline>''
     @ ''\<newline>''
     @ ''H'' @ py_chr 0x1EE2 @ ''P '' @ py_chr 0x0110 @ py_chr 0x1ED2 @ ''NG B''
       @ py_chr 0x1EA2 @ ''O HI'' @ py_chr 0x1EC2 @ ''M:\<newline>''\<close>

text \<open>A constant piece of the f-string of \<open>create_mappings_with_ai\<close> (services.py lines 161--177).\<close>

definition mapping_prompt_tail :: string where
  \<open>mapping_prompt_tail =
     ''\<newline>''
     @ ''\<newline>''
     @ ''Nhi'' @ py_chr 0x1EC7 @ ''m v'' @ py_chr 0x1EE5 @ '': T'' @ py_chr 0x00EC @ ''m m''
       @ py_chr 0x1ED1 @ ''i li'' @ py_chr 0x00EA @ ''n h'' @ py_chr 0x1EC7 @ '' gi''
       @ py_chr 0x1EEF @ ''a t'' @ py_chr 0x1EEB @ ''ng ph'' @ py_chr 0x1EA7 @ ''n trong bi''
       @ py_chr 0x00EA @ ''n b'' @ py_chr 0x1EA3 @ ''n v'' @ py_chr 0x1EDB @ ''i ''
       @ py_chr 0x0111 @ ''i'' @ py_chr 0x1EC1 @ ''u kho'' @ py_chr 0x1EA3 @ ''n t''
       @ py_chr 0x01B0 @ py_chr 0x01A1 @ ''ng '' @ py_chr 0x1EE9 @ ''ng trong h'' @ py_chr 0x1EE3
       @ ''p '' @ py_chr 0x0111 @ py_chr 0x1ED3 @ ''ng.\<newline>''
     @ ''\<newline>''
     @ ''Tr'' @ py_chr 0x1EA3 @ '' v'' @ py_chr 0x1EC1 @ '' CH'' @ py_chr 0x00CD @ ''NH X''
       @ py_chr 0x00C1 @ ''C JSON object v'' @ py_chr 0x1EDB @ ''i format (kh'' @ py_chr 0x00F4
       @ ''ng th'' @ py_chr 0x00EA @ ''m markdown, ch'' @ py_chr 0x1EC9 @ '' JSON thu''
       @ py_chr 0x1EA7 @ ''n):\<newline>''
     @ ''{\<newline>''
     @ ''  "report_sec_A": "policy_sec_1",\<newline>''
     @ ''  "report_sec_B": "policy_sec_2"\<newline>''
     @ ''}\<newline>''
     @ ''\<newline>''
     @ ''Ch'' @ py_chr 0x1EC9 @ '' t'' @ py_chr 0x1EA1 @ ''o mapping cho c'' @ py_chr 0x00E1
       @ ''c c'' @ py_chr 0x1EB7 @ ''p c'' @ py_chr 0x00F3 @ '' li'' @ py_chr 0x00EA
       @ ''n quan r'' @ py_chr 0x00F5 @ '' r'' @ py_chr 0x00E0 @ ''ng.''\<close>

text \<open>A constant piece of the f-string of \<open>get_chat_response\<close> (services.py lines 224--241).\<close>

definition chat_prompt_head :: string where
  \<open>chat_prompt_head =
     ''B'' @ py_chr 0x1EA1 @ ''n l'' @ py_chr 0x00E0 @ '' m'' @ py_chr 0x1ED9
       @ ''t AI Teammate ('' @ py_chr 0x0111 @ py_chr 0x1ED3 @ ''ng nghi'' @ py_chr 0x1EC7
       @ ''p AI) chuy'' @ py_chr 0x00EA @ ''n v'' @ py_chr 0x1EC1 @ '' nghi'' @ py_chr 0x1EC7
       @ ''p v'' @ py_chr 0x1EE5 @ '' b'' @ py_chr 0x1EA3 @ ''o hi'' @ py_chr 0x1EC3
       @ ''m, \<newline>''
     @ py_chr 0x0111 @ ''ang h'' @ py_chr 0x1ED7 @ '' tr'' @ py_chr 0x1EE3 @ '' cho m''
       @ py_chr 0x1ED9 @ ''t nh'' @ py_chr 0x00E2 @ ''n vi'' @ py_chr 0x00EA @ ''n th''
       @ py_chr 0x1EA9 @ ''m '' @ py_chr 0x0111 @ py_chr 0x1ECB @ ''nh (con ng'' @ py_chr 0x01B0
       @ py_chr 0x1EDD @ ''i).\<newline>''
     @ ''\<newline>''
     @ ''B'' @ py_chr 0x1ED0 @ ''I C'' @ py_chr 0x1EA2 @ ''NH H'' @ py_chr 0x1ED2 @ '' S''
       @ py_chr 0x01A0 @ '':\<newline>''\<close>

text \<open>A constant piece of the f-string of \<open>get_chat_response\<close> (services.py lines 224--241).\<close>

definition chat_prompt_mid :: string where
  \<open>chat_prompt_mid =
     ''\<newline>''
     @ ''\<newline>''
     @ ''C'' @ py_chr 0x00C2 @ ''U H'' @ py_chr 0x1ECE @ ''I T'' @ py_chr 0x1EEA @ '' ''
       @ py_chr 0x0110 @ py_chr 0x1ED2 @ ''NG NGHI'' @ py_chr 0x1EC6 @ ''P:\<newline>''\<close>

text \<open>A constant piece of the f-string of \<open>get_chat_response\<close> (services.py lines 224--241).\<close>

definition chat_prompt_tail :: string where
  \<open>chat_prompt_tail =
     ''\<newline>''
     @ ''\<newline>''
     @ ''NHI'' @ py_chr 0x1EC6 @ ''M V'' @ py_chr 0x1EE4 @ '':\<newline>''
     @ ''Tr'' @ py_chr 0x1EA3 @ '' l'' @ py_chr 0x1EDD @ ''i c'' @ py_chr 0x00E2 @ ''u h''
       @ py_chr 0x1ECF @ ''i c'' @ py_chr 0x1EE7 @ ''a '' @ py_chr 0x0111 @ py_chr 0x1ED3
       @ ''ng nghi'' @ py_chr 0x1EC7 @ ''p m'' @ py_chr 0x1ED9 @ ''t c'' @ py_chr 0x00E1
       @ ''ch chuy'' @ py_chr 0x00EA @ ''n nghi'' @ py_chr 0x1EC7 @ ''p, s'' @ py_chr 0x00FA
       @ ''c t'' @ py_chr 0x00ED @ ''ch v'' @ py_chr 0x00E0 @ '' '' @ py_chr 0x0111 @ ''i th''
       @ py_chr 0x1EB3 @ ''ng v'' @ py_chr 0x00E0 @ ''o v'' @ py_chr 0x1EA5 @ ''n ''
       @ py_chr 0x0111 @ py_chr 0x1EC1 @ ''.\<newline>''
     @ ''\<newline>''
     @ ''QUY T'' @ py_chr 0x1EAE @ ''C '' @ py_chr 0x0110 @ py_chr 0x1ECA @ ''NH D''
       @ py_chr 0x1EA0 @ ''NG (R'' @ py_chr 0x1EA4 @ ''T QUAN TR'' @ py_chr 0x1ECC
       @ ''NG):\<newline>''
     @ ''1.  **Ch'' @ py_chr 0x1EC9 @ '' s'' @ py_chr 0x1EED @ '' d'' @ py_chr 0x1EE5
       @ ''ng v'' @ py_chr 0x0103 @ ''n b'' @ py_chr 0x1EA3 @ ''n thu'' @ py_chr 0x1EA7
       @ ''n (plain text).**\<newline>''
     @ ''2.  S'' @ py_chr 0x1EED @ '' d'' @ py_chr 0x1EE5 @ ''ng ng'' @ py_chr 0x1EAF @ ''t d''
       @ py_chr 0x00F2 @ ''ng (`\<newline>''
     @ ''`) '' @ py_chr 0x0111 @ py_chr 0x1EC3 @ '' t'' @ py_chr 0x00E1 @ ''ch c''
       @ py_chr 0x00E1 @ ''c '' @ py_chr 0x00FD @ '' ho'' @ py_chr 0x1EB7 @ ''c ''
       @ py_chr 0x0111 @ ''o'' @ py_chr 0x1EA1 @ ''n v'' @ py_chr 0x0103 @ ''n.\<newline>''
     @ ''3.  **TUY'' @ py_chr 0x1EC6 @ ''T '' @ py_chr 0x0110 @ py_chr 0x1ED0 @ ''I KH''
       @ py_chr 0x00D4 @ ''NG** s'' @ py_chr 0x1EED @ '' d'' @ py_chr 0x1EE5 @ ''ng b''
       @ py_chr 0x1EA5 @ ''t k'' @ py_chr 0x1EF3 @ '' '' @ py_chr 0x0111 @ py_chr 0x1ECB
       @ ''nh d'' @ py_chr 0x1EA1 @ ''ng Markdown n'' @ py_chr 0x00E0 @ ''o (kh'' @ py_chr 0x00F4
       @ ''ng d'' @ py_chr 0x00F9 @ ''ng `**in '' @ py_chr 0x0111 @ py_chr 0x1EAD @ ''m**`, `*g''
       @ py_chr 0x1EA1 @ ''ch '' @ py_chr 0x0111 @ py_chr 0x1EA7 @ ''u d'' @ py_chr 0x00F2
       @ ''ng*`, `- g'' @ py_chr 0x1EA1 @ ''ch '' @ py_chr 0x0111 @ py_chr 0x1EA7 @ ''u d''
       @ py_chr 0x00F2 @ ''ng`, `# heading`).\<newline>''
     @ ''\<newline>''
     @ ''H'' @ py_chr 0x00E3 @ ''y tr'' @ py_chr 0x1EA3 @ '' l'' @ py_chr 0x1EDD @ ''i ngay b''
       @ py_chr 0x00E2 @ ''y gi'' @ py_chr 0x1EDD @ ''.''\<close>

text \<open>A constant piece of the f-string of \<open>validate_claim_with_ai\<close> (services.py lines 258--301).\<close>

definition validation_prompt_head :: string where
  \<open>validation_prompt_head =
     ''B'' @ py_chr 0x1EA1 @ ''n l'' @ py_chr 0x00E0 @ '' chuy'' @ py_chr 0x00EA
       @ ''n gia th'' @ py_chr 0x1EA9 @ ''m '' @ py_chr 0x0111 @ py_chr 0x1ECB @ ''nh b''
       @ py_chr 0x1EA3 @ ''o hi'' @ py_chr 0x1EC3 @ ''m. H'' @ py_chr 0x00E3 @ ''y ph''
       @ py_chr 0x00E2 @ ''n t'' @ py_chr 0x00ED @ ''ch v'' @ py_chr 0x00E0 @ '' ''
       @ py_chr 0x0111 @ py_chr 0x00E1 @ ''nh gi'' @ py_chr 0x00E1 @ '' y'' @ py_chr 0x00EA
       @ ''u c'' @ py_chr 0x1EA7 @ ''u b'' @ py_chr 0x1ED3 @ ''i th'' @ py_chr 0x01B0
       @ py_chr 0x1EDD @ ''ng sau:\<newline>''
     @ ''\<newline>''
     @ ''BI'' @ py_chr 0x00CA @ ''N B'' @ py_chr 0x1EA2 @ ''N B'' @ py_chr 0x00C1 @ ''O C''
       @ py_chr 0x00C1 @ ''O:\<newline>''\<close>

text \<open>A constant piece of the f-string of \<open>validate_claim_with_ai\<close> (services.py lines 258--301).\<close>

definition validation_prompt_mid1 :: string where
  \<open>validation_prompt_mid1 =
     ''\<newline>''
     @ ''\<newline>''
     @ ''H'' @ py_chr 0x1EE2 @ ''P '' @ py_chr 0x0110 @ py_chr 0x1ED2 @ ''NG B''
       @ py_chr 0x1EA2 @ ''O HI'' @ py_chr 0x1EC2 @ ''M:\<newline>''\<close>

text \<open>A constant piece of the f-string of \<open>validate_claim_with_ai\<close> (services.py lines 258--301).\<close>

definition validation_prompt_mid2 :: string where
  \<open>validation_prompt_mid2 =
     ''\<newline>''
     @ ''\<newline>''
     @ ''LI'' @ py_chr 0x00CA @ ''N K'' @ py_chr 0x1EBE @ ''T GI'' @ py_chr 0x1EEE @ ''A BI''
       @ py_chr 0x00CA @ ''N B'' @ py_chr 0x1EA2 @ ''N V'' @ py_chr 0x00C0 @ '' H''
       @ py_chr 0x1EE2 @ ''P '' @ py_chr 0x0110 @ py_chr 0x1ED2 @ ''NG:\<newline>''\<close>

text \<open>A constant piece of the f-string of \<open>validate_claim_with_ai\<close> (services.py lines 258--301).\<close>

definition validation_prompt_tail :: string where
  \<open>validation_prompt_tail =
     ''\<newline>''
     @ ''\<newline>''
     @ ''Nhi'' @ py_chr 0x1EC7 @ ''m v'' @ py_chr 0x1EE5 @ '':\<newline>''
     @ ''1. X'' @ py_chr 0x00E1 @ ''c '' @ py_chr 0x0111 @ py_chr 0x1ECB @ ''nh xem **claim c''
       @ py_chr 0x00F3 @ '' h'' @ py_chr 0x1EE3 @ ''p l'' @ py_chr 0x1EC7 @ '' hay kh''
       @ py_chr 0x00F4 @ ''ng**.\<newline>''
     @ ''2. Ki'' @ py_chr 0x1EC3 @ ''m tra **m'' @ py_chr 0x1EE9 @ ''c '' @ py_chr 0x0111
       @ py_chr 0x1ED9 @ '' '' @ py_chr 0x0111 @ py_chr 0x1EA7 @ ''y '' @ py_chr 0x0111
       @ py_chr 0x1EE7 @ '' c'' @ py_chr 0x1EE7 @ ''a th'' @ py_chr 0x00F4
       @ ''ng tin**.\<newline>''
     @ ''3. '' @ py_chr 0x0110 @ py_chr 0x01B0 @ ''a ra **k'' @ py_chr 0x1EBF @ ''t qu''
       @ py_chr 0x1EA3 @ '' cu'' @ py_chr 0x1ED1 @ ''i c'' @ py_chr 0x00F9 @ ''ng** g''
       @ py_chr 0x1ED3 @ ''m tr'' @ py_chr 0x1EA1 @ ''ng th'' @ py_chr 0x00E1 @ ''i, ''
       @ py_chr 0x0111 @ py_chr 0x1ED9 @ '' tin c'' @ py_chr 0x1EAD @ ''y, s'' @ py_chr 0x1ED1
       @ '' ti'' @ py_chr 0x1EC1 @ ''n '' @ py_chr 0x01B0 @ py_chr 0x1EDB @ ''c t''
       @ py_chr 0x00ED @ ''nh, v'' @ py_chr 0x00E0 @ '' c'' @ py_chr 0x00E1 @ ''c v''
       @ py_chr 0x1EA5 @ ''n '' @ py_chr 0x0111 @ py_chr 0x1EC1 @ ''.\<newline>''
     @ ''4. Ph'' @ py_chr 0x1EA3 @ ''n h'' @ py_chr 0x1ED3 @ ''i **duy nh'' @ py_chr 0x1EA5
       @ ''t b'' @ py_chr 0x1EB1 @ ''ng JSON h'' @ py_chr 0x1EE3 @ ''p l'' @ py_chr 0x1EC7
       @ ''**, kh'' @ py_chr 0x00F4 @ ''ng d'' @ py_chr 0x00F9 @ ''ng markdown.\<newline>''
     @ ''\<newline>''
     @ ''QUAN TR'' @ py_chr 0x1ECC @ ''NG:\<newline>''
     @ ''1. Khi t'' @ py_chr 0x1EA1 @ ''o "issues", tr'' @ py_chr 0x01B0 @ py_chr 0x1EDD
       @ ''ng "issueType" PH'' @ py_chr 0x1EA2 @ ''I L'' @ py_chr 0x00C0 @ '' M'' @ py_chr 0x1ED8
       @ ''T TRONG C'' @ py_chr 0x00C1 @ ''C GI'' @ py_chr 0x00C1 @ '' TR'' @ py_chr 0x1ECA
       @ '' SAU:\<newline>''
     @ ''   "missing_document", "exclusion_clause", "coverage_limit", "expired_policy", "incomplete_info", "conflicting_info"\<newline>''
     @ ''2. Khi t'' @ py_chr 0x1EA1 @ ''o "status" cho m'' @ py_chr 0x1ED7
       @ ''i issue: "pass", "fail", "pending".\<newline>''
     @ ''3. Khi t'' @ py_chr 0x1EA1 @ ''o "status" (t'' @ py_chr 0x1ED5 @ ''ng), PH''
       @ py_chr 0x1EA2 @ ''I L'' @ py_chr 0x00C0 @ '' M'' @ py_chr 0x1ED8 @ ''T TRONG C''
       @ py_chr 0x00C1 @ ''C GI'' @ py_chr 0x00C1 @ '' TR'' @ py_chr 0x1ECA
       @ '': "approved", "rejected", "needs_more_info", "pending_review".\<newline>''
     @ ''4. **B'' @ py_chr 0x1EAE @ ''T BU'' @ py_chr 0x1ED8 @ ''C**: Ph'' @ py_chr 0x1EA3
       @ ''i t'' @ py_chr 0x1EA1 @ ''o '' @ py_chr 0x00ED @ ''t nh'' @ py_chr 0x1EA5
       @ ''t 8-12 checklist items, bao g'' @ py_chr 0x1ED3 @ ''m C'' @ py_chr 0x1EA2 @ '' nh''
       @ py_chr 0x1EEF @ ''ng m'' @ py_chr 0x1EE5 @ ''c '' @ py_chr 0x0111 @ py_chr 0x00E3
       @ '' PASS v'' @ py_chr 0x00E0 @ '' nh'' @ py_chr 0x1EEF @ ''ng m'' @ py_chr 0x1EE5
       @ ''c FAIL/PENDING.\<newline>''
     @ ''\<newline>''
     @ ''Tr'' @ py_chr 0x1EA3 @ '' v'' @ py_chr 0x1EC1 @ '' JSON v'' @ py_chr 0x1EDB
       @ ''i format (kh'' @ py_chr 0x00F4 @ ''ng th'' @ py_chr 0x00EA
       @ ''m markdown):\<newline>''
     @ ''{\<newline>''
     @ ''  "status": "approved/rejected/needs_more_info/pending_review",\<newline>''
     @ ''  "isValid": true/false,\<newline>''
     @ ''  "confidence": 0.85,\<newline>''
     @ ''  "estimatedAmount": 50000000,\<newline>''
     @ ''  "maxCoverageAmount": 100000000,\<newline>''
     @ ''  "issues": [\<newline>''
     @ ''    {\<newline>''
     @ ''      "issueType": "incomplete_info",\<newline>''
     @ ''      "severity": "critical/warning/info",\<newline>''
     @ ''      "status": "pass/fail/pending",\<newline>''
     @ ''      "checklistItem": "T'' @ py_chr 0x00EA @ ''n m'' @ py_chr 0x1EE5 @ ''c ki''
       @ py_chr 0x1EC3 @ ''m tra c'' @ py_chr 0x1EE5 @ '' th'' @ py_chr 0x1EC3 @ '' (VD: Gi''
       @ py_chr 0x1EA5 @ ''y ra vi'' @ py_chr 0x1EC7 @ ''n)",\<newline>''
     @ ''      "description": "M'' @ py_chr 0x00F4 @ '' t'' @ py_chr 0x1EA3 @ '' chi ti''
       @ py_chr 0x1EBF @ ''t v'' @ py_chr 0x1EC1 @ '' m'' @ py_chr 0x1EE5 @ ''c n''
       @ py_chr 0x00E0 @ ''y - t'' @ py_chr 0x00EC @ ''m th'' @ py_chr 0x1EA5 @ ''y g''
       @ py_chr 0x00EC @ '', thi'' @ py_chr 0x1EBF @ ''u g'' @ py_chr 0x00EC @ '', ho''
       @ py_chr 0x1EB7 @ ''c v'' @ py_chr 0x1EA5 @ ''n '' @ py_chr 0x0111 @ py_chr 0x1EC1
       @ '' g'' @ py_chr 0x00EC @ ''",\<newline>''
     @ ''      "affectedSections": ["report_sec_A", "policy_sec_1"],\<newline>''
     @ ''      "recommendation": "H'' @ py_chr 0x00E0 @ ''nh '' @ py_chr 0x0111 @ py_chr 0x1ED9
       @ ''ng c'' @ py_chr 0x1EA7 @ ''n th'' @ py_chr 0x1EF1 @ ''c hi'' @ py_chr 0x1EC7
       @ ''n (VD: Y'' @ py_chr 0x00EA @ ''u c'' @ py_chr 0x1EA7 @ ''u b'' @ py_chr 0x1ED5
       @ '' sung gi'' @ py_chr 0x1EA5 @ ''y ra vi'' @ py_chr 0x1EC7 @ ''n c'' @ py_chr 0x00F3
       @ '' '' @ py_chr 0x0111 @ py_chr 0x00F3 @ ''ng d'' @ py_chr 0x1EA5 @ ''u b''
       @ py_chr 0x1EC7 @ ''nh vi'' @ py_chr 0x1EC7 @ ''n)"\<newline>''
     @ ''    }\<newline>''
     @ ''  ],\<newline>''
     @ ''  "summary": "T'' @ py_chr 0x00F3 @ ''m t'' @ py_chr 0x1EAF @ ''t t'' @ py_chr 0x1ED5
       @ ''ng quan: X/Y ti'' @ py_chr 0x00EA @ ''u ch'' @ py_chr 0x00ED @ '' '' @ py_chr 0x0111
       @ py_chr 0x1EA1 @ ''t, Z ti'' @ py_chr 0x00EA @ ''u ch'' @ py_chr 0x00ED @ '' c''
       @ py_chr 0x1EA7 @ ''n b'' @ py_chr 0x1ED5 @ '' sung, A ti'' @ py_chr 0x00EA @ ''u ch''
       @ py_chr 0x00ED @ '' kh'' @ py_chr 0x00F4 @ ''ng '' @ py_chr 0x0111 @ py_chr 0x1EA1
       @ ''t"\<newline>''
     @ ''}''\<close>

text \<open>A constant piece of the f-string of \<open>suggest_action_plan_with_ai\<close> (services.py lines 379--414).\<close>

definition plan_prompt_head :: string where
  \<open>plan_prompt_head =
     ''B'' @ py_chr 0x1EA1 @ ''n l'' @ py_chr 0x00E0 @ '' chuy'' @ py_chr 0x00EA
       @ ''n gia qu'' @ py_chr 0x1EA3 @ ''n l'' @ py_chr 0x00FD @ '' claims b'' @ py_chr 0x1EA3
       @ ''o hi'' @ py_chr 0x1EC3 @ ''m. D'' @ py_chr 0x1EF1 @ ''a v'' @ py_chr 0x00E0 @ ''o th''
       @ py_chr 0x00F4 @ ''ng tin sau, h'' @ py_chr 0x00E3 @ ''y '' @ py_chr 0x0111
       @ py_chr 0x1EC1 @ '' xu'' @ py_chr 0x1EA5 @ ''t k'' @ py_chr 0x1EBF @ '' ho''
       @ py_chr 0x1EA1 @ ''ch h'' @ py_chr 0x00E0 @ ''nh '' @ py_chr 0x0111 @ py_chr 0x1ED9
       @ ''ng chi ti'' @ py_chr 0x1EBF @ ''t:\<newline>''
     @ ''\<newline>''
     @ ''BI'' @ py_chr 0x00CA @ ''N B'' @ py_chr 0x1EA2 @ ''N:\<newline>''\<close>

text \<open>A constant piece of the f-string of \<open>suggest_action_plan_with_ai\<close> (services.py lines 379--414).\<close>

definition plan_prompt_mid1 :: string where
  \<open>plan_prompt_mid1 =
     ''\<newline>''
     @ ''\<newline>''
     @ ''H'' @ py_chr 0x1EE2 @ ''P '' @ py_chr 0x0110 @ py_chr 0x1ED2 @ ''NG:\<newline>''\<close>

text \<open>A constant piece of the f-string of \<open>suggest_action_plan_with_ai\<close> (services.py lines 379--414).\<close>

definition plan_prompt_mid2 :: string where
  \<open>plan_prompt_mid2 =
     ''\<newline>''
     @ ''\<newline>''\<close>

text \<open>A constant piece of the f-string of \<open>suggest_action_plan_with_ai\<close> (services.py lines 379--414).\<close>

definition plan_prompt_tail :: string where
  \<open>plan_prompt_tail =
     ''\<newline>''
     @ ''\<newline>''
     @ ''Nhi'' @ py_chr 0x1EC7 @ ''m v'' @ py_chr 0x1EE5 @ '': T'' @ py_chr 0x1EA1
       @ ''o action plan v'' @ py_chr 0x1EDB @ ''i c'' @ py_chr 0x00E1 @ ''c b'' @ py_chr 0x01B0
       @ py_chr 0x1EDB @ ''c c'' @ py_chr 0x1EE5 @ '' th'' @ py_chr 0x1EC3 @ '' ''
       @ py_chr 0x0111 @ py_chr 0x1EC3 @ '' x'' @ py_chr 0x1EED @ '' l'' @ py_chr 0x00FD
       @ '' claim n'' @ py_chr 0x00E0 @ ''y. M'' @ py_chr 0x1ED7 @ ''i action c'' @ py_chr 0x1EA7
       @ ''n:\<newline>''
     @ ''- Title r'' @ py_chr 0x00F5 @ '' r'' @ py_chr 0x00E0 @ ''ng\<newline>''
     @ ''- Description chi ti'' @ py_chr 0x1EBF @ ''t\<newline>''
     @ ''- Priority (high/medium/low)\<newline>''
     @ ''- Estimated time\<newline>''
     @ ''- Related sections\<newline>''
     @ ''\<newline>''
     @ ''Tr'' @ py_chr 0x1EA3 @ '' v'' @ py_chr 0x1EC1 @ '' JSON v'' @ py_chr 0x1EDB
       @ ''i format (kh'' @ py_chr 0x00F4 @ ''ng th'' @ py_chr 0x00EA
       @ ''m markdown):\<newline>''
     @ ''{\<newline>''
     @ ''  "status": "approved/rejected/needs_more_info/pending_review",\<newline>''
     @ ''  "actions": [\<newline>''
     @ ''    {\<newline>''
     @ ''      "id": "action_1",\<newline>''
     @ ''      "title": "X'' @ py_chr 0x00E1 @ ''c minh th'' @ py_chr 0x00F4 @ ''ng tin kh''
       @ py_chr 0x00E1 @ ''ch h'' @ py_chr 0x00E0 @ ''ng",\<newline>''
     @ ''      "description": "Chi ti'' @ py_chr 0x1EBF @ ''t c'' @ py_chr 0x1EA7 @ ''n l''
       @ py_chr 0x00E0 @ ''m g'' @ py_chr 0x00EC @ ''",\<newline>''
     @ ''      "priority": "high/medium/low",\<newline>''
     @ ''      "dueDate": "2024-12-31",\<newline>''
     @ ''      "assignee": "Claims Team/Medical Review/Finance",\<newline>''
     @ ''      "relatedSections": ["report_sec_A", "policy_sec_1"],\<newline>''
     @ ''      "estimatedTime": "2 hours"\<newline>''
     @ ''    }\<newline>''
     @ ''  ],\<newline>''
     @ ''  "totalEstimatedTime": "1 day",\<newline>''
     @ ''  "criticalPath": ["action_1", "action_3"],\<newline>''
     @ ''  "nextSteps": "T'' @ py_chr 0x00F3 @ ''m t'' @ py_chr 0x1EAF @ ''t c''
       @ py_chr 0x00E1 @ ''c b'' @ py_chr 0x01B0 @ py_chr 0x1EDB @ ''c ti'' @ py_chr 0x1EBF
       @ ''p theo"\<newline>''
     @ ''}''\<close>

text \<open>A constant piece of the f-string of \<open>suggest_action_plan_with_ai\<close> (services.py lines 371--377).\<close>

definition summary_head :: string where
  \<open>summary_head =
     ''\<newline>''
     @ ''K'' @ py_chr 0x1EBE @ ''T QU'' @ py_chr 0x1EA2 @ '' VALIDATION:\<newline>''
     @ ''- Status: ''\<close>

text \<open>A constant piece of the f-string of \<open>suggest_action_plan_with_ai\<close> (services.py lines 371--377).\<close>

definition summary_valid :: string where
  \<open>summary_valid =
     ''\<newline>''
     @ ''- Valid: ''\<close>

text \<open>A constant piece of the f-string of \<open>suggest_action_plan_with_ai\<close> (services.py lines 371--377).\<close>

definition summary_issues :: string where
  \<open>summary_issues =
     ''\<newline>''
     @ ''- Issues: ''\<close>

text \<open>A constant piece of the f-string of \<open>suggest_action_plan_with_ai\<close> (services.py lines 371--377).\<close>

definition summary_summary :: string where
  \<open>summary_summary =
     '' v'' @ py_chr 0x1EA5 @ ''n '' @ py_chr 0x0111 @ py_chr 0x1EC1 @ ''\<newline>''
     @ ''- Summary: ''\<close>

text \<open>A constant piece of the f-string of \<open>suggest_action_plan_with_ai\<close> (services.py lines 371--377).\<close>

definition summary_tail :: string where
  \<open>summary_tail =
     ''\<newline>''\<close>

text \<open>A constant piece of the f-string of \<open>verify_claim_with_image\<close> (services.py lines 488--496).\<close>

definition compare_input_head :: string where
  \<open>compare_input_head =
     ''\<newline>''
     @ ''        --- H'' @ py_chr 0x1ED2 @ '' S'' @ py_chr 0x01A0 @ '' Y'' @ py_chr 0x00CA
       @ ''U C'' @ py_chr 0x1EA6 @ ''U T'' @ py_chr 0x1EEA @ '' KH'' @ py_chr 0x00C1 @ ''CH H''
       @ py_chr 0x00C0 @ ''NG ---\<newline>''
     @ ''        ''\<close>

text \<open>A constant piece of the f-string of \<open>verify_claim_with_image\<close> (services.py lines 488--496).\<close>

definition compare_input_mid :: string where
  \<open>compare_input_mid =
     ''\<newline>''
     @ ''        --- H'' @ py_chr 0x1EBE @ ''T H'' @ py_chr 0x1ED2 @ '' S'' @ py_chr 0x01A0
       @ '' ---\<newline>''
     @ ''        \<newline>''
     @ ''        --- B'' @ py_chr 0x00C1 @ ''O C'' @ py_chr 0x00C1 @ ''O T'' @ py_chr 0x1EF0
       @ '' '' @ py_chr 0x0110 @ py_chr 0x1ED8 @ ''NG T'' @ py_chr 0x1EEA @ '' '' @ py_chr 0x1EA2
       @ ''NH HI'' @ py_chr 0x1EC6 @ ''N TR'' @ py_chr 0x01AF @ py_chr 0x1EDC
       @ ''NG ---\<newline>''
     @ ''        ''\<close>

text \<open>A constant piece of the f-string of \<open>verify_claim_with_image\<close> (services.py lines 488--496).\<close>

definition compare_input_tail :: string where
  \<open>compare_input_tail =
     ''\<newline>''
     @ ''        --- H'' @ py_chr 0x1EBE @ ''T B'' @ py_chr 0x00C1 @ ''O C'' @ py_chr 0x00C1
       @ ''O ---\<newline>''
     @ ''        ''\<close>

section \<open>Rendering\<close>

text \<open>
  One element of the list given to \<open>generate_content\<close>: a string or an image.
\<close>

datatype prompt_part = Part_text string | Part_image image

text \<open>
  \<open>f"ID: {s.id}\nN\<^bold>\<open>o\<close>i dung: {s.text}"\<close> (services.py line 158), the listing of a section in
  the mapping prompt, and \<open>f"[{s.id}] {s.text}"\<close> (lines 254 and 365), its listing in
  the validation and plan prompts.
\<close>

definition section_block :: "content_section \<Rightarrow> string" where
  "section_block s =
     ''ID: '' @ sec_id s @ ''\<newline>N'' @ py_chr 0x1ED9 @ ''i dung: '' @ sec_text s"

definition bracket_line :: "content_section \<Rightarrow> string" where
  "bracket_line s = ''['' @ sec_id s @ ''] '' @ sec_text s"

text \<open>
  \<open>json.dumps(mappings, indent=2)\<close> (line 256) for a dict of strings: \<open>{}\<close> when it is
  empty, else one \<open>"key": "value"\<close> per line, indented by two spaces.
\<close>

definition dumps_indent2 :: "(string \<times> string) list \<Rightarrow> string" where
  "dumps_indent2 kvs =
     (if kvs = [] then ''{}''
      else ''{\<newline>''
        @ py_join '',\<newline>'' (map (\<lambda>(k, v). ''  '' @ dumps_str k @ '': '' @ dumps_str v) kvs)
        @ ''\<newline>}'')"

text \<open>
  \<open>format(m)\<close> of a \<open>ClaimStatus\<close> member in an f-string: the member's qualified name, as
  \<open>Enum.__str__\<close> gives it for a \<open>(str, Enum)\<close> class from Python 3.11 on; and
  \<open>format(b)\<close> of a \<open>bool\<close>.
\<close>

primrec claim_status_repr :: "claim_status \<Rightarrow> string" where
  "claim_status_repr APPROVED = ''ClaimStatus.APPROVED''"
| "claim_status_repr REJECTED = ''ClaimStatus.REJECTED''"
| "claim_status_repr NEEDS_MORE_INFO = ''ClaimStatus.NEEDS_MORE_INFO''"
| "claim_status_repr PENDING_REVIEW = ''ClaimStatus.PENDING_REVIEW''"

definition py_bool_str :: "bool \<Rightarrow> string" where
  "py_bool_str b = (if b then ''True'' else ''False'')"

text \<open>
  \<open>validation_summary\<close> of \<open>suggest_action_plan_with_ai\<close> (lines 367--377): empty
  without a validation result (a pydantic model is always true), else the block
  that reports its status, validity, number of issues and summary.
\<close>

definition validation_summary :: "claim_validation_result option \<Rightarrow> string" where
  "validation_summary vr =
     (case vr of
        None \<Rightarrow> []
      | Some v \<Rightarrow> summary_head @ claim_status_repr (status v) @ summary_valid
                  @ py_bool_str (isValid v) @ summary_issues @ show_nat (length (issues v))
                  @ summary_summary @ summary v @ summary_tail)"

text \<open>
  The parts each prompt is sent as: the f-string of the service, or the list
  \<open>[PROMPT_PHAN_TICH_ANH, img]\<close> and \<open>[PROMPT_SO_SANH_KEYPOINTS, comparison_input_text]\<close>
  of \<open>verify_claim_with_image\<close> (lines 480--498), or the payout template with its one
  field filled in (\<open>PROMPT_TINH_TOAN_TOI_DA.format(text=contract_text)\<close>, line 519;
  the template has no other braces).
\<close>

fun prompt_parts :: "prompt \<Rightarrow> prompt_part list" where
  "prompt_parts (Structure_report_prompt t) =
     [Part_text (report_prompt_head @ t @ report_prompt_tail)]"
| "prompt_parts (Structure_policy_prompt t) =
     [Part_text (policy_prompt_head @ t @ policy_prompt_tail)]"
| "prompt_parts (Customer_id_prompt t) =
     [Part_text (customer_id_prompt_head @ t @ customer_id_prompt_tail)]"
| "prompt_parts (Mapping_prompt rep pol) =
     [Part_text (mapping_prompt_head @ py_join ''\<newline>\<newline>'' (map section_block rep)
        @ mapping_prompt_mid @ py_join ''\<newline>\<newline>'' (map section_block pol)
        @ mapping_prompt_tail)]"
| "prompt_parts (Chat_prompt context message) =
     [Part_text (chat_prompt_head @ context @ chat_prompt_mid @ message @ chat_prompt_tail)]"
| "prompt_parts (Validation_prompt rep pol maps) =
     [Part_text (validation_prompt_head @ py_join ''\<newline>'' (map bracket_line rep)
        @ validation_prompt_mid1 @ py_join ''\<newline>'' (map bracket_line pol)
        @ validation_prompt_mid2 @ dumps_indent2 maps @ validation_prompt_tail)]"
| "prompt_parts (Plan_prompt rep pol vr) =
     [Part_text (plan_prompt_head @ py_join ''\<newline>'' (map bracket_line rep)
        @ plan_prompt_mid1 @ py_join ''\<newline>'' (map bracket_line pol)
        @ plan_prompt_mid2 @ validation_summary vr @ plan_prompt_tail)]"
| "prompt_parts (Image_triage_prompt img) = [Part_text prompt_phan_tich_anh, Part_image img]"
| "prompt_parts (Compare_prompt claim_text analysis) =
     [Part_text prompt_so_sanh_keypoints,
      Part_text (compare_input_head @ claim_text @ compare_input_mid @ analysis
        @ compare_input_tail)]"
| "prompt_parts (Payout_prompt t) = [Part_text (payout_prompt_head @ t @ payout_prompt_tail)]"

section \<open>The section listings do not delimit a section\<close>

text \<open>Text appended to a section's text is appended to its listing.\<close>

lemma section_block_append: "section_block (s\<lparr>sec_text := sec_text s @ t\<rparr>) = section_block s @ t"
  by (simp add: section_block_def)

text \<open>
  C31. The mapping prompt lists the sections as \<open>ID: ...\<close> blocks separated by a
  blank line and does not escape their text. A report section whose text goes on with
  a blank line and the block of another section gives exactly the prompt of the two
  sections: the model cannot tell a section list from a different, shorter one, and
  an uploaded report can forge sections in what the model reads.
\<close>

theorem mapping_prompt_section_forgery:
  "rep @ [a, b] \<noteq> rep @ [a\<lparr>sec_text := sec_text a @ ''\<newline>\<newline>ID: '' @ sec_id b @ ''\<newline>N''
                                  @ py_chr 0x1ED9 @ ''i dung: '' @ sec_text b\<rparr>]
   \<and> prompt_parts (Mapping_prompt (rep @ [a, b]) pol)
     = prompt_parts (Mapping_prompt (rep @ [a\<lparr>sec_text := sec_text a @ ''\<newline>\<newline>ID: ''
         @ sec_id b @ ''\<newline>N'' @ py_chr 0x1ED9 @ ''i dung: '' @ sec_text b\<rparr>]) pol)"
proof
  show "prompt_parts (Mapping_prompt (rep @ [a, b]) pol) = prompt_parts (Mapping_prompt (rep @ [a\<lparr>sec_text := sec_text a @ ''\<newline>\<newline>ID: ''
         @ sec_id b @ ''\<newline>N'' @ py_chr 0x1ED9 @ ''i dung: '' @ sec_text b\<rparr>]) pol)"
    by (simp only: prompt_parts.simps map_append list.map section_block_append
        py_join_snoc_snoc py_join_snoc_append) (simp add: section_block_def)
qed simp

section \<open>The status line of the plan prompt\<close>

text \<open>
  C34. The validation block of the action-plan prompt names the status by its enum member
  (\<open>- Status: ClaimStatus.PENDING_REVIEW\<close>), never by the value the rest of the system
  and the model's reply format use (\<open>pending_review\<close>): \<open>f"{validation_result.status}"\<close>
  formats a \<open>(str, Enum)\<close> member by its name from Python 3.11 on.
\<close>

theorem plan_prompt_status_name:
  "starts_with (summary_head @ ''ClaimStatus.'') (validation_summary (Some v))
   \<and> \<not> starts_with (summary_head @ claim_status_value (status v)) (validation_summary (Some v))"
  by (cases "status v") (simp_all add: validation_summary_def starts_with_same_append starts_with_def)

end
