(* ===== verification/Spec2Isabelle.thy ===== *)
theory Spec2Isabelle
  imports Sections Mappings Validation Action_Plan Free_Text Utf8 Utils Chat Image Policy Routers Server Startup Prompts
begin

text \<open>
  \<^bold>\<open>A verification model of the insurance-claim backend (src/backend).\<close>

  \<^bold>\<open>The program.\<close> A FastAPI service. \<open>main.py\<close> mounts the router of
  \<open>routers.py\<close> under \<open>/api\<close>; each handler awaits services of \<open>services.py\<close>.
  Every service builds a prompt, sends it to a hosted language model
  (\<open>model.generate_content\<close>, \<open>config.py\<close>) and coerces the untrusted reply into the
  pydantic models of \<open>models.py\<close>, with a deterministic fallback where the reply cannot
  be used. \<open>utils.py\<close> extracts text from uploads; \<open>prompts.py\<close> holds three templates.
  The upload handler chains four services (report structuring, customer id, policy
  lookup and structuring, mapping); the full analysis chains validation and planning.

  \<^bold>\<open>Theories and what they model.\<close>
  \<^item> \<open>Prelude\<close>: Python built-ins on UTF-8 byte strings. \<open>py_chars\<close> splits the bytes into
    characters (code points). \<open>strip\<close>, \<open>split('\n\n')\<close>, \<open>join\<close>, \<open>chr\<close>, \<open>int\<close> and
    \<open>str(n)\<close> work on those characters, and \<open>\s\<close>/\<open>isspace\<close> includes the 18
    non-ASCII spaces. Also here: the values of \<open>json.loads\<close> (\<open>json\<close>) and
    \<open>json.dumps\<close>, iteration over a decoded value, exceptions (\<open>py_exc\<close>) with their
    \<open>str\<close> and their propagation (\<open>exc_bind\<close>). It proves the lemmas on strip
    that the components share (\<open>str_defs\<close>, \<open>py_strip_idem\<close>, \<open>lstrip_stripped\<close>).
  \<^item> \<open>Utf8\<close>: \<open>bytes.decode('utf-8')\<close> (strict), the well-formed sequences of
    Unicode Table 3-7. Its round trips (\<open>utf8_roundtrip\<close>, \<open>utf8_decode_roundtrip\<close>)
    show that the byte representation is faithful: encoding a code point and decoding it
    gives it back, except the surrogates, and an accepted byte string splits into
    characters, each the encoding of its own code point.
  \<^item> \<open>Models\<close> (\<open>models.py\<close>): enumerations as datatypes, models as records, pydantic
    validation of \<open>Model(**d)\<close> as option-valued constructors (v2 lax coercion).
    \<open>VerificationChecklistItem\<close>, which no code path builds, is modelled with its
    constructor and the round trip of its dump.
  \<^item> \<open>Clean\<close> (\<open>_clean_json_response\<close>): the fence-stripping regexes (C6).
  \<^item> \<open>Gateway\<close>: the model is an oracle \<open>nat \<Rightarrow> prompt \<Rightarrow> reply\<close> (the reply to
    the n-th call), so every behaviour of the external model is covered. The state
    \<open>gw_state\<close> is the log of prompts sent. A prompt is a constructor carrying the
    context its template embeds.
  \<^item> \<open>Prompts\<close> (\<open>prompts.py\<close> and the f-strings of \<open>services.py\<close>): every
    template verbatim, and \<open>prompt_parts\<close>, the text and image parts a prompt is sent
    as. C31: the section listings of the mapping prompt do not delimit a section, so a
    report text can forge further sections in what the model reads. C34: the plan
    prompt names the validation status by its enum member, not by its value.
  \<^item> \<open>Sections\<close> (\<open>structure_content_with_ai\<close>, C1--C5): element repair, paragraph
    fallback, 500 on other errors.
  \<^item> \<open>Mappings\<close> (\<open>create_mappings_with_ai\<close>, C8, C10--C12): the id filter
    as a refinement of a map contract, the positional fallback, the unhashable-value path.
  \<^item> \<open>Validation\<close> (\<open>validate_claim_with_ai\<close>, C13--C19) and \<open>Action_Plan\<close>
    (\<open>suggest_action_plan_with_ai\<close>, C20--C24): per-issue fix-ups with Python's
    semantics on non-dict entries, the default checklist item cut at 50 characters
    (C15), enum lookup, field coercion, fallbacks.
  \<^item> \<open>Py_Regex\<close>: the part of \<open>re\<close> the payout service uses. It is a backtracking
    matcher with greedy quantifiers, \<open>IGNORECASE\<close> folding and the Unicode
    \<open>\s\<close> and \<open>\d\<close> classes. A declarative language of a pattern
    (\<open>in_lang\<close>) is the reference: the matcher is complete and sound for it
    (\<open>rx_match_lang\<close>), so \<open>re.search\<close> finds a match exactly when one occurs
    (\<open>re_search_lang\<close>); \<open>extract_payout_fields_present\<close> applies this to the
    payout fields.
  \<^item> \<open>Free_Text\<close>: the customer-id extractor (C7: its prompt carries the first 1000
    characters of the report; C25) and the payout extractor (C27--C30, C32, C33, C35).
  \<^item> \<open>Utils\<close> (\<open>utils.py\<close>): content-type dispatch, strict decode, DOCX text.
  \<^item> \<open>Chat\<close>, \<open>Image\<close>, \<open>Policy\<close>: \<open>get_chat_response\<close>,
    \<open>verify_claim_with_image\<close> and \<open>fetch_insurance_policy\<close>.
  \<^item> \<open>Routers\<close> (\<open>routers.py\<close>): every handler.
    \<^item> A handler is \<open>gw_state \<Rightarrow> (py_exc + 'a) \<times> gw_state\<close>. It is composed with
      \<open>h_bind\<close>, which stops at an exception and keeps the calls already made.
    \<^item> Its \<open>except\<close> clauses are \<open>h_except\<close> with \<open>reraise_http\<close> or \<open>wrap_500\<close>.
    \<^item> The upload properties are C9 and C36--C38: undecodable text is a 500; short
      text is refused before any call; there are at most four calls, in order, each
      only after the step before it succeeded and on what that step returned; every
      result is a well-formed \<open>ProcessedReport\<close>.
    \<^item> C39: the full analysis never raises and links the plan to the validation.
  \<^item> \<open>Server\<close>: the route table (\<open>serve\<close>) and the call logs reachable by any sequence
    of requests (inductive \<open>reachable\<close>). C40 is the invariant linking consecutive
    calls, proved by rule induction. Each handler makes its model calls through the
    blocking \<open>generate_content\<close> after its only \<open>await\<close> on the upload. So requests
    do not interleave their calls, and a run is a sequence of whole requests.

  \<^item> \<open>Startup\<close> (\<open>config.py\<close>, \<open>main.py\<close>): \<open>load_dotenv\<close> without override
    (called twice), the API-key check with \<open>exit(1)\<close>, the masked key line, the
    CORS and bind constants. C26: which key the server starts with.

  \<^bold>\<open>Modelling decisions.\<close>
  \<^item> Strings are UTF-8 byte lists. \<open>len\<close>, slicing and iteration go through
    \<open>py_chars\<close>, which the UTF-8 round trips justify: \<open>s[:n]\<close> is \<open>py_prefix\<close>,
    the first \<open>n\<close> code points.
  \<^item> Vietnamese letters of the prompt templates are \<open>py_chr\<close> of their code
    point, so the templates are the source's bytes; the Vietnamese letters of error
    messages are transliterated to ASCII.
  \<^item> Floats are rationals.
  \<^item> \<open>json.loads\<close>, python-docx, PIL's \<open>open\<close>/\<open>convert\<close>, the policy file and the
    success of writing the payout file are parameters: libraries and I/O the code
    only calls. Every theorem holds for all of them.
  \<^item> \<open>datetime.now()\<close> readings are \<open>clock\<close> parameters, one per service call.
  \<^item> No loop of the program is unbounded. All definitions are total functions
    (\<open>fun\<close>/\<open>function\<close> with measures), so no fuel is needed and every handler
    returns.
  \<^item> \<open>str(e)\<close> of library exceptions is abstracted to their name.

  \<^bold>\<open>Not modelled.\<close>
  \<^item> The behaviour of the CORS middleware, of \<open>genai.configure\<close> and of uvicorn:
    only the values the code passes to them are modelled.
  \<^item> The parser of the \<open>.env\<close> file: the file is the list of assignments it yields.
  \<^item> The HTTP layer of FastAPI: request parsing, 422 responses, serialisation.
  \<^item> Pixel processing in PIL.
  \<^item> The DOCX format itself.
  \<^item> The name and layout of the payout output file.
  \<^item> CPython's limit on the digits \<open>int()\<close> converts (\<open>sys.int_max_str_digits\<close>), an
    interpreter setting: the model is the interpreter run without the limit.
  \<^item> The exponent notation of \<open>repr(float)\<close> for numbers outside \<open>[1e-4, 1e16)\<close>.
  \<^item> The response of the hosted model itself: it is the oracle, so every theorem holds
    for every reply. No theorem of termination is stated, because no loop of the program
    is unbounded: every definition is a total function.
\<close>

end
